theory Spec2Isabelle
  imports Main "HOL-Library.Word"
begin

unbundle bit_operations_syntax

section \<open>The directory inode of the overlay file system (TreeInode.cpp)\<close>

text \<open>
  A sequential model of \<^verbatim>\<open>eden/fs/inodes/TreeInode.cpp\<close>. One operation runs at a time, so
  \<^verbatim>\<open>withRLock\<close> and \<^verbatim>\<open>withWLock\<close> are plain accesses to the locked \<^verbatim>\<open>Dir\<close>. A C++ exception is
  an \<open>Inl\<close> result; the state reached when it was thrown is returned with it, because
  everything done before the throw stays done. A recursion that does not return has the
  value \<open>None\<close>.
\<close>

subsection \<open>Data model\<close>

type_synonym fuse_ino_t = nat
type_synonym PathComponent = string
type_synonym RelativePath = "PathComponent list"
type_synonym AbsolutePath = "PathComponent list"
type_synonym Hash = "160 word"
type_synonym mode_t = "32 word"
type_synonym errno = int

text \<open>The address of a heap-allocated \<^verbatim>\<open>Entry\<close>; \<open>nullptr\<close> is address 0.\<close>

type_synonym entry_ptr = nat

abbreviation nullptr :: entry_ptr where "nullptr \<equiv> 0"

definition FUSE_ROOT_ID :: fuse_ino_t where "FUSE_ROOT_ID = 1"

abbreviation ENOENT :: errno where "ENOENT \<equiv> 2"
abbreviation EIO :: errno where "EIO \<equiv> 5"
abbreviation EEXIST :: errno where "EEXIST \<equiv> 17"
abbreviation EXDEV :: errno where "EXDEV \<equiv> 18"
abbreviation ENOTDIR :: errno where "ENOTDIR \<equiv> 20"
abbreviation EISDIR :: errno where "EISDIR \<equiv> 21"
abbreviation ENOTEMPTY :: errno where "ENOTEMPTY \<equiv> 39"

abbreviation S_IFMT :: mode_t where "S_IFMT \<equiv> 61440"
abbreviation S_IFDIR :: mode_t where "S_IFDIR \<equiv> 16384"

abbreviation O_RDONLY :: "32 word" where "O_RDONLY \<equiv> 0"
abbreviation O_WRONLY :: "32 word" where "O_WRONLY \<equiv> 1"
abbreviation O_RDWR :: "32 word" where "O_RDWR \<equiv> 2"
abbreviation O_CREAT :: "32 word" where "O_CREAT \<equiv> 64"

definition S_ISDIR :: "mode_t \<Rightarrow> bool" where
  "S_ISDIR m \<longleftrightarrow> m AND S_IFMT = S_IFDIR"

text \<open>\<^verbatim>\<open>mode_to_dtype(mode) == dtype_t::Dir\<close>: the file type bits shifted down, \<^verbatim>\<open>DT_DIR\<close> is 4.\<close>

definition mode_to_dtype :: "mode_t \<Rightarrow> 32 word" where
  "mode_to_dtype m = drop_bit 12 (m AND S_IFMT)"

abbreviation dtype_Dir :: "32 word" where "dtype_Dir \<equiv> 4"

record Entry =
  mode :: mode_t
  hash :: "Hash option"
  materialized :: bool

text \<open>
  \<^verbatim>\<open>Dir::entries\<close> maps a name to an owning pointer to its \<^verbatim>\<open>Entry\<close>. It is kept as an
  association list with one slot per name; a slot holding \<open>nullptr\<close> exists only inside
  \<^verbatim>\<open>create\<close> and \<^verbatim>\<open>renameHelper\<close>, between \<^verbatim>\<open>entries[name]\<close> and the assignment to it.
\<close>

record Dir =
  entries :: "(PathComponent \<times> entry_ptr) list"
  treeHash :: "Hash option"
  dir_materialized :: bool

record TreeInode =
  tree_contents :: Dir
  tree_entry :: entry_ptr
  tree_parent :: fuse_ino_t

record TreeEntryFileInode =
  file_parent :: fuse_ino_t
  file_entry :: entry_ptr

text \<open>
  The members \<^verbatim>\<open>contents_\<close>, \<^verbatim>\<open>entry_\<close> and \<^verbatim>\<open>parent_\<close> of a \<^verbatim>\<open>TreeInode\<close> are the fields
  \<open>tree_contents\<close>, \<open>tree_entry\<close> and \<open>tree_parent\<close>.
\<close>

datatype Inode = TreeInodeObj TreeInode | FileInodeObj TreeEntryFileInode

record TreeEntry =
  te_name :: PathComponent
  te_mode :: mode_t
  te_hash :: Hash

record Tree =
  tree_hash :: Hash
  treeEntries :: "TreeEntry list"

text \<open>What the overlay stores for a directory: the \<^verbatim>\<open>Dir\<close> with every entry by value.\<close>

record OverlayDir =
  od_entries :: "(PathComponent \<times> Entry) list"
  od_treeHash :: "Hash option"
  od_materialized :: bool

datatype JournalDelta = JournalDelta "RelativePath list"

datatype syscall =
    SysMkdir AbsolutePath mode_t
  | SysOpen AbsolutePath "32 word" mode_t
  | SysFstat AbsolutePath
  | SysLstat AbsolutePath
  | SysUnlink AbsolutePath
  | SysRmdir AbsolutePath
  | SysRename AbsolutePath AbsolutePath
  | HandleFinishCreate AbsolutePath
  | HandleGetattr AbsolutePath

text \<open>
  \<open>SystemError e\<close> is \<^verbatim>\<open>folly::throwSystemErrorExplicit(e)\<close> or a failed
  \<^verbatim>\<open>checkUnixError\<close>; \<open>StoreError\<close> is a tree the object store cannot produce;
  \<open>AssertionFailure\<close> is a failed \<^verbatim>\<open>DCHECK\<close> (the value of an empty optional is taken next);
  \<open>Fault\<close> is the use of a null or dangling pointer; \<open>HandleError e\<close> is an error that
  the file inode's \<^verbatim>\<open>finishCreate\<close> or the file handle's \<^verbatim>\<open>getattr\<close> surfaces.
\<close>

datatype error = SystemError errno | StoreError | AssertionFailure | Fault | HandleError errno

text \<open>
  The mount: the dispatcher's inode table, the heap of \<^verbatim>\<open>Entry\<close> objects, the name manager,
  the object store, the overlay, the journal, and the operating system. The node id of an
  inode object is the key under which the table holds it.

  The operating system is a parameter: \<open>os s\<close> answers a system call, given the calls made
  so far, with an errno or with success (for \<^verbatim>\<open>fstat\<close> and \<^verbatim>\<open>lstat\<close>, the \<^verbatim>\<open>st_mode\<close>).
  \<open>syscalls s\<close> records every call made. The file inode and its handle
  (\<^verbatim>\<open>TreeEntryFileInode\<close>, its \<^verbatim>\<open>finishCreate\<close> and the \<^verbatim>\<open>getattr\<close> of the handle it returns)
  are not part of this file and the specification leaves them out; their two calls are
  parameters in the same way: \<open>os s\<close> answers \<open>HandleFinishCreate\<close> and \<open>HandleGetattr\<close> with an
  errno or with success (for \<^verbatim>\<open>getattr\<close>, the \<^verbatim>\<open>st_mode\<close> of the attributes), and they are
  recorded with the system calls.
\<close>

record Mount =
  inodes :: "fuse_ino_t \<rightharpoonup> Inode"
  heap :: "entry_ptr \<rightharpoonup> Entry"
  heap_next :: entry_ptr
  nm_byname :: "(fuse_ino_t \<times> PathComponent) \<rightharpoonup> fuse_ino_t"
  nm_path :: "fuse_ino_t \<Rightarrow> RelativePath"
  nm_next :: fuse_ino_t
  store :: "Hash \<rightharpoonup> Tree"
  overlayDirs :: "RelativePath \<rightharpoonup> OverlayDir"
  contentDir :: AbsolutePath
  journal :: "JournalDelta list"
  syscalls :: "syscall list"
  os :: "syscall list \<Rightarrow> syscall \<Rightarrow> errno + mode_t"

type_synonym 'a result = "(error + 'a) \<times> Mount"

subsection \<open>The heap of entries and the entry table of a directory\<close>

definition deref :: "Mount \<Rightarrow> entry_ptr \<Rightarrow> Entry option" where
  "deref s p = (if p = nullptr then None else heap s p)"

text \<open>\<^verbatim>\<open>std::make_unique<Entry>(e)\<close>: addresses are handed out in increasing order, never 0.\<close>

definition new_Entry :: "Entry \<Rightarrow> Mount \<Rightarrow> entry_ptr \<times> Mount" where
  "new_Entry e s =
     (Suc (heap_next s),
      s\<lparr>heap := (heap s)(Suc (heap_next s) \<mapsto> e), heap_next := Suc (heap_next s)\<rparr>)"

text \<open>The destructor of a \<^verbatim>\<open>unique_ptr\<close>: deletes the object unless the pointer is null.\<close>

definition delete_Entry :: "entry_ptr \<Rightarrow> Mount \<Rightarrow> Mount" where
  "delete_Entry p s = (if p = nullptr then s else s\<lparr>heap := (heap s)(p := None)\<rparr>)"

definition default_Entry :: Entry where
  "default_Entry = \<lparr>mode = 0, hash = None, materialized = False\<rparr>"

definition default_Dir :: Dir where
  "default_Dir = \<lparr>entries = [], treeHash = None, dir_materialized = False\<rparr>"

text \<open>\<^verbatim>\<open>entries.find(name)\<close>: \<open>None\<close> is \<^verbatim>\<open>entries.end()\<close>.\<close>

definition find_entry :: "Dir \<Rightarrow> PathComponent \<Rightarrow> entry_ptr option" where
  "find_entry d name = map_of (entries d) name"

text \<open>\<^verbatim>\<open>entries[name]\<close>: the slot of the name, inserted with a null pointer when absent.\<close>

definition index_entry :: "PathComponent \<Rightarrow> Dir \<Rightarrow> Dir" where
  "index_entry name d =
     (case find_entry d name of
        Some _ \<Rightarrow> d
      | None \<Rightarrow> d\<lparr>entries := entries d @ [(name, nullptr)]\<rparr>)"

text \<open>Writing a pointer into the slot of a name that has one.\<close>

definition set_slot :: "PathComponent \<Rightarrow> entry_ptr \<Rightarrow> Dir \<Rightarrow> Dir" where
  "set_slot name p d =
     d\<lparr>entries := map (\<lambda>(n, q). if n = name then (n, p) else (n, q)) (entries d)\<rparr>"

text \<open>\<^verbatim>\<open>entries.erase(iter)\<close>: the slot goes; its pointer's destructor runs separately.\<close>

definition erase_entry :: "PathComponent \<Rightarrow> Dir \<Rightarrow> Dir" where
  "erase_entry name d = d\<lparr>entries := filter (\<lambda>(n, q). n \<noteq> name) (entries d)\<rparr>"

text \<open>\<^verbatim>\<open>entries.emplace(name, p)\<close>: inserts only when the name has no slot.\<close>

definition emplace_entry :: "PathComponent \<Rightarrow> entry_ptr \<Rightarrow> Dir \<Rightarrow> bool \<times> Dir" where
  "emplace_entry name p d =
     (case find_entry d name of
        Some _ \<Rightarrow> (False, d)
      | None \<Rightarrow> (True, d\<lparr>entries := entries d @ [(name, p)]\<rparr>))"

subsection \<open>The collaborators of the directory inode\<close>

text \<open>
  Modelled from the spec: the dispatcher's inode table (\<^verbatim>\<open>getDirInode\<close>, \<^verbatim>\<open>getInode\<close>,
  \<^verbatim>\<open>recordInode\<close>), which the spec gives as \<^verbatim>\<open>lookup(id)\<close>, \<^verbatim>\<open>insert(inode)\<close>.
  \<open>getTreeInode\<close> is \<^verbatim>\<open>getDirInode\<close> followed by the dynamic cast to a \<^verbatim>\<open>TreeInode\<close>.
\<close>

definition getInode :: "Mount \<Rightarrow> fuse_ino_t \<Rightarrow> Inode option" where
  "getInode s ino = inodes s ino"

definition getTreeInode :: "Mount \<Rightarrow> fuse_ino_t \<Rightarrow> TreeInode option" where
  "getTreeInode s ino =
     (case inodes s ino of Some (TreeInodeObj t) \<Rightarrow> Some t | _ \<Rightarrow> None)"

definition recordInode :: "fuse_ino_t \<Rightarrow> Inode \<Rightarrow> Mount \<Rightarrow> Mount" where
  "recordInode ino x s = s\<lparr>inodes := (inodes s)(ino \<mapsto> x)\<rparr>"

text \<open>Writing through the locked pointer to the \<^verbatim>\<open>Dir\<close> of the directory \<open>ino\<close>.\<close>

definition set_contents :: "fuse_ino_t \<Rightarrow> Dir \<Rightarrow> Mount \<Rightarrow> Mount" where
  "set_contents ino d s =
     (case inodes s ino of
        Some (TreeInodeObj t) \<Rightarrow> s\<lparr>inodes := (inodes s)(ino \<mapsto> TreeInodeObj (t\<lparr>tree_contents := d\<rparr>))\<rparr>
      | _ \<Rightarrow> s)"

text \<open>
  Modelled from the spec: the name manager, \<^verbatim>\<open>get_or_create(parent_id, name)\<close>,
  \<^verbatim>\<open>get_if_exists(parent_id, name)\<close> and \<^verbatim>\<open>resolve_path(id)\<close>. A new node gets the next id
  and the path of its parent followed by its name.
\<close>

definition resolvePathToNode :: "Mount \<Rightarrow> fuse_ino_t \<Rightarrow> RelativePath" where
  "resolvePathToNode s ino = nm_path s ino"

definition getNodeByName ::
  "fuse_ino_t \<Rightarrow> PathComponent \<Rightarrow> bool \<Rightarrow> Mount \<Rightarrow> fuse_ino_t option \<times> Mount" where
  "getNodeByName parent name create s =
     (case nm_byname s (parent, name) of
        Some i \<Rightarrow> (Some i, s)
      | None \<Rightarrow>
          if create
          then (Some (nm_next s),
                s\<lparr>nm_byname := (nm_byname s)((parent, name) \<mapsto> nm_next s),
                  nm_path := (nm_path s)(nm_next s := nm_path s parent @ [name]),
                  nm_next := Suc (nm_next s)\<rparr>)
          else (None, s))"

text \<open>
  Modelled from the spec: the overlay, \<^verbatim>\<open>save_dir\<close>, \<^verbatim>\<open>load_dir\<close>, \<^verbatim>\<open>remove_dir\<close>. A saved
  directory holds its entries by value; loading one allocates an \<^verbatim>\<open>Entry\<close> for each.
\<close>

definition serializeDir :: "Mount \<Rightarrow> Dir \<Rightarrow> OverlayDir" where
  "serializeDir s d =
     \<lparr>od_entries = List.map_filter (\<lambda>(n, p). map_option (Pair n) (deref s p)) (entries d),
      od_treeHash = treeHash d,
      od_materialized = dir_materialized d\<rparr>"

definition saveOverlayDir :: "RelativePath \<Rightarrow> Dir \<Rightarrow> Mount \<Rightarrow> Mount" where
  "saveOverlayDir path d s = s\<lparr>overlayDirs := (overlayDirs s)(path \<mapsto> serializeDir s d)\<rparr>"

definition removeOverlayDir :: "RelativePath \<Rightarrow> Mount \<Rightarrow> Mount" where
  "removeOverlayDir path s = s\<lparr>overlayDirs := (overlayDirs s)(path := None)\<rparr>"

fun load_entries :: "(PathComponent \<times> Entry) list \<Rightarrow> Dir \<Rightarrow> Mount \<Rightarrow> Dir \<times> Mount" where
  "load_entries [] d s = (d, s)"
| "load_entries ((n, e) # es) d s =
     (let (p, s1) = new_Entry e s;
          (inserted, d1) = emplace_entry n p d
      in load_entries es d1 (if inserted then s1 else delete_Entry p s1))"

definition loadOverlayDir :: "RelativePath \<Rightarrow> Mount \<Rightarrow> Dir option \<times> Mount" where
  "loadOverlayDir path s =
     (case overlayDirs s path of
        None \<Rightarrow> (None, s)
      | Some od \<Rightarrow>
          (let (d, s1) = load_entries (od_entries od)
                           \<lparr>entries = [], treeHash = od_treeHash od,
                            dir_materialized = od_materialized od\<rparr> s
           in (Some d, s1)))"

text \<open>Modelled from the spec: the object store, \<^verbatim>\<open>fetch_tree(hash)\<close>.\<close>

definition getTree :: "Mount \<Rightarrow> Hash \<Rightarrow> Tree option" where
  "getTree s h = store s h"

text \<open>Modelled from the spec: the journal, \<^verbatim>\<open>append(JournalDelta)\<close>.\<close>

definition addDelta :: "JournalDelta \<Rightarrow> Mount \<Rightarrow> Mount" where
  "addDelta d s = s\<lparr>journal := journal s @ [d]\<rparr>"

text \<open>A system call: the operating system answers, and the call is recorded.\<close>

definition sys :: "syscall \<Rightarrow> Mount \<Rightarrow> (errno + mode_t) \<times> Mount" where
  "sys c s = (os s (syscalls s) c, s\<lparr>syscalls := syscalls s @ [c]\<rparr>)"

definition basename :: "RelativePath \<Rightarrow> PathComponent" where
  "basename p = (case rev p of [] \<Rightarrow> [] | n # _ \<Rightarrow> n)"

definition dirname :: "RelativePath \<Rightarrow> RelativePath" where
  "dirname p = butlast p"

subsection \<open>Building a directory from a tree of the store\<close>

text \<open>The loop of \<^verbatim>\<open>buildDirFromTree\<close> over the entries of the tree.\<close>

fun build_entries :: "TreeEntry list \<Rightarrow> Dir \<Rightarrow> Mount \<Rightarrow> Dir \<times> Mount" where
  "build_entries [] d s = (d, s)"
| "build_entries (te # tes) d s =
     (let entry = \<lparr>mode = te_mode te, hash = Some (te_hash te), materialized = False\<rparr>;
          (p, s1) = new_Entry entry s;
          (inserted, d1) = emplace_entry (te_name te) p d
      in build_entries tes d1 (if inserted then s1 else delete_Entry p s1))"

definition buildDirFromTree :: "Tree option \<Rightarrow> Mount \<Rightarrow> Dir \<times> Mount" where
  "buildDirFromTree tree s =
     (case tree of
        None \<Rightarrow> (default_Dir\<lparr>dir_materialized := True\<rparr>, s)
      | Some t \<Rightarrow> build_entries (treeEntries t) (default_Dir\<lparr>treeHash := Some (tree_hash t)\<rparr>) s)"

subsection \<open>Lookup\<close>

text \<open>
  \<^verbatim>\<open>getChildByNameLocked\<close>, called on the directory \<open>ino\<close> with its locked contents. The
  result is the child's node id and the inode object built for it.
\<close>

definition getChildByNameLocked ::
  "fuse_ino_t \<Rightarrow> Dir \<Rightarrow> PathComponent \<Rightarrow> Mount \<Rightarrow> (fuse_ino_t \<times> Inode) result" where
  "getChildByNameLocked ino contents name s =
     (case find_entry contents name of
        None \<Rightarrow> (Inl (SystemError ENOENT), s)
      | Some iter \<Rightarrow>
          (let (node, s1) = getNodeByName ino name True s in
           case node of
             None \<Rightarrow> (Inl Fault, s1)
           | Some nodeId \<Rightarrow>
              (case deref s1 iter of
                 None \<Rightarrow> (Inl Fault, s1)
               | Some entry \<Rightarrow>
                   if S_ISDIR (mode entry) then
                     (if \<not> materialized entry \<and> hash entry \<noteq> None then
                        (case getTree s1 (the (hash entry)) of
                           None \<Rightarrow> (Inl StoreError, s1)
                         | Some tree \<Rightarrow>
                             (let (d, s2) = buildDirFromTree (Some tree) s1 in
                              (Inr (nodeId,
                                    TreeInodeObj \<lparr>tree_contents = d, tree_entry = iter, tree_parent = ino\<rparr>),
                               s2)))
                      else
                        (let targetName = resolvePathToNode s1 nodeId;
                             (overlayDir, s2) = loadOverlayDir targetName s1 in
                         case overlayDir of
                           None \<Rightarrow> (Inl AssertionFailure, s2)
                         | Some d \<Rightarrow>
                             (Inr (nodeId,
                                   TreeInodeObj \<lparr>tree_contents = d, tree_entry = iter, tree_parent = ino\<rparr>),
                              s2)))
                   else
                     (Inr (nodeId, FileInodeObj \<lparr>file_parent = ino, file_entry = iter\<rparr>),
                      s1))))"

text \<open>\<^verbatim>\<open>getChildByName\<close>: the lookup of the public contract, under the read lock.\<close>

definition getChildByName ::
  "fuse_ino_t \<Rightarrow> PathComponent \<Rightarrow> Mount \<Rightarrow> (fuse_ino_t \<times> Inode) result" where
  "getChildByName ino namepiece s =
     (case getTreeInode s ino of
        None \<Rightarrow> (Inl Fault, s)
      | Some t \<Rightarrow> getChildByNameLocked ino (tree_contents t) namepiece s)"

text \<open>
  \<^verbatim>\<open>lookupChildByNameLocked\<close>: the inode the table already holds for the name, or a new
  child, recorded. The result is \<open>None\<close> for a null pointer.
\<close>

definition lookupChildByNameLocked ::
  "fuse_ino_t \<Rightarrow> Dir \<Rightarrow> PathComponent \<Rightarrow> Mount \<Rightarrow> (fuse_ino_t \<times> Inode) option result" where
  "lookupChildByNameLocked ino contents name s =
     (let (node, s1) = getNodeByName ino name False s in
      case node of
        Some nodeId \<Rightarrow> (Inr (map_option (Pair nodeId) (getInode s1 nodeId)), s1)
      | None \<Rightarrow>
          (case getChildByNameLocked ino contents name s1 of
             (Inl e, s2) \<Rightarrow> (Inl e, s2)
           | (Inr (childId, child), s2) \<Rightarrow>
               (Inr (Some (childId, child)), recordInode childId child s2)))"

subsection \<open>Materialization\<close>

text \<open>\<^verbatim>\<open>p->field = v\<close> through an entry pointer; \<open>None\<close> when the pointer is null or dangling.\<close>

definition store_Entry :: "entry_ptr \<Rightarrow> Entry \<Rightarrow> Mount \<Rightarrow> Mount" where
  "store_Entry p e s = s\<lparr>heap := (heap s)(p \<mapsto> e)\<rparr>"

definition write_Entry :: "entry_ptr \<Rightarrow> (Entry \<Rightarrow> Entry) \<Rightarrow> Mount \<Rightarrow> Mount option" where
  "write_Entry p f s =
     (case deref s p of
        None \<Rightarrow> None
      | Some e \<Rightarrow> Some (store_Entry p (f e) s))"

text \<open>
  The function run under the write lock in \<^verbatim>\<open>materializeDirAndParents\<close>; it returns
  \<^verbatim>\<open>updateParent\<close>. The mode \<^verbatim>\<open>0755\<close> is 493.
\<close>

definition materialize_locked :: "fuse_ino_t \<Rightarrow> Mount \<Rightarrow> bool result" where
  "materialize_locked ino s =
     (case getTreeInode s ino of
        None \<Rightarrow> (Inl Fault, s)
      | Some t \<Rightarrow>
          if dir_materialized (tree_contents t) then (Inr False, s)
          else
            (let myname = resolvePathToNode s ino;
                 dirPath = contentDir s @ myname;
                 (r, s1) = sys (SysMkdir dirPath 493) s
             in case (case r of Inl e \<Rightarrow> if e \<noteq> EEXIST then Some e else None | Inr _ \<Rightarrow> None) of
                  Some e \<Rightarrow> (Inl (SystemError e), s1)
                | None \<Rightarrow>
                    (let wlock = (tree_contents t)\<lparr>dir_materialized := True\<rparr>;
                         s2 = set_contents ino wlock s1;
                         s3 = saveOverlayDir myname wlock s2
                     in if tree_entry t \<noteq> nullptr then
                          (case deref s3 (tree_entry t) of
                             None \<Rightarrow> (Inl Fault, s3)
                           | Some e \<Rightarrow>
                               if \<not> materialized e then
                                 (case write_Entry (tree_entry t) (\<lambda>e. e\<lparr>materialized := True\<rparr>) s3 of
                                    None \<Rightarrow> (Inl Fault, s3)
                                  | Some s4 \<Rightarrow> (Inr True, s4))
                               else (Inr False, s3))
                        else (Inr False, s3))))"

text \<open>The tail of \<^verbatim>\<open>materializeDirAndParents\<close>, run when \<^verbatim>\<open>updateParent\<close> is true.\<close>

definition materialize_updateParent :: "fuse_ino_t \<Rightarrow> Mount \<Rightarrow> unit result" where
  "materialize_updateParent ino s =
     (case getTreeInode s ino of
        None \<Rightarrow> (Inl Fault, s)
      | Some t \<Rightarrow>
          (case getTreeInode s (tree_parent t) of
             None \<Rightarrow> (Inl Fault, s)
           | Some parentInode \<Rightarrow>
               (let parentName = resolvePathToNode s (tree_parent t)
                in (Inr (), saveOverlayDir parentName (tree_contents parentInode) s))))"

definition materialize_self :: "fuse_ino_t \<Rightarrow> Mount \<Rightarrow> unit result" where
  "materialize_self ino s =
     (case materialize_locked ino s of
        (Inl e, s1) \<Rightarrow> (Inl e, s1)
      | (Inr updateParent, s1) \<Rightarrow>
          if updateParent then materialize_updateParent ino s1 else (Inr (), s1))"

text \<open>
  \<^verbatim>\<open>materializeDirAndParents\<close>, called on the directory \<open>ino\<close>. The recursion follows the
  parent ids; on a table whose parent ids form a cycle of unmaterialized directories it
  does not return.
\<close>

partial_function (option) materializeDirAndParents ::
  "fuse_ino_t \<Rightarrow> Mount \<Rightarrow> unit result option" where
  "materializeDirAndParents ino s =
     (case getTreeInode s ino of
        None \<Rightarrow> Some (Inl Fault, s)
      | Some t \<Rightarrow>
          if dir_materialized (tree_contents t) then Some (Inr (), s)
          else
            Option.bind
              (if ino \<noteq> FUSE_ROOT_ID then
                 (case getTreeInode s (tree_parent t) of
                    None \<Rightarrow> Some (Inl AssertionFailure, s)
                  | Some parentInode \<Rightarrow> materializeDirAndParents (tree_parent t) s)
               else Some (Inr (), s))
              (\<lambda>(r, s1). case r of
                   Inl e \<Rightarrow> Some (Inl e, s1)
                 | Inr _ \<Rightarrow> Some (materialize_self ino s1)))"

declare materializeDirAndParents.simps [code]

text \<open>The current \<^verbatim>\<open>Dir\<close> of a directory inode, as a locked pointer reads it.\<close>

definition dir_of :: "Mount \<Rightarrow> fuse_ino_t \<Rightarrow> Dir" where
  "dir_of s ino = (case getTreeInode s ino of Some t \<Rightarrow> tree_contents t | None \<Rightarrow> default_Dir)"

definition slot_of :: "Mount \<Rightarrow> fuse_ino_t \<Rightarrow> PathComponent \<Rightarrow> entry_ptr" where
  "slot_of s ino name = (case find_entry (dir_of s ino) name of Some p \<Rightarrow> p | None \<Rightarrow> nullptr)"

subsection \<open>create\<close>

record CreateResult =
  cr_node :: fuse_ino_t
  cr_inode :: Inode
  cr_attr_mode :: mode_t

text \<open>
  The function run under the write lock in \<^verbatim>\<open>create\<close>. The mode \<^verbatim>\<open>0600\<close> is 384. It
  returns the node id and the file inode.
\<close>

definition create_locked ::
  "fuse_ino_t \<Rightarrow> PathComponent \<Rightarrow> 32 word \<Rightarrow> RelativePath \<Rightarrow> AbsolutePath \<Rightarrow> Mount
     \<Rightarrow> (fuse_ino_t \<times> Inode) result" where
  "create_locked ino name flags myname filePath s =
     (let (r, s1) = sys (SysOpen filePath
                           (O_RDWR OR O_CREAT OR (flags AND NOT (O_RDONLY OR O_WRONLY))) 384) s
      in case r of
           Inl e \<Rightarrow> (Inl (SystemError e), s1)
         | Inr _ \<Rightarrow>
             (let s2 = set_contents ino (index_entry name (dir_of s1 ino)) s1;
                  (entry, s3) = new_Entry default_Entry s2;
                  old = slot_of s3 ino name;
                  s4 = delete_Entry old (set_contents ino (set_slot name entry (dir_of s3 ino)) s3)
              in case write_Entry entry (\<lambda>e. e\<lparr>materialized := True\<rparr>) s4 of
                   None \<Rightarrow> (Inl Fault, s4)
                 | Some s5 \<Rightarrow>
                     (let (st, s6) = sys (SysFstat filePath) s5
                      in case st of
                           Inl e \<Rightarrow> (Inl (SystemError e), s6)
                         | Inr st_mode \<Rightarrow>
                             (case write_Entry entry (\<lambda>e. e\<lparr>mode := st_mode\<rparr>) s6 of
                                None \<Rightarrow> (Inl Fault, s6)
                              | Some s7 \<Rightarrow>
                                  (let (node, s8) = getNodeByName ino name True s7
                                   in case node of
                                        None \<Rightarrow> (Inl Fault, s8)
                                      | Some nodeId \<Rightarrow>
                                          (let inode = FileInodeObj
                                                 \<lparr>file_parent = ino, file_entry = entry\<rparr>;
                                               (handle, s9) = sys (HandleFinishCreate filePath) s8
                                           in case handle of
                                                Inl e \<Rightarrow> (Inl (HandleError e), s9)
                                              | Inr _ \<Rightarrow>
                                                  (Inr (nodeId, inode),
                                                   saveOverlayDir myname (dir_of s9 ino) s9)))))))"

text \<open>
  \<^verbatim>\<open>create\<close>. After the journal has the delta, the attributes are asked of the new handle,
  and the result is built from them when they arrive.
\<close>

definition create ::
  "fuse_ino_t \<Rightarrow> PathComponent \<Rightarrow> mode_t \<Rightarrow> 32 word \<Rightarrow> Mount \<Rightarrow> CreateResult result option" where
  "create ino name mode' flags s =
     (let myname = resolvePathToNode s ino;
          targetName = myname @ [name]
      in Option.bind (materializeDirAndParents ino s)
           (\<lambda>(m, s1). case m of
                Inl e \<Rightarrow> Some (Inl e, s1)
              | Inr _ \<Rightarrow>
                  (let filePath = contentDir s1 @ targetName
                   in case create_locked ino name flags myname filePath s1 of
                        (Inl e, s2) \<Rightarrow> Some (Inl e, s2)
                      | (Inr (node, inode), s2) \<Rightarrow>
                          (let s3 = addDelta (JournalDelta [targetName]) s2;
                               (getattrResult, s4) = sys (HandleGetattr filePath) s3
                           in case getattrResult of
                                Inl e \<Rightarrow> Some (Inl (HandleError e), s4)
                              | Inr attr \<Rightarrow>
                                  Some (Inr \<lparr>cr_node = node, cr_inode = inode,
                                             cr_attr_mode = attr\<rparr>, s4)))))"

subsection \<open>mkdir\<close>

text \<open>
  Modelled from the spec: the dispatcher's \<^verbatim>\<open>lookup(parent, name)\<close>, which \<^verbatim>\<open>mkdir\<close> returns
  through. It is the lookup of the public contract: \<^verbatim>\<open>ENOENT\<close> when the name is absent
  from the entries; otherwise the name gets its node id from the name manager, an inode
  the table already holds for that id is the child, and else the child is built and
  recorded in the table. The result is the node id of the child.
\<close>

definition dispatcher_lookup :: "fuse_ino_t \<Rightarrow> PathComponent \<Rightarrow> Mount \<Rightarrow> fuse_ino_t result" where
  "dispatcher_lookup parent name s =
     (case getTreeInode s parent of
        None \<Rightarrow> (Inl (SystemError ENOTDIR), s)
      | Some t \<Rightarrow>
          (case find_entry (tree_contents t) name of
             None \<Rightarrow> (Inl (SystemError ENOENT), s)
           | Some iter \<Rightarrow>
               (let (node, s1) = getNodeByName parent name True s in
                case node of
                  None \<Rightarrow> (Inl Fault, s1)
                | Some nodeId \<Rightarrow>
                    (case getInode s1 nodeId of
                       Some child \<Rightarrow> (Inr nodeId, s1)
                     | None \<Rightarrow>
                         (case getChildByNameLocked parent (tree_contents t) name s1 of
                            (Inl e, s2) \<Rightarrow> (Inl e, s2)
                          | (Inr (childId, child), s2) \<Rightarrow>
                              (Inr childId, recordInode childId child s2))))))"

text \<open>The function run under the write lock in \<^verbatim>\<open>mkdir\<close>.\<close>

definition mkdir_locked ::
  "fuse_ino_t \<Rightarrow> PathComponent \<Rightarrow> mode_t \<Rightarrow> RelativePath \<Rightarrow> RelativePath \<Rightarrow> Mount
     \<Rightarrow> unit result" where
  "mkdir_locked ino name mode' myname targetName s =
     (case find_entry (dir_of s ino) name of
        Some entIter \<Rightarrow> (Inl (SystemError EEXIST), s)
      | None \<Rightarrow>
          (let dirPath = contentDir s @ targetName;
               (r, s1) = sys (SysMkdir dirPath mode') s
           in case r of
                Inl e \<Rightarrow> (Inl (SystemError e), s1)
              | Inr _ \<Rightarrow>
                  (let (st, s2) = sys (SysLstat dirPath) s1
                   in case st of
                        Inl e \<Rightarrow> (Inl (SystemError e), s2)
                      | Inr st_mode \<Rightarrow>
                          (let (entry, s3) =
                                 new_Entry \<lparr>mode = st_mode, hash = None, materialized = True\<rparr> s2;
                               (inserted, contents) = emplace_entry name entry (dir_of s3 ino);
                               s4 = set_contents ino contents
                                      (if inserted then s3 else delete_Entry entry s3);
                               s5 = saveOverlayDir myname (dir_of s4 ino) s4;
                               emptyDir = default_Dir\<lparr>dir_materialized := True\<rparr>
                           in (Inr (), saveOverlayDir targetName emptyDir s5)))))"

definition mkdir ::
  "fuse_ino_t \<Rightarrow> PathComponent \<Rightarrow> mode_t \<Rightarrow> Mount \<Rightarrow> fuse_ino_t result option" where
  "mkdir ino name mode' s =
     (let myname = resolvePathToNode s ino;
          targetName = myname @ [name]
      in Option.bind (materializeDirAndParents ino s)
           (\<lambda>(m, s1). case m of
                Inl e \<Rightarrow> Some (Inl e, s1)
              | Inr _ \<Rightarrow>
                  (case mkdir_locked ino name mode' myname targetName s1 of
                     (Inl e, s2) \<Rightarrow> Some (Inl e, s2)
                   | (Inr _, s2) \<Rightarrow>
                       Some (dispatcher_lookup ino name
                               (addDelta (JournalDelta [targetName]) s2)))))"

subsection \<open>unlink\<close>

text \<open>The preflight of \<^verbatim>\<open>unlink\<close>, run under the read lock.\<close>

definition unlink_preflight ::
  "fuse_ino_t \<Rightarrow> PathComponent \<Rightarrow> Mount \<Rightarrow> unit result" where
  "unlink_preflight ino name s =
     (case find_entry (dir_of s ino) name of
        None \<Rightarrow> (Inl (SystemError ENOENT), s)
      | Some entIter \<Rightarrow>
          (case deref s entIter of
             None \<Rightarrow> (Inl Fault, s)
           | Some ent \<Rightarrow>
               if S_ISDIR (mode ent) then (Inl (SystemError EISDIR), s) else (Inr (), s)))"

text \<open>The function run under the write lock in \<^verbatim>\<open>unlink\<close>.\<close>

definition unlink_locked ::
  "fuse_ino_t \<Rightarrow> PathComponent \<Rightarrow> RelativePath \<Rightarrow> RelativePath \<Rightarrow> Mount \<Rightarrow> unit result" where
  "unlink_locked ino name myname targetName s =
     (case find_entry (dir_of s ino) name of
        None \<Rightarrow> (Inl (SystemError ENOENT), s)
      | Some entIter \<Rightarrow>
          (case deref s entIter of
             None \<Rightarrow> (Inl Fault, s)
           | Some ent \<Rightarrow>
               if S_ISDIR (mode ent) then (Inl (SystemError EISDIR), s)
               else
                 (let (r, s1) =
                        (if materialized ent
                         then sys (SysUnlink (contentDir s @ targetName)) s
                         else (Inr 0, s))
                  in case r of
                       Inl e \<Rightarrow> (Inl (SystemError e), s1)
                     | Inr _ \<Rightarrow>
                         (let s2 = delete_Entry entIter
                                     (set_contents ino (erase_entry name (dir_of s1 ino)) s1)
                          in (Inr (), saveOverlayDir myname (dir_of s2 ino) s2)))))"

definition unlink :: "fuse_ino_t \<Rightarrow> PathComponent \<Rightarrow> Mount \<Rightarrow> unit result option" where
  "unlink ino name s =
     (let myname = resolvePathToNode s ino;
          targetName = myname @ [name]
      in case unlink_preflight ino name s of
           (Inl e, s0) \<Rightarrow> Some (Inl e, s0)
         | (Inr _, s0) \<Rightarrow>
             Option.bind (materializeDirAndParents ino s0)
               (\<lambda>(m, s1). case m of
                    Inl e \<Rightarrow> Some (Inl e, s1)
                  | Inr _ \<Rightarrow>
                      (case unlink_locked ino name myname targetName s1 of
                         (Inl e, s2) \<Rightarrow> Some (Inl e, s2)
                       | (Inr _, s2) \<Rightarrow>
                           Some (Inr (), addDelta (JournalDelta [targetName]) s2))))"

subsection \<open>rmdir\<close>

text \<open>
  The checks that the preflight of \<^verbatim>\<open>rmdir\<close> makes under the read lock and that the
  function run under the write lock makes again: the name exists, it is a directory, it
  resolves to a \<^verbatim>\<open>TreeInode\<close>, and that directory has no entries.
\<close>

definition rmdir_checks :: "fuse_ino_t \<Rightarrow> PathComponent \<Rightarrow> Mount \<Rightarrow> entry_ptr result" where
  "rmdir_checks ino name s =
     (case find_entry (dir_of s ino) name of
        None \<Rightarrow> (Inl (SystemError ENOENT), s)
      | Some entIter \<Rightarrow>
          (case deref s entIter of
             None \<Rightarrow> (Inl Fault, s)
           | Some ent \<Rightarrow>
               if \<not> S_ISDIR (mode ent) then (Inl (SystemError EISDIR), s)
               else
                 (case lookupChildByNameLocked ino (dir_of s ino) name s of
                    (Inl e, s1) \<Rightarrow> (Inl e, s1)
                  | (Inr None, s1) \<Rightarrow> (Inl (SystemError EIO), s1)
                  | (Inr (Some (targetId, FileInodeObj f)), s1) \<Rightarrow> (Inl (SystemError EIO), s1)
                  | (Inr (Some (targetId, TreeInodeObj targetDir)), s1) \<Rightarrow>
                      if entries (tree_contents targetDir) \<noteq> []
                      then (Inl (SystemError ENOTEMPTY), s1)
                      else (Inr entIter, s1))))"

definition rmdir_preflight :: "fuse_ino_t \<Rightarrow> PathComponent \<Rightarrow> Mount \<Rightarrow> unit result" where
  "rmdir_preflight ino name s =
     (case rmdir_checks ino name s of
        (Inl e, s1) \<Rightarrow> (Inl e, s1)
      | (Inr _, s1) \<Rightarrow> (Inr (), s1))"

text \<open>The function run under the write lock in \<^verbatim>\<open>rmdir\<close>.\<close>

definition rmdir_locked ::
  "fuse_ino_t \<Rightarrow> PathComponent \<Rightarrow> RelativePath \<Rightarrow> RelativePath \<Rightarrow> Mount \<Rightarrow> unit result" where
  "rmdir_locked ino name myname targetName s =
     (case rmdir_checks ino name s of
        (Inl e, s1) \<Rightarrow> (Inl e, s1)
      | (Inr entIter, s1) \<Rightarrow>
          (case deref s1 entIter of
             None \<Rightarrow> (Inl Fault, s1)
           | Some ent \<Rightarrow>
               (let (r, s2) =
                      (if materialized ent
                       then sys (SysRmdir (contentDir s1 @ targetName)) s1
                       else (Inr 0, s1))
                in case r of
                     Inl e \<Rightarrow> (Inl (SystemError e), s2)
                   | Inr _ \<Rightarrow>
                       (let s3 = delete_Entry entIter
                                   (set_contents ino (erase_entry name (dir_of s2 ino)) s2);
                            s4 = saveOverlayDir myname (dir_of s3 ino) s3
                        in (Inr (), removeOverlayDir targetName s4)))))"

definition rmdir :: "fuse_ino_t \<Rightarrow> PathComponent \<Rightarrow> Mount \<Rightarrow> unit result option" where
  "rmdir ino name s =
     (let myname = resolvePathToNode s ino;
          targetName = myname @ [name]
      in case rmdir_preflight ino name s of
           (Inl e, s0) \<Rightarrow> Some (Inl e, s0)
         | (Inr _, s0) \<Rightarrow>
             Option.bind (materializeDirAndParents ino s0)
               (\<lambda>(m, s1). case m of
                    Inl e \<Rightarrow> Some (Inl e, s1)
                  | Inr _ \<Rightarrow>
                      (case rmdir_locked ino name myname targetName s1 of
                         (Inl e, s2) \<Rightarrow> Some (Inl e, s2)
                       | (Inr _, s2) \<Rightarrow>
                           Some (Inr (), addDelta (JournalDelta [targetName]) s2))))"

text \<open>
  \<^verbatim>\<open>rmdir\<close> holds no lock from the end of its preflight, which runs under the read lock, to
  the function it runs under the write lock, so other threads can change the mount
  twice on the way: between the preflight and materialization (\<open>other1\<close>), and between
  materialization and the write lock (\<open>other2\<close>). \<open>rmdir_interleaved\<close> is \<^verbatim>\<open>rmdir\<close> with
  these changes made at those two points; \<open>rmdir\<close> above is the run in which the other
  threads do nothing.
\<close>

definition rmdir_interleaved ::
  "(Mount \<Rightarrow> Mount) \<Rightarrow> (Mount \<Rightarrow> Mount) \<Rightarrow> fuse_ino_t \<Rightarrow> PathComponent \<Rightarrow> Mount
     \<Rightarrow> unit result option" where
  "rmdir_interleaved other1 other2 ino name s =
     (let myname = resolvePathToNode s ino;
          targetName = myname @ [name]
      in case rmdir_preflight ino name s of
           (Inl e, s0) \<Rightarrow> Some (Inl e, s0)
         | (Inr _, s0) \<Rightarrow>
             Option.bind (materializeDirAndParents ino (other1 s0))
               (\<lambda>(m, s1). case m of
                    Inl e \<Rightarrow> Some (Inl e, s1)
                  | Inr _ \<Rightarrow>
                      (case rmdir_locked ino name myname targetName (other2 s1) of
                         (Inl e, s2) \<Rightarrow> Some (Inl e, s2)
                       | (Inr _, s2) \<Rightarrow>
                           Some (Inr (), addDelta (JournalDelta [targetName]) s2))))"

subsection \<open>rename\<close>

text \<open>
  The checks at the head of \<^verbatim>\<open>renameHelper\<close>. \<open>ino\<close> is the directory the method is called
  on; \<open>sourceIno\<close> and \<open>destIno\<close> are the directories whose locked contents are passed in.
\<close>

definition rename_checks ::
  "fuse_ino_t \<Rightarrow> fuse_ino_t \<Rightarrow> RelativePath \<Rightarrow> fuse_ino_t \<Rightarrow> RelativePath \<Rightarrow> Mount
     \<Rightarrow> Entry result" where
  "rename_checks ino sourceIno sourceName destIno destName s =
     (case find_entry (dir_of s sourceIno) (basename sourceName) of
        None \<Rightarrow> (Inl (SystemError ENOENT), s)
      | Some sourceEntIter \<Rightarrow>
          (case deref s sourceEntIter of
             None \<Rightarrow> (Inl Fault, s)
           | Some sourceEnt \<Rightarrow>
               (case find_entry (dir_of s destIno) (basename destName) of
                  None \<Rightarrow> (Inr sourceEnt, s)
                | Some destEntIter \<Rightarrow>
                    if mode_to_dtype (mode sourceEnt) = dtype_Dir then
                      (case deref s destEntIter of
                         None \<Rightarrow> (Inl Fault, s)
                       | Some destEnt \<Rightarrow>
                           if mode_to_dtype (mode destEnt) \<noteq> dtype_Dir
                           then (Inl (SystemError ENOTDIR), s)
                           else
                             (case lookupChildByNameLocked ino (dir_of s destIno)
                                     (basename destName) s of
                                (Inl e, s1) \<Rightarrow> (Inl e, s1)
                              | (Inr None, s1) \<Rightarrow> (Inl (SystemError EIO), s1)
                              | (Inr (Some (targetId, FileInodeObj f)), s1) \<Rightarrow>
                                  (Inl (SystemError EIO), s1)
                              | (Inr (Some (targetId, TreeInodeObj destDir)), s1) \<Rightarrow>
                                  if entries (tree_contents destDir) \<noteq> []
                                  then (Inl (SystemError ENOTEMPTY), s1)
                                  else
                                    (case deref s1 sourceEntIter of
                                       None \<Rightarrow> (Inl Fault, s1)
                                     | Some sourceEnt1 \<Rightarrow> (Inr sourceEnt1, s1))))
                    else (Inr sourceEnt, s))))"

text \<open>
  The move of the entry in \<^verbatim>\<open>renameHelper\<close>, step by step on the two directories:
  \<^verbatim>\<open>entries[destName.basename()]\<close>, the second \<^verbatim>\<open>find\<close> of the source, the move
  assignment of the owning pointer (release the source, store into the destination,
  delete what the destination held), and \<^verbatim>\<open>erase\<close> of the source slot, whose pointer's
  destructor runs.
\<close>

definition rename_move ::
  "fuse_ino_t \<Rightarrow> PathComponent \<Rightarrow> fuse_ino_t \<Rightarrow> PathComponent \<Rightarrow> Mount \<Rightarrow> Mount" where
  "rename_move sourceIno sourceBase destIno destBase s =
     (let s1 = set_contents destIno (index_entry destBase (dir_of s destIno)) s;
          moved = slot_of s1 sourceIno sourceBase;
          s2 = set_contents sourceIno (set_slot sourceBase nullptr (dir_of s1 sourceIno)) s1;
          old = slot_of s2 destIno destBase;
          s3 = set_contents destIno (set_slot destBase moved (dir_of s2 destIno)) s2;
          s4 = delete_Entry old s3;
          erased = slot_of s4 sourceIno sourceBase;
          s5 = set_contents sourceIno (erase_entry sourceBase (dir_of s4 sourceIno)) s4
      in delete_Entry erased s5)"

definition renameHelper ::
  "fuse_ino_t \<Rightarrow> fuse_ino_t \<Rightarrow> RelativePath \<Rightarrow> fuse_ino_t \<Rightarrow> RelativePath \<Rightarrow> Mount
     \<Rightarrow> unit result" where
  "renameHelper ino sourceIno sourceName destIno destName s =
     (case rename_checks ino sourceIno sourceName destIno destName s of
        (Inl e, s1) \<Rightarrow> (Inl e, s1)
      | (Inr sourceEnt, s1) \<Rightarrow>
          (let absoluteSourcePath = contentDir s1 @ sourceName;
               absoluteDestPath = contentDir s1 @ destName;
               (r, s2) =
                 (if materialized sourceEnt
                  then sys (SysRename absoluteSourcePath absoluteDestPath) s1
                  else (Inr 0, s1))
           in case r of
                Inl e \<Rightarrow> (Inl (SystemError e), s2)
              | Inr _ \<Rightarrow>
                  (let s3 = rename_move sourceIno (basename sourceName)
                              destIno (basename destName) s2;
                       s4 = saveOverlayDir (dirname sourceName) (dir_of s3 sourceIno) s3
                   in if sourceIno \<noteq> destIno
                      then (Inr (), saveOverlayDir (dirname destName) (dir_of s4 destIno) s4)
                      else (Inr (), s4))))"

text \<open>
  \<^verbatim>\<open>rename\<close>, called on the directory \<open>ino\<close>; \<open>newParent\<close> is the node id of the inode passed
  as the new parent.
\<close>

definition rename ::
  "fuse_ino_t \<Rightarrow> PathComponent \<Rightarrow> fuse_ino_t \<Rightarrow> PathComponent \<Rightarrow> Mount
     \<Rightarrow> unit result option" where
  "rename ino name newParent newName s =
     (case getTreeInode s newParent of
        None \<Rightarrow> Some (Inl (SystemError EXDEV), s)
      | Some targetDir \<Rightarrow>
          (let sourceName = resolvePathToNode s ino @ [name];
               targetName = resolvePathToNode s newParent @ [newName]
           in case find_entry (dir_of s ino) name of
                None \<Rightarrow> Some (Inl (SystemError ENOENT), s)
              | Some entIter \<Rightarrow>
                  Option.bind (materializeDirAndParents ino s)
                    (\<lambda>(m, s1). case m of
                         Inl e \<Rightarrow> Some (Inl e, s1)
                       | Inr _ \<Rightarrow>
                           Option.bind
                             (if newParent = ino then Some (Inr (), s1)
                              else materializeDirAndParents newParent s1)
                             (\<lambda>(m2, s2). case m2 of
                                  Inl e \<Rightarrow> Some (Inl e, s2)
                                | Inr _ \<Rightarrow>
                                    (case renameHelper ino ino sourceName newParent targetName s2 of
                                       (Inl e, s3) \<Rightarrow> Some (Inl e, s3)
                                     | (Inr _, s3) \<Rightarrow>
                                         Some (Inr (),
                                               addDelta (JournalDelta [sourceName, targetName])
                                                 s3))))))"

subsection \<open>getattr and canForget\<close>

definition getAttrLocked :: "fuse_ino_t \<Rightarrow> Dir \<Rightarrow> mode_t \<times> fuse_ino_t \<times> nat" where
  "getAttrLocked ino contents = (S_IFDIR OR 493, ino, length (entries contents) + 2)"

definition canForget :: "Mount \<Rightarrow> fuse_ino_t \<Rightarrow> bool" where
  "canForget s ino \<longleftrightarrow> \<not> dir_materialized (dir_of s ino)"

subsection \<open>Operations on a mount\<close>

text \<open>The operations of the directory inode, for statements about every operation.\<close>

datatype operation =
    OpLookup PathComponent
  | OpMaterialize
  | OpCreate PathComponent mode_t "32 word"
  | OpMkdir PathComponent mode_t
  | OpUnlink PathComponent
  | OpRmdir PathComponent
  | OpRename PathComponent fuse_ino_t PathComponent

definition drop_value :: "'a result \<Rightarrow> unit result" where
  "drop_value r = (case r of (Inl e, s) \<Rightarrow> (Inl e, s) | (Inr _, s) \<Rightarrow> (Inr (), s))"

fun run_op :: "fuse_ino_t \<Rightarrow> operation \<Rightarrow> Mount \<Rightarrow> unit result option" where
  "run_op ino (OpLookup name) s = Some (drop_value (getChildByName ino name s))"
| "run_op ino OpMaterialize s = materializeDirAndParents ino s"
| "run_op ino (OpCreate name mode' flags) s = map_option drop_value (create ino name mode' flags s)"
| "run_op ino (OpMkdir name mode') s = map_option drop_value (mkdir ino name mode' s)"
| "run_op ino (OpUnlink name) s = unlink ino name s"
| "run_op ino (OpRmdir name) s = rmdir ino name s"
| "run_op ino (OpRename name newParent newName) s = rename ino name newParent newName s"

text \<open>A sequence of operations, each on its directory; it stops where one does not return.\<close>

fun run_ops :: "(fuse_ino_t \<times> operation) list \<Rightarrow> Mount \<Rightarrow> Mount option" where
  "run_ops [] s = Some s"
| "run_ops ((ino, op) # rest) s =
     (case run_op ino op s of None \<Rightarrow> None | Some (r, s') \<Rightarrow> run_ops rest s')"

text \<open>A directory inode of the table whose \<^verbatim>\<open>Dir\<close> is materialized.\<close>

definition is_materialized :: "Mount \<Rightarrow> fuse_ino_t \<Rightarrow> bool" where
  "is_materialized s ino \<longleftrightarrow>
     (case getTreeInode s ino of Some t \<Rightarrow> dir_materialized (tree_contents t) | None \<Rightarrow> False)"

subsection \<open>Relations between the states before and after\<close>

text \<open>
  A lookup changes the name manager and the heap only: it allocates one node id at most
  and entries above \<open>heap_next\<close>.
\<close>

definition lookup_frame :: "Mount \<Rightarrow> Mount \<Rightarrow> bool" where
  "lookup_frame s s' \<longleftrightarrow>
     store s' = store s \<and> overlayDirs s' = overlayDirs s \<and> contentDir s' = contentDir s \<and>
     journal s' = journal s \<and> syscalls s' = syscalls s \<and> os s' = os s \<and>
     heap_next s \<le> heap_next s' \<and> nm_next s \<le> nm_next s' \<and>
     (\<forall>q. q \<le> heap_next s \<longrightarrow> heap s' q = heap s q) \<and>
     (\<forall>q. heap_next s' < q \<longrightarrow> heap s' q = heap s q) \<and>
     (\<forall>i. i < nm_next s \<longrightarrow> inodes s' i = inodes s i) \<and>
     (\<forall>i. nm_next s' \<le> i \<longrightarrow> inodes s' i = inodes s i)"

text \<open>
  What materialization may do to an inode of the table and to an entry of the heap: the
  inode stays, with the same entries, and its \<^verbatim>\<open>Dir\<close> may become materialized; the entry
  stays, and may become materialized.
\<close>

definition inode_le :: "Inode option \<Rightarrow> Inode option \<Rightarrow> bool" where
  "inode_le x y \<longleftrightarrow>
     (case x of
        None \<Rightarrow> y = None
      | Some (FileInodeObj f) \<Rightarrow> y = x
      | Some (TreeInodeObj t) \<Rightarrow>
          (\<exists>t'. y = Some (TreeInodeObj t') \<and>
                entries (tree_contents t') = entries (tree_contents t) \<and>
                treeHash (tree_contents t') = treeHash (tree_contents t) \<and>
                tree_entry t' = tree_entry t \<and> tree_parent t' = tree_parent t \<and>
                (dir_materialized (tree_contents t) \<longrightarrow> dir_materialized (tree_contents t'))))"

definition entry_le :: "Entry option \<Rightarrow> Entry option \<Rightarrow> bool" where
  "entry_le x y \<longleftrightarrow>
     (case x of
        None \<Rightarrow> y = None
      | Some e \<Rightarrow>
          (\<exists>e'. y = Some e' \<and> mode e' = mode e \<and> hash e' = hash e \<and>
                (materialized e \<longrightarrow> materialized e')))"

definition is_SysMkdir :: "syscall \<Rightarrow> bool" where
  "is_SysMkdir c = (case c of SysMkdir p m \<Rightarrow> True | _ \<Rightarrow> False)"

definition mat_rel :: "Mount \<Rightarrow> Mount \<Rightarrow> bool" where
  "mat_rel s s' \<longleftrightarrow>
     journal s' = journal s \<and> nm_byname s' = nm_byname s \<and> nm_path s' = nm_path s \<and>
     nm_next s' = nm_next s \<and> heap_next s' = heap_next s \<and> store s' = store s \<and>
     contentDir s' = contentDir s \<and> os s' = os s \<and>
     (\<forall>i. inode_le (inodes s i) (inodes s' i)) \<and>
     (\<forall>p. entry_le (heap s p) (heap s' p)) \<and>
     (\<forall>p. (\<forall>i t. getTreeInode s i = Some t \<longrightarrow> tree_entry t \<noteq> p) \<longrightarrow> heap s' p = heap s p) \<and>
     (\<exists>tr. syscalls s' = syscalls s @ tr \<and> list_all is_SysMkdir tr)"

text \<open>
  What every operation keeps: node ids are only added, a materialized directory of the
  table stays materialized, and an id the name manager has not handed out gets no inode.
\<close>

definition evolves :: "Mount \<Rightarrow> Mount \<Rightarrow> bool" where
  "evolves s s' \<longleftrightarrow>
     nm_next s \<le> nm_next s' \<and>
     (\<forall>i. i < nm_next s \<longrightarrow> is_materialized s i \<longrightarrow> is_materialized s' i) \<and>
     (\<forall>i. nm_next s' \<le> i \<longrightarrow> inodes s i = None \<longrightarrow> inodes s' i = None)"

text \<open>The inode table holds inodes only for ids the name manager has handed out.\<close>

definition fresh_ids :: "Mount \<Rightarrow> bool" where
  "fresh_ids s \<longleftrightarrow> (\<forall>i. nm_next s \<le> i \<longrightarrow> inodes s i = None)"

text \<open>Every id the name manager has given to a name lies below its next id.\<close>

definition nm_ok :: "Mount \<Rightarrow> bool" where
  "nm_ok s \<longleftrightarrow> (\<forall>k i. nm_byname s k = Some i \<longrightarrow> i < nm_next s)"

text \<open>What every operation does to the name manager: names only get new ids.\<close>

definition nm_grows :: "Mount \<Rightarrow> Mount \<Rightarrow> bool" where
  "nm_grows s s' \<longleftrightarrow>
     nm_next s \<le> nm_next s' \<and>
     (\<forall>k i. nm_byname s' k = Some i \<longrightarrow> nm_byname s k = Some i \<or> i < nm_next s')"

text \<open>Every entry of the heap lies at or below the allocation mark.\<close>

definition fresh_heap :: "Mount \<Rightarrow> bool" where
  "fresh_heap s \<longleftrightarrow> (\<forall>p. heap_next s < p \<longrightarrow> heap s p = None)"

text \<open>
  Nothing has been materialized between two states: the overlay records, the system calls
  made and the journal are the same, and every inode and every entry there was is
  unchanged.
\<close>

definition no_materialization :: "Mount \<Rightarrow> Mount \<Rightarrow> bool" where
  "no_materialization s s' \<longleftrightarrow>
     overlayDirs s' = overlayDirs s \<and> syscalls s' = syscalls s \<and> journal s' = journal s \<and>
     (\<forall>i. inodes s i \<noteq> None \<longrightarrow> inodes s' i = inodes s i) \<and>
     (\<forall>p. heap s p \<noteq> None \<longrightarrow> heap s' p = heap s p)"

subsection \<open>A mount to run the operations on\<close>

text \<open>
  The root directory, not yet materialized, over a tree with the file \<open>a\<close>, the directory
  \<open>sub\<close> (holding the file \<open>c\<close>) and the empty directory \<open>empty\<close>. The operating system
  lets every call succeed; a new file has mode \<^verbatim>\<open>0100600\<close>, a new directory \<^verbatim>\<open>040755\<close>.
\<close>

definition example_os :: "syscall list \<Rightarrow> syscall \<Rightarrow> errno + mode_t" where
  "example_os tr c =
     (case c of
        SysFstat _ \<Rightarrow> Inr 33152
      | SysLstat _ \<Rightarrow> Inr 16877
      | HandleGetattr _ \<Rightarrow> Inr 33152
      | _ \<Rightarrow> Inr 0)"

definition example_root_dir :: Dir where
  "example_root_dir =
     \<lparr>entries = [(''a'', 11), (''sub'', 12), (''empty'', 13)], treeHash = Some 100,
      dir_materialized = False\<rparr>"

definition example_root :: TreeInode where
  "example_root =
     \<lparr>tree_contents = example_root_dir, tree_entry = nullptr, tree_parent = FUSE_ROOT_ID\<rparr>"

definition example_mount :: Mount where
  "example_mount =
     \<lparr>inodes = [FUSE_ROOT_ID \<mapsto> TreeInodeObj example_root],
      heap = [11 \<mapsto> \<lparr>mode = 33188, hash = Some 21, materialized = False\<rparr>,
              12 \<mapsto> \<lparr>mode = 16877, hash = Some 22, materialized = False\<rparr>,
              13 \<mapsto> \<lparr>mode = 16877, hash = Some 23, materialized = False\<rparr>],
      heap_next = 13,
      nm_byname = Map.empty,
      nm_path = (\<lambda>_. []),
      nm_next = 2,
      store = [22 \<mapsto> \<lparr>tree_hash = 22,
                        treeEntries = [\<lparr>te_name = ''c'', te_mode = 33188, te_hash = 24\<rparr>]\<rparr>,
               23 \<mapsto> \<lparr>tree_hash = 23, treeEntries = []\<rparr>],
      overlayDirs = Map.empty,
      contentDir = [''overlay''],
      journal = [],
      syscalls = [],
      os = example_os\<rparr>"

text \<open>The same mount after the root has been materialized.\<close>

definition example_materialized :: Mount where
  "example_materialized =
     example_mount
       \<lparr>inodes := [FUSE_ROOT_ID \<mapsto>
                    TreeInodeObj (example_root
                      \<lparr>tree_contents := example_root_dir\<lparr>dir_materialized := True\<rparr>\<rparr>)],
        overlayDirs := [[] \<mapsto> serializeDir example_mount
                                 (example_root_dir\<lparr>dir_materialized := True\<rparr>)],
        syscalls := [SysMkdir [''overlay''] 493]\<rparr>"

text \<open>
  The materialized mount with the file \<open>a\<close> materialized too, so that its overlay file
  exists, under an operating system that refuses \<^verbatim>\<open>open\<close> with \<^verbatim>\<open>O_EXCL\<close> (\<^verbatim>\<open>0200\<close>, 128) as
  it does for a file that exists: with \<^verbatim>\<open>EEXIST\<close>.
\<close>

definition example_excl_os :: "syscall list \<Rightarrow> syscall \<Rightarrow> errno + mode_t" where
  "example_excl_os tr c =
     (case c of
        SysOpen p fl m \<Rightarrow> if fl AND 128 \<noteq> 0 then Inl EEXIST else Inr 0
      | SysFstat _ \<Rightarrow> Inr 33152
      | SysLstat _ \<Rightarrow> Inr 16877
      | HandleGetattr _ \<Rightarrow> Inr 33152
      | _ \<Rightarrow> Inr 0)"

definition example_overlay_mount :: Mount where
  "example_overlay_mount =
     example_materialized
       \<lparr>heap := (heap example_materialized)
                  (11 \<mapsto> \<lparr>mode = 33188, hash = None, materialized = True\<rparr>),
        os := example_excl_os\<rparr>"

text \<open>
  The materialized mount under an operating system like the first, except that the
  attributes of a new file handle cannot be read: its \<^verbatim>\<open>getattr\<close> fails with \<^verbatim>\<open>EIO\<close>.
\<close>

definition example_noattr_os :: "syscall list \<Rightarrow> syscall \<Rightarrow> errno + mode_t" where
  "example_noattr_os tr c = (case c of HandleGetattr _ \<Rightarrow> Inl EIO | _ \<Rightarrow> example_os tr c)"

definition example_noattr_mount :: Mount where
  "example_noattr_mount = example_materialized\<lparr>os := example_noattr_os\<rparr>"

text \<open>
  The materialized mount with a name manager that already has a node for the name \<open>d\<close> of
  the root: node 2, whose path is \<open>gone\<close>, which has no inode in the table and no record in
  the overlay.
\<close>

definition example_stale_mount :: Mount where
  "example_stale_mount =
     example_materialized
       \<lparr>nm_byname := [(FUSE_ROOT_ID, ''d'') \<mapsto> 2],
        nm_path := (\<lambda>_. [])(2 := [''gone'']),
        nm_next := 3\<rparr>"

text \<open>
  What another thread does to the mount when it puts the entry \<open>x\<close> into the directory
  with inode 2, as a \<^verbatim>\<open>create\<close> in that directory would.
\<close>

definition example_other_thread :: "Mount \<Rightarrow> Mount" where
  "example_other_thread s =
     set_contents 2 \<lparr>entries = [(''x'', 11)], treeHash = None, dir_materialized = True\<rparr> s"

section \<open>Properties\<close>

subsection \<open>What each state change leaves alone\<close>

lemma set_contents_frame [simp]:
  "heap (set_contents ino d s) = heap s"
  "heap_next (set_contents ino d s) = heap_next s"
  "nm_byname (set_contents ino d s) = nm_byname s"
  "nm_path (set_contents ino d s) = nm_path s"
  "nm_next (set_contents ino d s) = nm_next s"
  "store (set_contents ino d s) = store s"
  "overlayDirs (set_contents ino d s) = overlayDirs s"
  "contentDir (set_contents ino d s) = contentDir s"
  "journal (set_contents ino d s) = journal s"
  "syscalls (set_contents ino d s) = syscalls s"
  "os (set_contents ino d s) = os s"
  by (simp_all add: set_contents_def split: option.splits Inode.splits)

lemma recordInode_frame [simp]:
  "heap (recordInode ino x s) = heap s"
  "heap_next (recordInode ino x s) = heap_next s"
  "nm_byname (recordInode ino x s) = nm_byname s"
  "nm_path (recordInode ino x s) = nm_path s"
  "nm_next (recordInode ino x s) = nm_next s"
  "store (recordInode ino x s) = store s"
  "overlayDirs (recordInode ino x s) = overlayDirs s"
  "contentDir (recordInode ino x s) = contentDir s"
  "journal (recordInode ino x s) = journal s"
  "syscalls (recordInode ino x s) = syscalls s"
  "os (recordInode ino x s) = os s"
  by (simp_all add: recordInode_def)

lemma delete_Entry_frame [simp]:
  "inodes (delete_Entry p s) = inodes s"
  "heap_next (delete_Entry p s) = heap_next s"
  "nm_byname (delete_Entry p s) = nm_byname s"
  "nm_path (delete_Entry p s) = nm_path s"
  "nm_next (delete_Entry p s) = nm_next s"
  "store (delete_Entry p s) = store s"
  "overlayDirs (delete_Entry p s) = overlayDirs s"
  "contentDir (delete_Entry p s) = contentDir s"
  "journal (delete_Entry p s) = journal s"
  "syscalls (delete_Entry p s) = syscalls s"
  "os (delete_Entry p s) = os s"
  by (simp_all add: delete_Entry_def)

lemma store_Entry_frame [simp]:
  "inodes (store_Entry p e s) = inodes s"
  "heap_next (store_Entry p e s) = heap_next s"
  "nm_byname (store_Entry p e s) = nm_byname s"
  "nm_path (store_Entry p e s) = nm_path s"
  "nm_next (store_Entry p e s) = nm_next s"
  "store (store_Entry p e s) = store s"
  "overlayDirs (store_Entry p e s) = overlayDirs s"
  "contentDir (store_Entry p e s) = contentDir s"
  "journal (store_Entry p e s) = journal s"
  "syscalls (store_Entry p e s) = syscalls s"
  "os (store_Entry p e s) = os s"
  by (simp_all add: store_Entry_def)

lemma saveOverlayDir_frame [simp]:
  "inodes (saveOverlayDir path d s) = inodes s"
  "heap (saveOverlayDir path d s) = heap s"
  "heap_next (saveOverlayDir path d s) = heap_next s"
  "nm_byname (saveOverlayDir path d s) = nm_byname s"
  "nm_path (saveOverlayDir path d s) = nm_path s"
  "nm_next (saveOverlayDir path d s) = nm_next s"
  "store (saveOverlayDir path d s) = store s"
  "contentDir (saveOverlayDir path d s) = contentDir s"
  "journal (saveOverlayDir path d s) = journal s"
  "syscalls (saveOverlayDir path d s) = syscalls s"
  "os (saveOverlayDir path d s) = os s"
  by (simp_all add: saveOverlayDir_def)

lemma removeOverlayDir_frame [simp]:
  "inodes (removeOverlayDir path s) = inodes s"
  "heap (removeOverlayDir path s) = heap s"
  "heap_next (removeOverlayDir path s) = heap_next s"
  "nm_byname (removeOverlayDir path s) = nm_byname s"
  "nm_path (removeOverlayDir path s) = nm_path s"
  "nm_next (removeOverlayDir path s) = nm_next s"
  "store (removeOverlayDir path s) = store s"
  "contentDir (removeOverlayDir path s) = contentDir s"
  "journal (removeOverlayDir path s) = journal s"
  "syscalls (removeOverlayDir path s) = syscalls s"
  "os (removeOverlayDir path s) = os s"
  by (simp_all add: removeOverlayDir_def)

lemma addDelta_frame [simp]:
  "inodes (addDelta dl s) = inodes s"
  "heap (addDelta dl s) = heap s"
  "heap_next (addDelta dl s) = heap_next s"
  "nm_byname (addDelta dl s) = nm_byname s"
  "nm_path (addDelta dl s) = nm_path s"
  "nm_next (addDelta dl s) = nm_next s"
  "store (addDelta dl s) = store s"
  "overlayDirs (addDelta dl s) = overlayDirs s"
  "contentDir (addDelta dl s) = contentDir s"
  "syscalls (addDelta dl s) = syscalls s"
  "os (addDelta dl s) = os s"
  by (simp_all add: addDelta_def)

lemma sys_frame [simp]:
  "inodes (snd (sys c s)) = inodes s"
  "heap (snd (sys c s)) = heap s"
  "heap_next (snd (sys c s)) = heap_next s"
  "nm_byname (snd (sys c s)) = nm_byname s"
  "nm_path (snd (sys c s)) = nm_path s"
  "nm_next (snd (sys c s)) = nm_next s"
  "store (snd (sys c s)) = store s"
  "overlayDirs (snd (sys c s)) = overlayDirs s"
  "contentDir (snd (sys c s)) = contentDir s"
  "journal (snd (sys c s)) = journal s"
  "os (snd (sys c s)) = os s"
  by (simp_all add: sys_def)

lemma new_Entry_frame [simp]:
  "inodes (snd (new_Entry e s)) = inodes s"
  "nm_byname (snd (new_Entry e s)) = nm_byname s"
  "nm_path (snd (new_Entry e s)) = nm_path s"
  "nm_next (snd (new_Entry e s)) = nm_next s"
  "store (snd (new_Entry e s)) = store s"
  "overlayDirs (snd (new_Entry e s)) = overlayDirs s"
  "contentDir (snd (new_Entry e s)) = contentDir s"
  "journal (snd (new_Entry e s)) = journal s"
  "syscalls (snd (new_Entry e s)) = syscalls s"
  "os (snd (new_Entry e s)) = os s"
  by (simp_all add: new_Entry_def)

lemma getNodeByName_frame [simp]:
  "inodes (snd (getNodeByName parent name cr s)) = inodes s"
  "heap (snd (getNodeByName parent name cr s)) = heap s"
  "heap_next (snd (getNodeByName parent name cr s)) = heap_next s"
  "store (snd (getNodeByName parent name cr s)) = store s"
  "overlayDirs (snd (getNodeByName parent name cr s)) = overlayDirs s"
  "contentDir (snd (getNodeByName parent name cr s)) = contentDir s"
  "journal (snd (getNodeByName parent name cr s)) = journal s"
  "syscalls (snd (getNodeByName parent name cr s)) = syscalls s"
  "os (snd (getNodeByName parent name cr s)) = os s"
  by (simp_all add: getNodeByName_def split: option.splits)

lemma getTreeInode_frame [simp]:
  "getTreeInode (delete_Entry p s) = getTreeInode s"
  "getTreeInode (store_Entry p e s) = getTreeInode s"
  "getTreeInode (saveOverlayDir path d s) = getTreeInode s"
  "getTreeInode (removeOverlayDir path s) = getTreeInode s"
  "getTreeInode (addDelta dl s) = getTreeInode s"
  "getTreeInode (snd (sys c s)) = getTreeInode s"
  "getTreeInode (snd (new_Entry e s)) = getTreeInode s"
  "getTreeInode (snd (getNodeByName parent name cr s)) = getTreeInode s"
  by (simp_all add: getTreeInode_def fun_eq_iff)

lemma getInode_frame [simp]:
  "getInode (delete_Entry p s) = getInode s"
  "getInode (store_Entry p e s) = getInode s"
  "getInode (saveOverlayDir path d s) = getInode s"
  "getInode (removeOverlayDir path s) = getInode s"
  "getInode (addDelta dl s) = getInode s"
  "getInode (snd (sys c s)) = getInode s"
  "getInode (snd (new_Entry e s)) = getInode s"
  "getInode (snd (getNodeByName parent name cr s)) = getInode s"
  by (simp_all add: getInode_def fun_eq_iff getTreeInode_def)

lemma dir_of_frame [simp]:
  "dir_of (delete_Entry p s) = dir_of s"
  "dir_of (store_Entry p e s) = dir_of s"
  "dir_of (saveOverlayDir path d s) = dir_of s"
  "dir_of (removeOverlayDir path s) = dir_of s"
  "dir_of (addDelta dl s) = dir_of s"
  "dir_of (snd (sys c s)) = dir_of s"
  "dir_of (snd (new_Entry e s)) = dir_of s"
  "dir_of (snd (getNodeByName parent name cr s)) = dir_of s"
  by (simp_all add: dir_of_def fun_eq_iff getTreeInode_def)

lemma is_materialized_frame [simp]:
  "is_materialized (delete_Entry p s) = is_materialized s"
  "is_materialized (store_Entry p e s) = is_materialized s"
  "is_materialized (saveOverlayDir path d s) = is_materialized s"
  "is_materialized (removeOverlayDir path s) = is_materialized s"
  "is_materialized (addDelta dl s) = is_materialized s"
  "is_materialized (snd (sys c s)) = is_materialized s"
  "is_materialized (snd (new_Entry e s)) = is_materialized s"
  "is_materialized (snd (getNodeByName parent name cr s)) = is_materialized s"
  by (simp_all add: is_materialized_def fun_eq_iff getTreeInode_def)

lemma slot_of_frame [simp]:
  "slot_of (delete_Entry p s) = slot_of s"
  "slot_of (store_Entry p e s) = slot_of s"
  "slot_of (saveOverlayDir path d s) = slot_of s"
  "slot_of (removeOverlayDir path s) = slot_of s"
  "slot_of (addDelta dl s) = slot_of s"
  "slot_of (snd (sys c s)) = slot_of s"
  "slot_of (snd (new_Entry e s)) = slot_of s"
  "slot_of (snd (getNodeByName parent name cr s)) = slot_of s"
  by (simp_all add: slot_of_def fun_eq_iff)

lemma deref_frame [simp]:
  "deref (set_contents ino d s) = deref s"
  "deref (recordInode ino x s) = deref s"
  "deref (saveOverlayDir path d s) = deref s"
  "deref (removeOverlayDir path s) = deref s"
  "deref (addDelta dl s) = deref s"
  "deref (snd (sys c s)) = deref s"
  "deref (snd (getNodeByName parent name cr s)) = deref s"
  by (simp_all add: deref_def fun_eq_iff)

lemma serializeDir_frame [simp]:
  "serializeDir (set_contents ino d s) = serializeDir s"
  "serializeDir (recordInode ino x s) = serializeDir s"
  "serializeDir (saveOverlayDir path d s) = serializeDir s"
  "serializeDir (removeOverlayDir path s) = serializeDir s"
  "serializeDir (addDelta dl s) = serializeDir s"
  "serializeDir (snd (sys c s)) = serializeDir s"
  "serializeDir (snd (getNodeByName parent name cr s)) = serializeDir s"
  by (simp_all add: serializeDir_def fun_eq_iff)

lemma resolvePathToNode_frame [simp]:
  "resolvePathToNode (set_contents ino d s) = resolvePathToNode s"
  "resolvePathToNode (recordInode ino x s) = resolvePathToNode s"
  "resolvePathToNode (delete_Entry p s) = resolvePathToNode s"
  "resolvePathToNode (store_Entry p e s) = resolvePathToNode s"
  "resolvePathToNode (saveOverlayDir path d s) = resolvePathToNode s"
  "resolvePathToNode (removeOverlayDir path s) = resolvePathToNode s"
  "resolvePathToNode (addDelta dl s) = resolvePathToNode s"
  "resolvePathToNode (snd (sys c s)) = resolvePathToNode s"
  "resolvePathToNode (snd (new_Entry e s)) = resolvePathToNode s"
  by (simp_all add: resolvePathToNode_def fun_eq_iff)

lemma getTree_frame [simp]:
  "getTree (set_contents ino d s) = getTree s"
  "getTree (recordInode ino x s) = getTree s"
  "getTree (delete_Entry p s) = getTree s"
  "getTree (store_Entry p e s) = getTree s"
  "getTree (saveOverlayDir path d s) = getTree s"
  "getTree (removeOverlayDir path s) = getTree s"
  "getTree (addDelta dl s) = getTree s"
  "getTree (snd (sys c s)) = getTree s"
  "getTree (snd (new_Entry e s)) = getTree s"
  "getTree (snd (getNodeByName parent name cr s)) = getTree s"
  by (simp_all add: getTree_def fun_eq_iff)

subsection \<open>What each state change does\<close>

lemma getTreeInode_set_contents [simp]:
  "getTreeInode (set_contents ino d s) i =
     (if i = ino then map_option (\<lambda>t. t\<lparr>tree_contents := d\<rparr>) (getTreeInode s ino)
      else getTreeInode s i)"
  by (auto simp: getTreeInode_def set_contents_def split: option.splits Inode.splits)

lemma inodes_set_contents_None [simp]:
  "inodes (set_contents ino d s) i = None \<longleftrightarrow> inodes s i = None"
  by (auto simp: set_contents_def split: option.splits Inode.splits)

lemma dir_of_set_contents [simp]:
  "dir_of (set_contents ino d s) i =
     (if i = ino \<and> getTreeInode s ino \<noteq> None then d else dir_of s i)"
  by (auto simp: dir_of_def split: option.splits)

lemma is_materialized_set_contents [simp]:
  "is_materialized (set_contents ino d s) i =
     (if i = ino \<and> getTreeInode s ino \<noteq> None then dir_materialized d else is_materialized s i)"
  by (auto simp: is_materialized_def split: option.splits)

lemma slot_of_set_contents [simp]:
  "slot_of (set_contents ino d s) i name =
     (if i = ino \<and> getTreeInode s ino \<noteq> None
      then (case find_entry d name of Some p \<Rightarrow> p | None \<Rightarrow> nullptr)
      else slot_of s i name)"
  by (auto simp: slot_of_def)

lemma getTreeInode_recordInode [simp]:
  "getTreeInode (recordInode j x s) i =
     (if i = j then (case x of TreeInodeObj t \<Rightarrow> Some t | FileInodeObj f \<Rightarrow> None)
      else getTreeInode s i)"
  by (auto simp: getTreeInode_def recordInode_def split: Inode.splits)

lemma inodes_recordInode [simp]:
  "inodes (recordInode j x s) = (inodes s)(j \<mapsto> x)"
  by (simp add: recordInode_def)

lemma dir_materialized_dir_of [simp]:
  "dir_materialized (dir_of s i) = is_materialized s i"
  by (simp add: dir_of_def is_materialized_def default_Dir_def split: option.splits)

lemma heap_delete_Entry [simp]:
  "heap (delete_Entry p s) = (if p = nullptr then heap s else (heap s)(p := None))"
  by (simp add: delete_Entry_def)

lemma deref_delete_Entry [simp]:
  "deref (delete_Entry p s) q = (if q = p then None else deref s q)"
  by (simp add: deref_def delete_Entry_def)

lemma heap_store_Entry [simp]: "heap (store_Entry p e s) = (heap s)(p \<mapsto> e)"
  by (simp add: store_Entry_def)

lemma deref_store_Entry [simp]:
  "deref (store_Entry p e s) q = (if q = p \<and> p \<noteq> nullptr then Some e else deref s q)"
  by (simp add: deref_def store_Entry_def)

lemma new_Entry_simps [simp]:
  "fst (new_Entry e s) = Suc (heap_next s)"
  "heap (snd (new_Entry e s)) = (heap s)(Suc (heap_next s) \<mapsto> e)"
  "heap_next (snd (new_Entry e s)) = Suc (heap_next s)"
  by (simp_all add: new_Entry_def)

lemma deref_new_Entry [simp]:
  "deref (snd (new_Entry e s)) q = (if q = Suc (heap_next s) then Some e else deref s q)"
  by (simp add: deref_def)

lemma sys_simps [simp]:
  "fst (sys c s) = os s (syscalls s) c"
  "syscalls (snd (sys c s)) = syscalls s @ [c]"
  by (simp_all add: sys_def)

lemma overlayDirs_saveOverlayDir [simp]:
  "overlayDirs (saveOverlayDir path d s) = (overlayDirs s)(path \<mapsto> serializeDir s d)"
  by (simp add: saveOverlayDir_def)

lemma overlayDirs_removeOverlayDir [simp]:
  "overlayDirs (removeOverlayDir path s) = (overlayDirs s)(path := None)"
  by (simp add: removeOverlayDir_def)

lemma journal_addDelta [simp]: "journal (addDelta dl s) = journal s @ [dl]"
  by (simp add: addDelta_def)

lemma getNodeByName_simps [simp]:
  "fst (getNodeByName parent name True s) =
     Some (case nm_byname s (parent, name) of Some i \<Rightarrow> i | None \<Rightarrow> nm_next s)"
  "fst (getNodeByName parent name False s) = nm_byname s (parent, name)"
  "nm_next (snd (getNodeByName parent name cr s)) =
     (if cr \<and> nm_byname s (parent, name) = None then Suc (nm_next s) else nm_next s)"
  "nm_byname (snd (getNodeByName parent name cr s)) =
     (if cr \<and> nm_byname s (parent, name) = None
      then (nm_byname s)((parent, name) \<mapsto> nm_next s) else nm_byname s)"
  "nm_path (snd (getNodeByName parent name cr s)) =
     (if cr \<and> nm_byname s (parent, name) = None
      then (nm_path s)(nm_next s := nm_path s parent @ [name]) else nm_path s)"
  by (auto simp: getNodeByName_def split: option.splits)

lemma write_Entry_Some_iff:
  "write_Entry p f s = Some s' \<longleftrightarrow> (\<exists>e. deref s p = Some e \<and> s' = store_Entry p (f e) s)"
  by (auto simp: write_Entry_def split: option.splits)

lemma write_Entry_None_iff: "write_Entry p f s = None \<longleftrightarrow> deref s p = None"
  by (auto simp: write_Entry_def split: option.splits)

lemma entry_table_simps [simp]:
  "dir_materialized (index_entry name d) = dir_materialized d"
  "dir_materialized (set_slot name p d) = dir_materialized d"
  "dir_materialized (erase_entry name d) = dir_materialized d"
  "dir_materialized (snd (emplace_entry name p d)) = dir_materialized d"
  "treeHash (index_entry name d) = treeHash d"
  "treeHash (set_slot name p d) = treeHash d"
  "treeHash (erase_entry name d) = treeHash d"
  "treeHash (snd (emplace_entry name p d)) = treeHash d"
  by (simp_all add: index_entry_def set_slot_def erase_entry_def emplace_entry_def
      split: option.splits)

subsection \<open>Lookup\<close>

lemma build_entries_frame [simp]:
  "inodes (snd (build_entries tes d s)) = inodes s"
  "nm_byname (snd (build_entries tes d s)) = nm_byname s"
  "nm_path (snd (build_entries tes d s)) = nm_path s"
  "nm_next (snd (build_entries tes d s)) = nm_next s"
  "store (snd (build_entries tes d s)) = store s"
  "overlayDirs (snd (build_entries tes d s)) = overlayDirs s"
  "contentDir (snd (build_entries tes d s)) = contentDir s"
  "journal (snd (build_entries tes d s)) = journal s"
  "syscalls (snd (build_entries tes d s)) = syscalls s"
  "os (snd (build_entries tes d s)) = os s"
  "treeHash (fst (build_entries tes d s)) = treeHash d"
  "dir_materialized (fst (build_entries tes d s)) = dir_materialized d"
  by (induction tes arbitrary: d s; simp add: Let_def case_prod_unfold)+

lemma load_entries_Cons:
  "load_entries (ne # es) d s =
     load_entries es (snd (emplace_entry (fst ne) (Suc (heap_next s)) d))
       (if fst (emplace_entry (fst ne) (Suc (heap_next s)) d) then snd (new_Entry (snd ne) s)
        else delete_Entry (Suc (heap_next s)) (snd (new_Entry (snd ne) s)))"
  by (cases ne) (simp add: Let_def case_prod_unfold)

lemma load_entries_frame [simp]:
  "inodes (snd (load_entries es d s)) = inodes s"
  "nm_byname (snd (load_entries es d s)) = nm_byname s"
  "nm_path (snd (load_entries es d s)) = nm_path s"
  "nm_next (snd (load_entries es d s)) = nm_next s"
  "store (snd (load_entries es d s)) = store s"
  "overlayDirs (snd (load_entries es d s)) = overlayDirs s"
  "contentDir (snd (load_entries es d s)) = contentDir s"
  "journal (snd (load_entries es d s)) = journal s"
  "syscalls (snd (load_entries es d s)) = syscalls s"
  "os (snd (load_entries es d s)) = os s"
  "treeHash (fst (load_entries es d s)) = treeHash d"
  "dir_materialized (fst (load_entries es d s)) = dir_materialized d"
  by (induction es arbitrary: d s; simp add: load_entries_Cons)+

lemma build_entries_heap:
  "heap_next s \<le> heap_next (snd (build_entries tes d s)) \<and>
   (\<forall>q. q \<le> heap_next s \<longrightarrow> heap (snd (build_entries tes d s)) q = heap s q) \<and>
   (\<forall>q. heap_next (snd (build_entries tes d s)) < q \<longrightarrow>
        heap (snd (build_entries tes d s)) q = heap s q)"
proof (induction tes arbitrary: d s)
  case Nil
  show ?case by simp
next
  case (Cons te tes)
  define e where "e = \<lparr>mode = te_mode te, hash = Some (te_hash te), materialized = False\<rparr>"
  define b where "b = fst (emplace_entry (te_name te) (Suc (heap_next s)) d)"
  define s1 where "s1 = (if b then snd (new_Entry e s)
                         else delete_Entry (Suc (heap_next s)) (snd (new_Entry e s)))"
  have step: "build_entries (te # tes) d s =
              build_entries tes (snd (emplace_entry (te_name te) (Suc (heap_next s)) d)) s1"
    by (simp add: s1_def b_def e_def Let_def case_prod_unfold)
  have s1: "heap_next s1 = Suc (heap_next s)"
    "\<And>q. q \<le> heap_next s \<Longrightarrow> heap s1 q = heap s q"
    "\<And>q. Suc (heap_next s) < q \<Longrightarrow> heap s1 q = heap s q"
    by (simp_all add: s1_def)
  show ?case
    unfolding step
    using Cons.IH[of s1 "snd (emplace_entry (te_name te) (Suc (heap_next s)) d)"] s1
    by (auto simp del: build_entries.simps)
qed

lemma load_entries_heap:
  "heap_next s \<le> heap_next (snd (load_entries es d s)) \<and>
   (\<forall>q. q \<le> heap_next s \<longrightarrow> heap (snd (load_entries es d s)) q = heap s q) \<and>
   (\<forall>q. heap_next (snd (load_entries es d s)) < q \<longrightarrow>
        heap (snd (load_entries es d s)) q = heap s q)"
proof (induction es arbitrary: d s)
  case Nil
  show ?case by simp
next
  case (Cons ne es)
  define b where "b = fst (emplace_entry (fst ne) (Suc (heap_next s)) d)"
  define s1 where "s1 = (if b then snd (new_Entry (snd ne) s)
                         else delete_Entry (Suc (heap_next s)) (snd (new_Entry (snd ne) s)))"
  have step: "load_entries (ne # es) d s =
              load_entries es (snd (emplace_entry (fst ne) (Suc (heap_next s)) d)) s1"
    by (simp add: s1_def b_def load_entries_Cons del: load_entries.simps)
  have s1: "heap_next s1 = Suc (heap_next s)"
    "\<And>q. q \<le> heap_next s \<Longrightarrow> heap s1 q = heap s q"
    "\<And>q. Suc (heap_next s) < q \<Longrightarrow> heap s1 q = heap s q"
    by (simp_all add: s1_def)
  show ?case
    unfolding step
    using Cons.IH[of s1 "snd (emplace_entry (fst ne) (Suc (heap_next s)) d)"] s1
    by (auto simp del: load_entries.simps)
qed

lemma lookup_frame_refl [simp]: "lookup_frame s s"
  by (simp add: lookup_frame_def)

lemma lookup_frame_trans: "lookup_frame a b \<Longrightarrow> lookup_frame b c \<Longrightarrow> lookup_frame a c"
  unfolding lookup_frame_def
  by (intro conjI allI impI; simp)

lemma build_entries_heap_simps [simp]:
  "n \<le> heap_next s \<Longrightarrow> n \<le> heap_next (snd (build_entries tes d s))"
  "q \<le> heap_next s \<Longrightarrow> heap (snd (build_entries tes d s)) q = heap s q"
  "heap_next (snd (build_entries tes d s)) < q \<Longrightarrow> heap (snd (build_entries tes d s)) q = heap s q"
  using build_entries_heap[of s tes d] by simp_all

lemma load_entries_heap_simps [simp]:
  "n \<le> heap_next s \<Longrightarrow> n \<le> heap_next (snd (load_entries es d s))"
  "q \<le> heap_next s \<Longrightarrow> heap (snd (load_entries es d s)) q = heap s q"
  "heap_next (snd (load_entries es d s)) < q \<Longrightarrow> heap (snd (load_entries es d s)) q = heap s q"
  using load_entries_heap[of s es d] by simp_all

lemma getChildByNameLocked_inodes [simp]:
  "inodes (snd (getChildByNameLocked ino contents name s)) = inodes s"
  by (simp add: getChildByNameLocked_def Let_def case_prod_unfold
      buildDirFromTree_def loadOverlayDir_def split: option.splits)

lemma getChildByNameLocked_frame:
  "lookup_frame s (snd (getChildByNameLocked ino contents name s))"
  by (simp add: lookup_frame_def getChildByNameLocked_def Let_def case_prod_unfold
      buildDirFromTree_def loadOverlayDir_def split: option.splits)

lemma getNodeByName_same [simp]:
  "snd (getNodeByName parent name False s) = s"
  "nm_byname s (parent, name) = Some i \<Longrightarrow> snd (getNodeByName parent name cr s) = s"
  by (simp_all add: getNodeByName_def split: option.splits)

lemma getChildByNameLocked_id:
  "fst (getChildByNameLocked ino contents name s) = Inr (childId, child) \<Longrightarrow>
   childId = (case nm_byname s (ino, name) of Some i \<Rightarrow> i | None \<Rightarrow> nm_next s)"
  by (auto simp: getChildByNameLocked_def Let_def case_prod_unfold
      buildDirFromTree_def loadOverlayDir_def split: option.splits if_splits)

lemma getChildByNameLocked_nm_next:
  "nm_next (snd (getChildByNameLocked ino contents name s)) =
     (if find_entry contents name \<noteq> None \<and> nm_byname s (ino, name) = None
      then Suc (nm_next s) else nm_next s)"
  by (simp add: getChildByNameLocked_def Let_def case_prod_unfold
      buildDirFromTree_def loadOverlayDir_def split: option.splits)

lemma lookupChildByNameLocked_frame:
  "lookup_frame s (snd (lookupChildByNameLocked ino contents name s))"
proof (cases "nm_byname s (ino, name)")
  case (Some i)
  then show ?thesis
    by (simp add: lookupChildByNameLocked_def Let_def case_prod_unfold)
next
  case None
  show ?thesis
  proof (cases "fst (getChildByNameLocked ino contents name s)")
    case (Inl e)
    with None show ?thesis
      using getChildByNameLocked_frame[of s ino contents name]
      by (simp add: lookupChildByNameLocked_def Let_def case_prod_unfold)
  next
    case (Inr r)
    then have id: "fst r = nm_next s"
      using getChildByNameLocked_id[of ino contents name s "fst r" "snd r"] None by simp
    have present: "find_entry contents name \<noteq> None"
      using Inr by (cases "find_entry contents name") (auto simp: getChildByNameLocked_def)
    have nn: "nm_next (snd (getChildByNameLocked ino contents name s)) = Suc (nm_next s)"
      using present None by (simp add: getChildByNameLocked_nm_next)
    show ?thesis
      using getChildByNameLocked_frame[of s ino contents name] None Inr id nn
      by (simp add: lookupChildByNameLocked_def Let_def case_prod_unfold lookup_frame_def)
  qed
qed

subsection \<open>Materialization\<close>

lemma inode_le_refl [simp]: "inode_le x x"
  by (simp add: inode_le_def split: option.splits Inode.splits)

lemma inode_le_trans: "inode_le x y \<Longrightarrow> inode_le y z \<Longrightarrow> inode_le x z"
  by (auto simp: inode_le_def split: option.splits Inode.splits)

lemma entry_le_refl [simp]: "entry_le x x"
  by (simp add: entry_le_def split: option.splits)

lemma entry_le_trans: "entry_le x y \<Longrightarrow> entry_le y z \<Longrightarrow> entry_le x z"
  by (auto simp: entry_le_def split: option.splits)

lemma inode_le_getTreeInode:
  assumes "inode_le (inodes s i) (inodes s' i)"
  shows "(getTreeInode s i = None \<longleftrightarrow> getTreeInode s' i = None) \<and>
         (\<forall>t. getTreeInode s i = Some t \<longrightarrow>
            (\<exists>t'. getTreeInode s' i = Some t' \<and>
               entries (tree_contents t') = entries (tree_contents t) \<and>
               treeHash (tree_contents t') = treeHash (tree_contents t) \<and>
               tree_entry t' = tree_entry t \<and> tree_parent t' = tree_parent t \<and>
               (dir_materialized (tree_contents t) \<longrightarrow> dir_materialized (tree_contents t'))))"
  using assms
  by (auto simp: inode_le_def getTreeInode_def split: option.splits Inode.splits)

lemma mat_rel_refl [simp]: "mat_rel s s"
  by (simp add: mat_rel_def)

lemma mat_rel_trans:
  assumes ab: "mat_rel a b" and bc: "mat_rel b c"
  shows "mat_rel a c"
proof -
  from ab obtain tr1 where tr1: "syscalls b = syscalls a @ tr1" "list_all is_SysMkdir tr1"
    by (auto simp: mat_rel_def)
  from bc obtain tr2 where tr2: "syscalls c = syscalls b @ tr2" "list_all is_SysMkdir tr2"
    by (auto simp: mat_rel_def)
  have sys: "\<exists>tr. syscalls c = syscalls a @ tr \<and> list_all is_SysMkdir tr"
    using tr1 tr2 by (intro exI[of _ "tr1 @ tr2"]) simp
  have ino: "inode_le (inodes a i) (inodes c i)" for i
    using ab bc by (auto simp: mat_rel_def intro: inode_le_trans)
  have ent: "entry_le (heap a p) (heap c p)" for p
    using ab bc by (auto simp: mat_rel_def intro: entry_le_trans)
  have heap: "heap c p = heap a p"
    if p: "\<forall>i t. getTreeInode a i = Some t \<longrightarrow> tree_entry t \<noteq> p" for p
  proof -
    have "\<forall>i t. getTreeInode b i = Some t \<longrightarrow> tree_entry t \<noteq> p"
    proof (intro allI impI)
      fix i t assume t: "getTreeInode b i = Some t"
      have le: "inode_le (inodes a i) (inodes b i)" using ab by (simp add: mat_rel_def)
      from inode_le_getTreeInode[OF le] t obtain t0 where
        "getTreeInode a i = Some t0" "tree_entry t = tree_entry t0"
        by (cases "getTreeInode a i") auto
      with p show "tree_entry t \<noteq> p" by auto
    qed
    with bc have "heap c p = heap b p" by (simp add: mat_rel_def)
    moreover from ab p have "heap b p = heap a p" by (simp add: mat_rel_def)
    ultimately show ?thesis by simp
  qed
  show ?thesis
    unfolding mat_rel_def
    using ab bc sys ino ent heap by (simp add: mat_rel_def)
qed

lemma mat_rel_sys: "mat_rel s0 s \<Longrightarrow> mat_rel s0 (snd (sys (SysMkdir path m) s))"
proof (erule mat_rel_trans)
  show "mat_rel s (snd (sys (SysMkdir path m) s))"
    by (simp add: mat_rel_def is_SysMkdir_def)
qed

lemma mat_rel_saveOverlayDir: "mat_rel s0 s \<Longrightarrow> mat_rel s0 (saveOverlayDir path d s)"
proof (erule mat_rel_trans)
  show "mat_rel s (saveOverlayDir path d s)"
    by (simp add: mat_rel_def)
qed

lemma mat_rel_set_flag:
  assumes "mat_rel s0 s" and t: "getTreeInode s ino = Some t"
  shows "mat_rel s0 (set_contents ino ((tree_contents t)\<lparr>dir_materialized := True\<rparr>) s)"
proof (rule mat_rel_trans[OF assms(1)])
  have "inode_le (inodes s i)
          (inodes (set_contents ino ((tree_contents t)\<lparr>dir_materialized := True\<rparr>) s) i)" for i
    using t
    by (auto simp: inode_le_def set_contents_def getTreeInode_def split: option.splits Inode.splits)
  then show "mat_rel s (set_contents ino ((tree_contents t)\<lparr>dir_materialized := True\<rparr>) s)"
    by (simp add: mat_rel_def)
qed

lemma mat_rel_store_flag:
  assumes "mat_rel s0 s" and e: "deref s p = Some e"
    and t: "getTreeInode s i = Some t" "tree_entry t = p"
  shows "mat_rel s0 (store_Entry p (e\<lparr>materialized := True\<rparr>) s)"
proof (rule mat_rel_trans[OF assms(1)])
  have "entry_le (heap s q) (if q = p then Some (e\<lparr>materialized := True\<rparr>) else heap s q)" for q
    using e by (auto simp: entry_le_def deref_def split: if_splits option.splits)
  then show "mat_rel s (store_Entry p (e\<lparr>materialized := True\<rparr>) s)"
    using t by (auto simp: mat_rel_def)
qed

lemma materialize_locked_rel: "mat_rel s (snd (materialize_locked ino s))"
proof (cases "getTreeInode s ino")
  case None
  then show ?thesis by (simp add: materialize_locked_def)
next
  case (Some t)
  show ?thesis
    using Some
    by (auto simp: materialize_locked_def Let_def case_prod_unfold write_Entry_Some_iff
        split: option.splits sum.splits if_splits
        intro!: mat_rel_sys mat_rel_saveOverlayDir mat_rel_set_flag
          mat_rel_store_flag[where i = ino and t = "t\<lparr>tree_contents := (tree_contents t)\<lparr>dir_materialized := True\<rparr>\<rparr>"])
qed

lemma materialize_updateParent_rel: "mat_rel s (snd (materialize_updateParent ino s))"
  by (auto simp: materialize_updateParent_def Let_def split: option.splits
      intro!: mat_rel_saveOverlayDir)

lemma materialize_self_rel: "mat_rel s (snd (materialize_self ino s))"
  using materialize_locked_rel[of s ino]
    materialize_updateParent_rel[of "snd (materialize_locked ino s)" ino]
  by (auto simp: materialize_self_def case_prod_unfold split: sum.splits intro: mat_rel_trans)

text \<open>
  Induction over the recursion of \<^verbatim>\<open>materializeDirAndParents\<close>, for a relation between the
  state before and the state after, and for a property of the result.
\<close>

lemma mat_induct:
  assumes R_refl: "\<And>s. R s s"
    and R_trans: "\<And>a b c. R a b \<Longrightarrow> R b c \<Longrightarrow> R a c"
    and R_step: "\<And>i s. R s (snd (materialize_self i s))"
    and run: "materializeDirAndParents ino s = Some (r, s')"
  shows "R s s'"
proof -
  have "R s (snd (r, s'))"
  proof (rule materializeDirAndParents.raw_induct[where P = "\<lambda>_ s y. R s (snd y)", OF _ run])
    fix mat :: "fuse_ino_t \<Rightarrow> Mount \<Rightarrow> unit result option" and i0 s0 y
    assume IH: "\<And>i b y. mat i b = Some y \<Longrightarrow> R b (snd y)"
    assume body: "(case getTreeInode s0 i0 of None \<Rightarrow> Some (Inl Fault, s0)
      | Some t \<Rightarrow>
          if dir_materialized (tree_contents t) then Some (Inr (), s0)
          else Option.bind
                (if i0 \<noteq> FUSE_ROOT_ID
                 then case getTreeInode s0 (tree_parent t) of
                      None \<Rightarrow> Some (Inl AssertionFailure, s0)
                      | Some parentInode \<Rightarrow> mat (tree_parent t) s0
                 else Some (Inr (), s0))
                (\<lambda>(r, s1).
                    case r of Inl e \<Rightarrow> Some (Inl e, s1)
                    | Inr x \<Rightarrow> Some (materialize_self i0 s1))) = Some y"
    show "R s0 (snd y)"
    proof (cases "getTreeInode s0 i0")
      case None
      with body show ?thesis by (auto simp: R_refl)
    next
      case (Some t)
      show ?thesis
      proof (cases "dir_materialized (tree_contents t)")
        case True
        with Some body show ?thesis by (auto simp: R_refl)
      next
        case False
        with Some body obtain r1 s1 where
          inner: "(if i0 \<noteq> FUSE_ROOT_ID
                 then case getTreeInode s0 (tree_parent t) of
                      None \<Rightarrow> Some (Inl AssertionFailure, s0)
                      | Some parentInode \<Rightarrow> mat (tree_parent t) s0
                 else Some (Inr (), s0)) = Some (r1, s1)"
          and outer: "(case r1 of Inl e \<Rightarrow> Some (Inl e, s1)
                    | Inr x \<Rightarrow> Some (materialize_self i0 s1)) = Some y"
          by (auto simp: bind_eq_Some_conv)
        from inner have R1: "R s0 s1"
          using IH[of "tree_parent t" s0 "(r1, s1)"]
          by (auto split: if_splits option.splits simp: R_refl)
        from outer show ?thesis
          using R1 R_step[of s1 i0] by (auto split: sum.splits intro: R_trans)
      qed
    qed
  qed
  then show ?thesis by simp
qed

lemma mat_result_induct:
  assumes Q_base: "Q (Inl Fault)" "Q (Inl AssertionFailure)" "Q (Inr ())"
    and Q_step: "\<And>i s. Q (fst (materialize_self i s))"
    and run: "materializeDirAndParents ino s = Some (r, s')"
  shows "Q r"
proof -
  have "Q (fst (r, s'))"
  proof (rule materializeDirAndParents.raw_induct[where P = "\<lambda>_ _ y. Q (fst y)", OF _ run])
    fix mat :: "fuse_ino_t \<Rightarrow> Mount \<Rightarrow> unit result option" and i0 s0 y
    assume IH: "\<And>i b y. mat i b = Some y \<Longrightarrow> Q (fst y)"
    assume body: "(case getTreeInode s0 i0 of None \<Rightarrow> Some (Inl Fault, s0)
      | Some t \<Rightarrow>
          if dir_materialized (tree_contents t) then Some (Inr (), s0)
          else Option.bind
                (if i0 \<noteq> FUSE_ROOT_ID
                 then case getTreeInode s0 (tree_parent t) of
                      None \<Rightarrow> Some (Inl AssertionFailure, s0)
                      | Some parentInode \<Rightarrow> mat (tree_parent t) s0
                 else Some (Inr (), s0))
                (\<lambda>(r, s1).
                    case r of Inl e \<Rightarrow> Some (Inl e, s1)
                    | Inr x \<Rightarrow> Some (materialize_self i0 s1))) = Some y"
    show "Q (fst y)"
    proof (cases "getTreeInode s0 i0")
      case None
      with body show ?thesis by (auto simp: Q_base)
    next
      case (Some t)
      show ?thesis
      proof (cases "dir_materialized (tree_contents t)")
        case True
        with Some body show ?thesis by (auto simp: Q_base)
      next
        case False
        with Some body obtain r1 s1 where
          inner: "(if i0 \<noteq> FUSE_ROOT_ID
                 then case getTreeInode s0 (tree_parent t) of
                      None \<Rightarrow> Some (Inl AssertionFailure, s0)
                      | Some parentInode \<Rightarrow> mat (tree_parent t) s0
                 else Some (Inr (), s0)) = Some (r1, s1)"
          and outer: "(case r1 of Inl e \<Rightarrow> Some (Inl e, s1)
                    | Inr x \<Rightarrow> Some (materialize_self i0 s1)) = Some y"
          by (auto simp: bind_eq_Some_conv)
        from inner have Q1: "Q r1"
          using IH[of "tree_parent t" s0 "(r1, s1)"]
          by (auto split: if_splits option.splits simp: Q_base)
        from outer show ?thesis
          using Q1 Q_step[of i0 s1] by (auto split: sum.splits)
      qed
    qed
  qed
  then show ?thesis by simp
qed

lemma materialize_rel:
  "materializeDirAndParents ino s = Some (r, s') \<Longrightarrow> mat_rel s s'"
  by (rule mat_induct[where R = mat_rel]) (auto intro: mat_rel_trans materialize_self_rel)

lemma materialize_self_not_EEXIST:
  "fst (materialize_self ino s) \<noteq> Inl (SystemError EEXIST)"
  by (auto simp: materialize_self_def materialize_locked_def materialize_updateParent_def
      Let_def case_prod_unfold split: option.splits sum.splits if_splits)

lemma materialize_not_EEXIST:
  "materializeDirAndParents ino s = Some (r, s') \<Longrightarrow> r \<noteq> Inl (SystemError EEXIST)"
  by (rule mat_result_induct[where Q = "\<lambda>r. r \<noteq> Inl (SystemError EEXIST)"])
     (auto simp: materialize_self_not_EEXIST)

lemma materialize_idem:
  assumes "is_materialized s ino"
  shows "materializeDirAndParents ino s = Some (Inr (), s)"
proof -
  from assms obtain t where "getTreeInode s ino = Some t" "dir_materialized (tree_contents t)"
    by (auto simp: is_materialized_def split: option.splits)
  then show ?thesis
    by (subst materializeDirAndParents.simps) simp
qed

text \<open>What the relation gives for the readers of the state.\<close>

lemma mat_rel_fields:
  assumes "mat_rel s s'"
  shows "journal s' = journal s" "nm_byname s' = nm_byname s" "nm_path s' = nm_path s"
    "nm_next s' = nm_next s" "heap_next s' = heap_next s" "store s' = store s"
    "contentDir s' = contentDir s" "os s' = os s"
    "resolvePathToNode s' = resolvePathToNode s"
  using assms by (simp_all add: mat_rel_def resolvePathToNode_def fun_eq_iff)

lemma mat_rel_tree:
  assumes "mat_rel s s'"
  shows "(getTreeInode s' i = None) = (getTreeInode s i = None)"
    and "(inodes s' i = None) = (inodes s i = None)"
    and "entries (dir_of s' i) = entries (dir_of s i)"
    and "find_entry (dir_of s' i) name = find_entry (dir_of s i) name"
    and "slot_of s' i name = slot_of s i name"
    and "is_materialized s i \<Longrightarrow> is_materialized s' i"
proof -
  have le: "inode_le (inodes s i) (inodes s' i)"
    using assms by (simp add: mat_rel_def)
  note g = inode_le_getTreeInode[OF le]
  show 1: "(getTreeInode s' i = None) = (getTreeInode s i = None)" using g by auto
  show "(inodes s' i = None) = (inodes s i = None)"
    using le by (auto simp: inode_le_def split: option.splits Inode.splits)
  show 3: "entries (dir_of s' i) = entries (dir_of s i)"
    using g by (cases "getTreeInode s i") (auto simp: dir_of_def)
  then show 4: "find_entry (dir_of s' i) name = find_entry (dir_of s i) name"
    by (simp add: find_entry_def)
  then show "slot_of s' i name = slot_of s i name"
    by (simp add: slot_of_def)
  show "is_materialized s' i" if "is_materialized s i"
    using that g by (cases "getTreeInode s i") (auto simp: is_materialized_def)
qed



subsection \<open>Monotonicity\<close>

lemma evolves_refl [simp]: "evolves s s"
  by (simp add: evolves_def)

lemma evolves_trans: "evolves a b \<Longrightarrow> evolves b c \<Longrightarrow> evolves a c"
  unfolding evolves_def by (intro conjI allI impI; simp)

lemma mat_rel_evolves: "mat_rel s s' \<Longrightarrow> evolves s s'"
  using mat_rel_tree[of s s'] mat_rel_fields[of s s']
  by (simp add: evolves_def)

lemma lookup_frame_evolves: "lookup_frame s s' \<Longrightarrow> evolves s s'"
  by (simp add: evolves_def lookup_frame_def is_materialized_def getTreeInode_def)

subsection \<open>The operations\<close>

lemma getChildByNameLocked_fields [simp]:
  "store (snd (getChildByNameLocked ino contents name s)) = store s"
  "overlayDirs (snd (getChildByNameLocked ino contents name s)) = overlayDirs s"
  "contentDir (snd (getChildByNameLocked ino contents name s)) = contentDir s"
  "journal (snd (getChildByNameLocked ino contents name s)) = journal s"
  "syscalls (snd (getChildByNameLocked ino contents name s)) = syscalls s"
  "os (snd (getChildByNameLocked ino contents name s)) = os s"
  by (simp_all add: getChildByNameLocked_def buildDirFromTree_def loadOverlayDir_def Let_def case_prod_unfold write_Entry_def
      split: sum.splits option.splits Inode.splits)

lemma lookupChildByNameLocked_fields [simp]:
  "store (snd (lookupChildByNameLocked ino contents name s)) = store s"
  "overlayDirs (snd (lookupChildByNameLocked ino contents name s)) = overlayDirs s"
  "contentDir (snd (lookupChildByNameLocked ino contents name s)) = contentDir s"
  "journal (snd (lookupChildByNameLocked ino contents name s)) = journal s"
  "syscalls (snd (lookupChildByNameLocked ino contents name s)) = syscalls s"
  "os (snd (lookupChildByNameLocked ino contents name s)) = os s"
  using lookupChildByNameLocked_frame[of s ino contents name]
  by (simp_all add: lookup_frame_def)

lemma lookupChildByNameLocked_table [simp]:
  "n \<le> nm_next s \<Longrightarrow> n \<le> nm_next (snd (lookupChildByNameLocked ino contents name s))"
  "i < nm_next s \<Longrightarrow> inodes (snd (lookupChildByNameLocked ino contents name s)) i = inodes s i"
  "i < nm_next s \<Longrightarrow>
     getTreeInode (snd (lookupChildByNameLocked ino contents name s)) i = getTreeInode s i"
  "i < nm_next s \<Longrightarrow>
     is_materialized (snd (lookupChildByNameLocked ino contents name s)) i = is_materialized s i"
  "nm_next (snd (lookupChildByNameLocked ino contents name s)) \<le> i \<Longrightarrow>
     inodes (snd (lookupChildByNameLocked ino contents name s)) i = inodes s i"
  using lookupChildByNameLocked_frame[of s ino contents name]
  by (simp_all add: lookup_frame_def is_materialized_def getTreeInode_def)

lemma rmdir_checks_fields [simp]:
  "store (snd (rmdir_checks ino name s)) = store s"
  "overlayDirs (snd (rmdir_checks ino name s)) = overlayDirs s"
  "contentDir (snd (rmdir_checks ino name s)) = contentDir s"
  "journal (snd (rmdir_checks ino name s)) = journal s"
  "syscalls (snd (rmdir_checks ino name s)) = syscalls s"
  "os (snd (rmdir_checks ino name s)) = os s"
  by (simp_all add: rmdir_checks_def Let_def case_prod_unfold write_Entry_def
      split: sum.splits option.splits Inode.splits)

lemma rename_checks_fields [simp]:
  "store (snd (rename_checks ino sourceIno sourceName destIno destName s)) = store s"
  "overlayDirs (snd (rename_checks ino sourceIno sourceName destIno destName s)) = overlayDirs s"
  "contentDir (snd (rename_checks ino sourceIno sourceName destIno destName s)) = contentDir s"
  "journal (snd (rename_checks ino sourceIno sourceName destIno destName s)) = journal s"
  "syscalls (snd (rename_checks ino sourceIno sourceName destIno destName s)) = syscalls s"
  "os (snd (rename_checks ino sourceIno sourceName destIno destName s)) = os s"
  by (simp_all add: rename_checks_def Let_def case_prod_unfold write_Entry_def
      split: sum.splits option.splits Inode.splits)

lemma create_locked_fields [simp]:
  "store (snd (create_locked ino name flags myname filePath s)) = store s"
  "contentDir (snd (create_locked ino name flags myname filePath s)) = contentDir s"
  "journal (snd (create_locked ino name flags myname filePath s)) = journal s"
  "os (snd (create_locked ino name flags myname filePath s)) = os s"
  by (simp_all add: create_locked_def Let_def case_prod_unfold write_Entry_def
      split: sum.splits option.splits Inode.splits)

lemma mkdir_locked_fields [simp]:
  "store (snd (mkdir_locked ino name mode' myname targetName s)) = store s"
  "contentDir (snd (mkdir_locked ino name mode' myname targetName s)) = contentDir s"
  "journal (snd (mkdir_locked ino name mode' myname targetName s)) = journal s"
  "os (snd (mkdir_locked ino name mode' myname targetName s)) = os s"
  "nm_byname (snd (mkdir_locked ino name mode' myname targetName s)) = nm_byname s"
  "nm_path (snd (mkdir_locked ino name mode' myname targetName s)) = nm_path s"
  "nm_next (snd (mkdir_locked ino name mode' myname targetName s)) = nm_next s"
  by (simp_all add: mkdir_locked_def Let_def case_prod_unfold write_Entry_def
      split: sum.splits option.splits Inode.splits)

lemma unlink_locked_fields [simp]:
  "store (snd (unlink_locked ino name myname targetName s)) = store s"
  "contentDir (snd (unlink_locked ino name myname targetName s)) = contentDir s"
  "journal (snd (unlink_locked ino name myname targetName s)) = journal s"
  "os (snd (unlink_locked ino name myname targetName s)) = os s"
  "nm_byname (snd (unlink_locked ino name myname targetName s)) = nm_byname s"
  "nm_path (snd (unlink_locked ino name myname targetName s)) = nm_path s"
  "nm_next (snd (unlink_locked ino name myname targetName s)) = nm_next s"
  "heap_next (snd (unlink_locked ino name myname targetName s)) = heap_next s"
  by (simp_all add: unlink_locked_def Let_def case_prod_unfold write_Entry_def
      split: sum.splits option.splits Inode.splits)

lemma rmdir_locked_fields [simp]:
  "store (snd (rmdir_locked ino name myname targetName s)) = store s"
  "contentDir (snd (rmdir_locked ino name myname targetName s)) = contentDir s"
  "journal (snd (rmdir_locked ino name myname targetName s)) = journal s"
  "os (snd (rmdir_locked ino name myname targetName s)) = os s"
  by (simp_all add: rmdir_locked_def Let_def case_prod_unfold write_Entry_def
      split: sum.splits option.splits Inode.splits)

lemma dispatcher_lookup_fields [simp]:
  "store (snd (dispatcher_lookup parent name s)) = store s"
  "overlayDirs (snd (dispatcher_lookup parent name s)) = overlayDirs s"
  "contentDir (snd (dispatcher_lookup parent name s)) = contentDir s"
  "journal (snd (dispatcher_lookup parent name s)) = journal s"
  "syscalls (snd (dispatcher_lookup parent name s)) = syscalls s"
  "os (snd (dispatcher_lookup parent name s)) = os s"
  by (simp_all add: dispatcher_lookup_def Let_def case_prod_unfold write_Entry_def
      split: sum.splits option.splits Inode.splits)

lemma create_locked_evolves:
  "evolves s (snd (create_locked ino name flags myname filePath s))"
  by (simp add: evolves_def create_locked_def Let_def case_prod_unfold write_Entry_def
      split: sum.splits option.splits)

lemma mkdir_locked_evolves:
  "evolves s (snd (mkdir_locked ino name mode' myname targetName s))"
  by (simp add: evolves_def mkdir_locked_def Let_def case_prod_unfold
      split: sum.splits option.splits)

lemma unlink_locked_evolves:
  "evolves s (snd (unlink_locked ino name myname targetName s))"
  by (simp add: evolves_def unlink_locked_def Let_def case_prod_unfold
      split: sum.splits option.splits)

lemma rmdir_checks_evolves:
  "evolves s (snd (rmdir_checks ino name s))"
  by (simp add: evolves_def rmdir_checks_def Let_def case_prod_unfold
      split: sum.splits option.splits Inode.splits)

lemma rmdir_locked_evolves:
  "evolves s (snd (rmdir_locked ino name myname targetName s))"
  using rmdir_checks_evolves[of s ino name]
  by (simp add: evolves_def rmdir_locked_def Let_def case_prod_unfold
      split: sum.splits option.splits)

lemma rename_checks_evolves:
  "evolves s (snd (rename_checks ino sourceIno sourceName destIno destName s))"
  by (simp add: evolves_def rename_checks_def Let_def case_prod_unfold
      split: sum.splits option.splits Inode.splits)

lemma rename_move_evolves:
  "evolves s (rename_move sourceIno sourceBase destIno destBase s)"
  by (simp add: evolves_def rename_move_def Let_def)

lemma rename_move_fields [simp]:
  "heap_next (rename_move a b c d s) = heap_next s"
  "nm_byname (rename_move a b c d s) = nm_byname s"
  "nm_path (rename_move a b c d s) = nm_path s"
  "nm_next (rename_move a b c d s) = nm_next s"
  "store (rename_move a b c d s) = store s"
  "overlayDirs (rename_move a b c d s) = overlayDirs s"
  "contentDir (rename_move a b c d s) = contentDir s"
  "journal (rename_move a b c d s) = journal s"
  "syscalls (rename_move a b c d s) = syscalls s"
  "os (rename_move a b c d s) = os s"
  "is_materialized (rename_move a b c d s) i = is_materialized s i"
  "(inodes (rename_move a b c d s) i = None) = (inodes s i = None)"
  "(getTreeInode (rename_move a b c d s) i = None) = (getTreeInode s i = None)"
  by (simp_all add: rename_move_def Let_def)

lemma renameHelper_fields [simp]:
  "store (snd (renameHelper ino sourceIno sourceName destIno destName s)) = store s"
  "contentDir (snd (renameHelper ino sourceIno sourceName destIno destName s)) = contentDir s"
  "journal (snd (renameHelper ino sourceIno sourceName destIno destName s)) = journal s"
  "os (snd (renameHelper ino sourceIno sourceName destIno destName s)) = os s"
  by (simp_all add: renameHelper_def Let_def case_prod_unfold write_Entry_def
      split: sum.splits option.splits Inode.splits)

lemma renameHelper_evolves:
  "evolves s (snd (renameHelper ino sourceIno sourceName destIno destName s))"
  using rename_checks_evolves[of s ino sourceIno sourceName destIno destName]
  by (auto simp: evolves_def renameHelper_def Let_def case_prod_unfold split: sum.splits)

lemma dispatcher_lookup_evolves:
  assumes "nm_ok s"
  shows "evolves s (snd (dispatcher_lookup parent name s))"
proof (cases "getTreeInode s parent")
  case None
  then show ?thesis by (simp add: dispatcher_lookup_def)
next
  case (Some t)
  show ?thesis
  proof (cases "find_entry (tree_contents t) name")
    case None
    with Some show ?thesis by (simp add: dispatcher_lookup_def)
  next
    case present: (Some iter)
    define s1 where "s1 = snd (getNodeByName parent name True s)"
    define c where "c = (case nm_byname s (parent, name) of Some i \<Rightarrow> i | None \<Rightarrow> nm_next s)"
    have s1: "inodes s1 = inodes s" "nm_next s \<le> nm_next s1" "nm_byname s1 (parent, name) = Some c"
      by (simp_all add: s1_def c_def split: option.splits)
    have c: "c < nm_next s1"
      using assms by (auto simp: s1_def c_def nm_ok_def split: option.splits)
    have e1: "evolves s s1"
      using s1 by (simp add: evolves_def is_materialized_def getTreeInode_def)
    show ?thesis
    proof (cases "inodes s c")
      case (Some child)
      with \<open>getTreeInode s parent = Some t\<close> present show ?thesis
        using e1 by (simp add: dispatcher_lookup_def Let_def case_prod_unfold getInode_def s1_def c_def)
    next
      case None
      define r where "r = getChildByNameLocked parent (tree_contents t) name s1"
      have run: "dispatcher_lookup parent name s =
                   (case r of (Inl e, s2) \<Rightarrow> (Inl e, s2)
                    | (Inr (childId, child), s2) \<Rightarrow> (Inr childId, recordInode childId child s2))"
        using \<open>getTreeInode s parent = Some t\<close> present None
        by (simp add: dispatcher_lookup_def Let_def case_prod_unfold getInode_def s1_def c_def r_def)
      have e2: "evolves s1 (snd r)"
        unfolding r_def by (rule lookup_frame_evolves[OF getChildByNameLocked_frame])
      show ?thesis
      proof (cases "fst r")
        case (Inl e)
        then show ?thesis
          using run evolves_trans[OF e1 e2] by (simp add: case_prod_unfold)
      next
        case (Inr x)
        then have id: "fst x = c"
          using getChildByNameLocked_id[of parent "tree_contents t" name s1 "fst x" "snd x"] s1(3)
          by (simp add: r_def)
        have st: "snd (dispatcher_lookup parent name s) = recordInode c (snd x) (snd r)"
          using run Inr id by (simp add: case_prod_unfold)
        have in2: "inodes (snd r) = inodes s" "nm_next s1 \<le> nm_next (snd r)"
          using s1(1) getChildByNameLocked_frame[of s1 parent "tree_contents t" name]
          by (simp_all add: r_def lookup_frame_def)
        show ?thesis
          unfolding st using None in2 s1(2) c
          by (auto simp: evolves_def is_materialized_def getTreeInode_def)
      qed
    qed
  qed
qed

lemma getChildByName_evolves:
  "evolves s (snd (getChildByName ino name s))"
  using lookup_frame_evolves[OF getChildByNameLocked_frame]
  by (simp add: getChildByName_def split: option.splits)

lemma after_materialize:
  assumes "Option.bind (materializeDirAndParents ino s)
             (\<lambda>(m, s1). case m of Inl e \<Rightarrow> Some (Inl e, s1) | Inr _ \<Rightarrow> K s1) = Some y"
  shows "(\<exists>e s1. materializeDirAndParents ino s = Some (Inl e, s1) \<and> y = (Inl e, s1)) \<or>
         (\<exists>s1. materializeDirAndParents ino s = Some (Inr (), s1) \<and> K s1 = Some y)"
proof -
  from assms obtain m s1 where m: "materializeDirAndParents ino s = Some (m, s1)"
    and k: "(case m of Inl e \<Rightarrow> Some (Inl e, s1) | Inr _ \<Rightarrow> K s1) = Some y"
    by (auto simp: bind_eq_Some_conv)
  show ?thesis
  proof (cases m)
    case (Inl e)
    with m k show ?thesis by auto
  next
    case (Inr u)
    with m k show ?thesis by auto
  qed
qed

text \<open>The ways an operation can end: in materialization, in its locked part, or done.\<close>

lemma after_materialize_commit:
  assumes run: "Option.bind (materializeDirAndParents ino s)
             (\<lambda>(m, s1). case m of Inl e \<Rightarrow> Some (Inl e, s1)
                | Inr _ \<Rightarrow>
                    (case C s1 of
                       (Inl e, s2) \<Rightarrow> Some (Inl e, s2)
                     | (Inr v, s2) \<Rightarrow> Some (F v s2))) = Some (r, s')"
  obtains (materialize_failed) e where
      "materializeDirAndParents ino s = Some (Inl e, s')" "r = Inl e"
    | (locked_failed) s1 e where
      "materializeDirAndParents ino s = Some (Inr (), s1)" "C s1 = (Inl e, s')" "r = Inl e"
    | (succeeded) s1 s2 v where
      "materializeDirAndParents ino s = Some (Inr (), s1)" "C s1 = (Inr v, s2)"
      "F v s2 = (r, s')"
proof -
  from after_materialize[OF run] show thesis
  proof (elim disjE exE conjE)
    fix e s1
    assume "materializeDirAndParents ino s = Some (Inl e, s1)" "(r, s') = (Inl e, s1)"
    then show thesis by (intro materialize_failed[of e]) auto
  next
    fix s1
    assume m: "materializeDirAndParents ino s = Some (Inr (), s1)"
      and k: "(case C s1 of (Inl e, s2) \<Rightarrow> Some (Inl e, s2)
              | (Inr v, s2) \<Rightarrow> Some (F v s2)) = Some (r, s')"
    show thesis
    proof (cases "C s1")
      case (Pair x s2)
      show thesis
      proof (cases x)
        case (Inl e)
        with Pair k m show thesis by (intro locked_failed[of s1 e]) auto
      next
        case (Inr v)
        with Pair k m show thesis by (intro succeeded[of s1 v s2]) auto
      qed
    qed
  qed
qed

lemma create_cases:
  assumes "create ino name mode' flags s = Some (r, s')"
  obtains (materialize_failed) e where
      "materializeDirAndParents ino s = Some (Inl e, s')" "r = Inl e"
    | (locked_failed) s1 e where
      "materializeDirAndParents ino s = Some (Inr (), s1)"
      "create_locked ino name flags (resolvePathToNode s ino)
         (contentDir s1 @ resolvePathToNode s ino @ [name]) s1 = (Inl e, s')"
      "r = Inl e"
    | (getattr_failed) s1 s2 node inode e where
      "materializeDirAndParents ino s = Some (Inr (), s1)"
      "create_locked ino name flags (resolvePathToNode s ino)
         (contentDir s1 @ resolvePathToNode s ino @ [name]) s1 = (Inr (node, inode), s2)"
      "sys (HandleGetattr (contentDir s1 @ resolvePathToNode s ino @ [name]))
         (addDelta (JournalDelta [resolvePathToNode s ino @ [name]]) s2) = (Inl e, s')"
      "r = Inl (HandleError e)"
    | (succeeded) s1 s2 node inode attr where
      "materializeDirAndParents ino s = Some (Inr (), s1)"
      "create_locked ino name flags (resolvePathToNode s ino)
         (contentDir s1 @ resolvePathToNode s ino @ [name]) s1 = (Inr (node, inode), s2)"
      "sys (HandleGetattr (contentDir s1 @ resolvePathToNode s ino @ [name]))
         (addDelta (JournalDelta [resolvePathToNode s ino @ [name]]) s2) = (Inr attr, s')"
      "r = Inr \<lparr>cr_node = node, cr_inode = inode, cr_attr_mode = attr\<rparr>"
proof -
  let ?path = "\<lambda>s1. contentDir s1 @ resolvePathToNode s ino @ [name]"
  let ?d = "JournalDelta [resolvePathToNode s ino @ [name]]"
  let ?K = "\<lambda>s1. case create_locked ino name flags (resolvePathToNode s ino) (?path s1) s1 of
                   (Inl e, s2) \<Rightarrow> Some (Inl e, s2)
                 | (Inr (node, inode), s2) \<Rightarrow>
                     (case sys (HandleGetattr (?path s1)) (addDelta ?d s2) of
                        (getattrResult, s4) \<Rightarrow>
                          (case getattrResult of
                             Inl e \<Rightarrow> Some (Inl (HandleError e), s4)
                           | Inr attr \<Rightarrow>
                               Some (Inr \<lparr>cr_node = node, cr_inode = inode,
                                          cr_attr_mode = attr\<rparr>, s4)))"
  note run = assms[unfolded create_def Let_def]
  have "Option.bind (materializeDirAndParents ino s)
             (\<lambda>(m, s1). case m of Inl e \<Rightarrow> Some (Inl e, s1) | Inr _ \<Rightarrow> ?K s1) = Some (r, s')"
    by (rule run)
  from after_materialize[OF this] show thesis
  proof (elim disjE exE conjE)
    fix e s1
    assume "materializeDirAndParents ino s = Some (Inl e, s1)" "(r, s') = (Inl e, s1)"
    then show thesis by (intro materialize_failed[of e]) auto
  next
    fix s1
    assume m: "materializeDirAndParents ino s = Some (Inr (), s1)"
      and k: "?K s1 = Some (r, s')"
    obtain x s2 where c: "create_locked ino name flags (resolvePathToNode s ino) (?path s1) s1
                            = (x, s2)"
      by (cases "create_locked ino name flags (resolvePathToNode s ino) (?path s1) s1")
    show thesis
    proof (cases x)
      case (Inl e)
      with c k m show thesis by (intro locked_failed[of s1 e]) auto
    next
      case (Inr res)
      obtain node inode where res: "res = (node, inode)" by (cases res)
      obtain a s4 where g: "sys (HandleGetattr (?path s1)) (addDelta ?d s2) = (a, s4)"
        by (cases "sys (HandleGetattr (?path s1)) (addDelta ?d s2)")
      show thesis
      proof (cases a)
        case (Inl e)
        with c k m Inr res g show thesis
          by (intro getattr_failed[of s1 node inode s2 e]) auto
      next
        case (Inr attr)
        with c k m \<open>x = Inr res\<close> res g show thesis
          by (intro succeeded[of s1 node inode s2 attr]) auto
      qed
    qed
  qed
qed

lemma mkdir_cases:
  assumes "mkdir ino name mode' s = Some (r, s')"
  obtains (materialize_failed) e where
      "materializeDirAndParents ino s = Some (Inl e, s')" "r = Inl e"
    | (locked_failed) s1 e where
      "materializeDirAndParents ino s = Some (Inr (), s1)"
      "mkdir_locked ino name mode' (resolvePathToNode s ino)
         (resolvePathToNode s ino @ [name]) s1 = (Inl e, s')"
      "r = Inl e"
    | (succeeded) s1 s2 where
      "materializeDirAndParents ino s = Some (Inr (), s1)"
      "mkdir_locked ino name mode' (resolvePathToNode s ino)
         (resolvePathToNode s ino @ [name]) s1 = (Inr (), s2)"
      "dispatcher_lookup ino name
         (addDelta (JournalDelta [resolvePathToNode s ino @ [name]]) s2) = (r, s')"
  using assms[unfolded mkdir_def Let_def]
  by (rule after_materialize_commit) (auto intro: that)

lemma unlink_cases:
  assumes "unlink ino name s = Some (r, s')"
  obtains (preflight_failed) e where
      "unlink_preflight ino name s = (Inl e, s')" "r = Inl e"
    | (materialize_failed) e where
      "fst (unlink_preflight ino name s) = Inr ()"
      "materializeDirAndParents ino s = Some (Inl e, s')" "r = Inl e"
    | (locked_failed) s1 e where
      "fst (unlink_preflight ino name s) = Inr ()"
      "materializeDirAndParents ino s = Some (Inr (), s1)"
      "unlink_locked ino name (resolvePathToNode s ino)
         (resolvePathToNode s ino @ [name]) s1 = (Inl e, s')"
      "r = Inl e"
    | (succeeded) s1 s2 where
      "fst (unlink_preflight ino name s) = Inr ()"
      "materializeDirAndParents ino s = Some (Inr (), s1)"
      "unlink_locked ino name (resolvePathToNode s ino)
         (resolvePathToNode s ino @ [name]) s1 = (Inr (), s2)"
      "r = Inr ()"
      "s' = addDelta (JournalDelta [resolvePathToNode s ino @ [name]]) s2"
proof (cases "unlink_preflight ino name s")
  case (Pair x s0)
  have s0: "s0 = s"
    using Pair by (auto simp: unlink_preflight_def split: option.splits if_splits)
  show thesis
  proof (cases x)
    case (Inl e)
    with Pair assms show thesis
      by (intro preflight_failed[of e]) (auto simp: unlink_def Let_def)
  next
    case (Inr u)
    with Pair s0 assms have
      "Option.bind (materializeDirAndParents ino s)
         (\<lambda>(m, s1). case m of Inl e \<Rightarrow> Some (Inl e, s1)
            | Inr _ \<Rightarrow>
                (case unlink_locked ino name (resolvePathToNode s ino)
                        (resolvePathToNode s ino @ [name]) s1 of
                   (Inl e, s2) \<Rightarrow> Some (Inl e, s2)
                 | (Inr _, s2) \<Rightarrow>
                     Some (Inr (), addDelta (JournalDelta [resolvePathToNode s ino @ [name]]) s2)))
       = Some (r, s')"
      by (simp add: unlink_def Let_def)
    then show thesis
      by (rule after_materialize_commit) (use Pair Inr in \<open>auto intro: that\<close>)
  qed
qed

lemma rmdir_cases:
  assumes "rmdir ino name s = Some (r, s')"
  obtains (preflight_failed) e where
      "rmdir_preflight ino name s = (Inl e, s')" "r = Inl e"
    | (materialize_failed) s0 e where
      "rmdir_preflight ino name s = (Inr (), s0)"
      "materializeDirAndParents ino s0 = Some (Inl e, s')" "r = Inl e"
    | (locked_failed) s0 s1 e where
      "rmdir_preflight ino name s = (Inr (), s0)"
      "materializeDirAndParents ino s0 = Some (Inr (), s1)"
      "rmdir_locked ino name (resolvePathToNode s ino)
         (resolvePathToNode s ino @ [name]) s1 = (Inl e, s')"
      "r = Inl e"
    | (succeeded) s0 s1 s2 where
      "rmdir_preflight ino name s = (Inr (), s0)"
      "materializeDirAndParents ino s0 = Some (Inr (), s1)"
      "rmdir_locked ino name (resolvePathToNode s ino)
         (resolvePathToNode s ino @ [name]) s1 = (Inr (), s2)"
      "r = Inr ()"
      "s' = addDelta (JournalDelta [resolvePathToNode s ino @ [name]]) s2"
proof (cases "rmdir_preflight ino name s")
  case (Pair x s0)
  show thesis
  proof (cases x)
    case (Inl e)
    with Pair assms show thesis
      by (intro preflight_failed[of e]) (auto simp: rmdir_def Let_def)
  next
    case (Inr u)
    with Pair assms have
      "Option.bind (materializeDirAndParents ino s0)
         (\<lambda>(m, s1). case m of Inl e \<Rightarrow> Some (Inl e, s1)
            | Inr _ \<Rightarrow>
                (case rmdir_locked ino name (resolvePathToNode s ino)
                        (resolvePathToNode s ino @ [name]) s1 of
                   (Inl e, s2) \<Rightarrow> Some (Inl e, s2)
                 | (Inr _, s2) \<Rightarrow>
                     Some (Inr (), addDelta (JournalDelta [resolvePathToNode s ino @ [name]]) s2)))
       = Some (r, s')"
      by (simp add: rmdir_def Let_def)
    then show thesis
      by (rule after_materialize_commit) (use Pair Inr in \<open>auto intro: that\<close>)
  qed
qed

lemma rmdir_interleaved_alone:
  "rmdir_interleaved (\<lambda>s. s) (\<lambda>s. s) ino name s = rmdir ino name s"
  by (simp add: rmdir_interleaved_def rmdir_def)

lemma rmdir_interleaved_cases:
  assumes "rmdir_interleaved other1 other2 ino name s = Some (r, s')"
  obtains (preflight_failed) e where
      "rmdir_preflight ino name s = (Inl e, s')" "r = Inl e"
    | (materialize_failed) s0 e where
      "rmdir_preflight ino name s = (Inr (), s0)"
      "materializeDirAndParents ino (other1 s0) = Some (Inl e, s')" "r = Inl e"
    | (locked_failed) s0 s1 e where
      "rmdir_preflight ino name s = (Inr (), s0)"
      "materializeDirAndParents ino (other1 s0) = Some (Inr (), s1)"
      "rmdir_locked ino name (resolvePathToNode s ino)
         (resolvePathToNode s ino @ [name]) (other2 s1) = (Inl e, s')"
      "r = Inl e"
    | (succeeded) s0 s1 s2 where
      "rmdir_preflight ino name s = (Inr (), s0)"
      "materializeDirAndParents ino (other1 s0) = Some (Inr (), s1)"
      "rmdir_locked ino name (resolvePathToNode s ino)
         (resolvePathToNode s ino @ [name]) (other2 s1) = (Inr (), s2)"
      "r = Inr ()"
      "s' = addDelta (JournalDelta [resolvePathToNode s ino @ [name]]) s2"
proof (cases "rmdir_preflight ino name s")
  case (Pair x s0)
  show thesis
  proof (cases x)
    case (Inl e)
    with Pair assms show thesis
      by (intro preflight_failed[of e]) (auto simp: rmdir_interleaved_def Let_def)
  next
    case (Inr u)
    with Pair assms have
      "Option.bind (materializeDirAndParents ino (other1 s0))
         (\<lambda>(m, s1). case m of Inl e \<Rightarrow> Some (Inl e, s1)
            | Inr _ \<Rightarrow>
                (case rmdir_locked ino name (resolvePathToNode s ino)
                        (resolvePathToNode s ino @ [name]) (other2 s1) of
                   (Inl e, s2) \<Rightarrow> Some (Inl e, s2)
                 | (Inr v, s2) \<Rightarrow>
                     Some (Inr (), addDelta (JournalDelta [resolvePathToNode s ino @ [name]]) s2)))
       = Some (r, s')"
      by (simp add: rmdir_interleaved_def Let_def)
    then show thesis
      by (rule after_materialize_commit)
         (use Pair Inr in \<open>auto intro: materialize_failed locked_failed succeeded\<close>)
  qed
qed

lemma rename_cases:
  assumes "rename ino name newParent newName s = Some (r, s')"
  obtains (not_a_tree) "getTreeInode s newParent = None" "r = Inl (SystemError EXDEV)" "s' = s"
    | (preflight_failed) "getTreeInode s newParent \<noteq> None"
      "find_entry (dir_of s ino) name = None" "r = Inl (SystemError ENOENT)" "s' = s"
    | (materialize_failed) e where
      "getTreeInode s newParent \<noteq> None" "find_entry (dir_of s ino) name \<noteq> None"
      "materializeDirAndParents ino s = Some (Inl e, s')" "r = Inl e"
    | (materialize_target_failed) s1 e where
      "getTreeInode s newParent \<noteq> None" "find_entry (dir_of s ino) name \<noteq> None"
      "materializeDirAndParents ino s = Some (Inr (), s1)" "newParent \<noteq> ino"
      "materializeDirAndParents newParent s1 = Some (Inl e, s')" "r = Inl e"
    | (helper_failed) s1 s2 e where
      "getTreeInode s newParent \<noteq> None" "find_entry (dir_of s ino) name \<noteq> None"
      "materializeDirAndParents ino s = Some (Inr (), s1)"
      "if newParent = ino then s2 = s1
       else materializeDirAndParents newParent s1 = Some (Inr (), s2)"
      "renameHelper ino ino (resolvePathToNode s ino @ [name]) newParent
         (resolvePathToNode s newParent @ [newName]) s2 = (Inl e, s')"
      "r = Inl e"
    | (succeeded) s1 s2 s3 where
      "getTreeInode s newParent \<noteq> None" "find_entry (dir_of s ino) name \<noteq> None"
      "materializeDirAndParents ino s = Some (Inr (), s1)"
      "if newParent = ino then s2 = s1
       else materializeDirAndParents newParent s1 = Some (Inr (), s2)"
      "renameHelper ino ino (resolvePathToNode s ino @ [name]) newParent
         (resolvePathToNode s newParent @ [newName]) s2 = (Inr (), s3)"
      "r = Inr ()"
      "s' = addDelta (JournalDelta [resolvePathToNode s ino @ [name],
                                    resolvePathToNode s newParent @ [newName]]) s3"
proof (cases "getTreeInode s newParent")
  case None
  with assms show thesis by (intro not_a_tree) (auto simp: rename_def)
next
  case (Some targetDir)
  show thesis
  proof (cases "find_entry (dir_of s ino) name")
    case None
    with Some assms show thesis by (intro preflight_failed) (auto simp: rename_def Let_def)
  next
    case (Some entIter)
    let ?K = "\<lambda>s2. case renameHelper ino ino (resolvePathToNode s ino @ [name]) newParent
                          (resolvePathToNode s newParent @ [newName]) s2 of
                   (Inl e, s3) \<Rightarrow> Some (Inl e, s3)
                 | (Inr v, s3) \<Rightarrow>
                     Some (Inr (), addDelta (JournalDelta [resolvePathToNode s ino @ [name],
                                    resolvePathToNode s newParent @ [newName]]) s3)"
    from assms \<open>getTreeInode s newParent = Some targetDir\<close> Some have run:
      "Option.bind (materializeDirAndParents ino s)
         (\<lambda>(m, s1). case m of Inl e \<Rightarrow> Some (Inl e, s1)
            | Inr _ \<Rightarrow>
                Option.bind
                  (if newParent = ino then Some (Inr (), s1)
                   else materializeDirAndParents newParent s1)
                  (\<lambda>(m2, s2). case m2 of Inl e \<Rightarrow> Some (Inl e, s2) | Inr _ \<Rightarrow> ?K s2))
       = Some (r, s')"
      by (simp add: rename_def Let_def)
    note tree = \<open>getTreeInode s newParent = Some targetDir\<close>
    from after_materialize[OF run] show thesis
    proof (elim disjE exE conjE)
      fix e s1
      assume "materializeDirAndParents ino s = Some (Inl e, s1)" "(r, s') = (Inl e, s1)"
      with tree Some show thesis by (intro materialize_failed[of e]) auto
    next
      fix s1
      assume m1: "materializeDirAndParents ino s = Some (Inr (), s1)"
        and inner: "Option.bind
                  (if newParent = ino then Some (Inr (), s1)
                   else materializeDirAndParents newParent s1)
                  (\<lambda>(m2, s2). case m2 of Inl e \<Rightarrow> Some (Inl e, s2) | Inr _ \<Rightarrow> ?K s2)
                = Some (r, s')"
      show thesis
      proof (cases "newParent = ino")
        case True
        with inner have k: "?K s1 = Some (r, s')" by simp
        show thesis
        proof (cases "renameHelper ino ino (resolvePathToNode s ino @ [name]) newParent
                          (resolvePathToNode s newParent @ [newName]) s1")
          case (Pair x s3)
          show thesis
          proof (cases x)
            case (Inl e)
            with Pair k m1 tree Some True show thesis
              by (intro helper_failed[of s1 s1 e]) auto
          next
            case (Inr v)
            with Pair k m1 tree Some True show thesis
              by (intro succeeded[of s1 s1 s3]) auto
          qed
        qed
      next
        case False
        with inner have inner2: "Option.bind (materializeDirAndParents newParent s1)
                  (\<lambda>(m2, s2). case m2 of Inl e \<Rightarrow> Some (Inl e, s2) | Inr _ \<Rightarrow> ?K s2)
                = Some (r, s')" by simp
        from after_materialize[OF inner2] show thesis
        proof (elim disjE exE conjE)
          fix e s2
          assume "materializeDirAndParents newParent s1 = Some (Inl e, s2)"
            "(r, s') = (Inl e, s2)"
          with m1 tree Some False show thesis
            by (intro materialize_target_failed[of s1 e]) auto
        next
          fix s2
          assume m2: "materializeDirAndParents newParent s1 = Some (Inr (), s2)"
            and k: "?K s2 = Some (r, s')"
          show thesis
          proof (cases "renameHelper ino ino (resolvePathToNode s ino @ [name]) newParent
                          (resolvePathToNode s newParent @ [newName]) s2")
            case (Pair x s3)
            show thesis
            proof (cases x)
              case (Inl e)
              with Pair k m1 m2 tree Some False show thesis
                by (intro helper_failed[of s1 s2 e]) auto
            next
              case (Inr v)
              with Pair k m1 m2 tree Some False show thesis
                by (intro succeeded[of s1 s2 s3]) auto
            qed
          qed
        qed
      qed
    qed
  qed
qed

subsection \<open>The entry table\<close>

lemma find_entry_erase_entry [simp]:
  "find_entry (erase_entry n d) m = (if m = n then None else find_entry d m)"
proof -
  have "map_of (filter (\<lambda>(k, q). k \<noteq> n) xs) m = (if m = n then None else map_of xs m)"
    for xs :: "(PathComponent \<times> entry_ptr) list"
    by (induction xs) auto
  then show ?thesis by (simp add: find_entry_def erase_entry_def)
qed

lemma find_entry_set_slot [simp]:
  "find_entry (set_slot n p d) m =
     (if m = n \<and> find_entry d n \<noteq> None then Some p else find_entry d m)"
proof -
  have "map_of (map (\<lambda>(k, q). if k = n then (k, p) else (k, q)) xs) m =
          (if m = n \<and> map_of xs n \<noteq> None then Some p else map_of xs m)"
    for xs :: "(PathComponent \<times> entry_ptr) list"
    by (induction xs) auto
  then show ?thesis by (simp add: find_entry_def set_slot_def)
qed

lemma find_entry_index_entry [simp]:
  "find_entry (index_entry n d) m =
     (if m = n \<and> find_entry d n = None then Some nullptr else find_entry d m)"
  by (auto simp: find_entry_def index_entry_def map_add_def split: option.splits)

lemma find_entry_emplace_entry [simp]:
  "find_entry (snd (emplace_entry n p d)) m =
     (if m = n \<and> find_entry d n = None then Some p else find_entry d m)"
  "fst (emplace_entry n p d) = (find_entry d n = None)"
  by (auto simp: find_entry_def emplace_entry_def map_add_def split: option.splits)

lemma entries_emplace_entry [simp]:
  "entries (snd (emplace_entry n p d)) =
     (if find_entry d n = None then entries d @ [(n, p)] else entries d)"
  by (auto simp: emplace_entry_def split: option.splits)

lemma default_Dir_simps [simp]:
  "entries default_Dir = []" "treeHash default_Dir = None"
  "dir_materialized default_Dir = False"
  "find_entry (default_Dir\<lparr>treeHash := h\<rparr>) n = None"
  by (simp_all add: default_Dir_def find_entry_def)

lemma find_entry_default_Dir [simp]: "find_entry default_Dir n = None"
  by (simp add: find_entry_def default_Dir_def)

lemma find_entry_flag [simp]:
  "find_entry (d\<lparr>dir_materialized := b\<rparr>) = find_entry d"
  by (simp add: find_entry_def fun_eq_iff)

lemma dir_of_None: "getTreeInode s i = None \<Longrightarrow> dir_of s i = default_Dir"
  by (simp add: dir_of_def)

lemma basename_snoc [simp]: "basename (p @ [n]) = n"
  by (simp add: basename_def)

lemma dirname_snoc [simp]: "dirname (p @ [n]) = p"
  by (simp add: dirname_def)

text \<open>After the move of an entry onto its own slot the name has no entry.\<close>

lemma rename_move_same_slot:
  "find_entry (dir_of (rename_move i n i n s) i) n = None"
  by (cases "getTreeInode s i") (simp_all add: rename_move_def Let_def dir_of_None)

lemma renameHelper_done:
  assumes "renameHelper ino si sn di dn s = (Inr (), s')"
  shows "\<exists>s2. dir_of s' = dir_of (rename_move si (basename sn) di (basename dn) s2)"
  using assms
  by (auto simp: renameHelper_def Let_def case_prod_unfold fun_eq_iff
      split: sum.splits if_splits)

subsection \<open>The ids of the name manager\<close>

lemma nm_grows_refl [simp]: "nm_grows s s"
  by (simp add: nm_grows_def)

lemma nm_grows_trans: "nm_grows a b \<Longrightarrow> nm_grows b c \<Longrightarrow> nm_grows a c"
  unfolding nm_grows_def by (intro conjI allI impI) (simp, (metis less_le_trans))

lemma nm_grows_same:
  "nm_byname s' = nm_byname s \<Longrightarrow> nm_next s' = nm_next s \<Longrightarrow> nm_grows s s'"
  by (simp add: nm_grows_def)

lemma nm_grows_ok: "nm_ok s \<Longrightarrow> nm_grows s s' \<Longrightarrow> nm_ok s'"
  unfolding nm_ok_def nm_grows_def by (metis less_le_trans)

lemma mat_rel_nm_grows: "mat_rel s s' \<Longrightarrow> nm_grows s s'"
  by (rule nm_grows_same) (simp_all add: mat_rel_fields)

lemma nm_grows_frames [simp]:
  "nm_grows s0 (saveOverlayDir p d s) = nm_grows s0 s"
  "nm_grows s0 (removeOverlayDir p s) = nm_grows s0 s"
  "nm_grows s0 (set_contents i d s) = nm_grows s0 s"
  "nm_grows s0 (delete_Entry q s) = nm_grows s0 s"
  "nm_grows s0 (store_Entry q e s) = nm_grows s0 s"
  "nm_grows s0 (recordInode i x s) = nm_grows s0 s"
  "nm_grows s0 (addDelta dl s) = nm_grows s0 s"
  "nm_grows s0 (snd (sys sc s)) = nm_grows s0 s"
  "nm_grows s0 (snd (new_Entry e s)) = nm_grows s0 s"
  "nm_grows s0 (rename_move a b c d' s) = nm_grows s0 s"
  by (simp_all add: nm_grows_def)

lemma getNodeByName_nm_grows:
  "nm_grows s0 s \<Longrightarrow> nm_grows s0 (snd (getNodeByName parent name cr s))"
proof (erule nm_grows_trans)
  show "nm_grows s (snd (getNodeByName parent name cr s))"
    by (simp add: nm_grows_def)
qed

lemma getChildByNameLocked_nm_grows:
  "nm_grows s0 s \<Longrightarrow> nm_grows s0 (snd (getChildByNameLocked ino contents name s))"
proof (erule nm_grows_trans)
  show "nm_grows s (snd (getChildByNameLocked ino contents name s))"
    by (simp add: nm_grows_def getChildByNameLocked_def Let_def case_prod_unfold
        buildDirFromTree_def loadOverlayDir_def split: option.splits)
qed

lemma lookupChildByNameLocked_nm_grows:
  "nm_grows s0 s \<Longrightarrow> nm_grows s0 (snd (lookupChildByNameLocked ino contents name s))"
  by (simp add: lookupChildByNameLocked_def Let_def case_prod_unfold
      getChildByNameLocked_nm_grows split: option.splits sum.splits)

lemma getChildByName_nm_grows: "nm_grows s (snd (getChildByName ino name s))"
  by (simp add: getChildByName_def getChildByNameLocked_nm_grows split: option.splits)

lemma dispatcher_lookup_nm_grows: "nm_grows s (snd (dispatcher_lookup parent name s))"
  by (simp add: dispatcher_lookup_def Let_def case_prod_unfold
      getChildByNameLocked_nm_grows getNodeByName_nm_grows
      split: option.splits sum.splits)

lemma create_locked_nm_grows:
  "nm_grows s (snd (create_locked ino name flags myname filePath s))"
  by (simp add: create_locked_def Let_def case_prod_unfold write_Entry_def
      getNodeByName_nm_grows split: sum.splits option.splits)

lemma mkdir_locked_nm_grows:
  "nm_grows s (snd (mkdir_locked ino name mode' myname targetName s))"
  by (rule nm_grows_same) simp_all

lemma unlink_locked_nm_grows:
  "nm_grows s (snd (unlink_locked ino name myname targetName s))"
  by (rule nm_grows_same) simp_all

lemma rmdir_checks_nm_grows:
  "nm_grows s0 s \<Longrightarrow> nm_grows s0 (snd (rmdir_checks ino name s))"
  by (simp add: rmdir_checks_def case_prod_unfold lookupChildByNameLocked_nm_grows
      split: option.splits sum.splits Inode.splits)

lemma rmdir_locked_nm_grows:
  "nm_grows s (snd (rmdir_locked ino name myname targetName s))"
  by (simp add: rmdir_locked_def Let_def case_prod_unfold rmdir_checks_nm_grows
      split: sum.splits option.splits)

lemma rename_checks_nm_grows:
  "nm_grows s0 s \<Longrightarrow>
   nm_grows s0 (snd (rename_checks ino sourceIno sourceName destIno destName s))"
  by (simp add: rename_checks_def case_prod_unfold lookupChildByNameLocked_nm_grows
      split: option.splits sum.splits Inode.splits)

lemma renameHelper_nm_grows:
  "nm_grows s (snd (renameHelper ino sourceIno sourceName destIno destName s))"
  by (simp add: renameHelper_def Let_def case_prod_unfold rename_checks_nm_grows
      split: sum.splits)

subsection \<open>Every operation keeps a materialized directory materialized\<close>

lemma drop_value_state [simp]: "snd (drop_value x) = snd x"
  by (cases x; cases "fst x") (auto simp: drop_value_def)

lemma map_drop_value_Some:
  assumes "map_option drop_value x = Some (r, s')"
  shows "\<exists>r0. x = Some (r0, s')"
proof (cases x)
  case None
  with assms show ?thesis by simp
next
  case (Some y)
  with assms have "snd (drop_value y) = s'" by auto
  then have "snd y = s'" by simp
  with Some show ?thesis by (cases y) auto
qed

lemma run_op_evolves:
  assumes "run_op ino op s = Some (r, s')" and ok: "nm_ok s"
  shows "evolves s s'"
proof (cases op)
  case (OpLookup name)
  with assms(1) have "s' = snd (getChildByName ino name s)"
    using drop_value_state[of "getChildByName ino name s"] by auto
  then show ?thesis
    using getChildByName_evolves[of s ino name] by simp
next
  case OpMaterialize
  with assms show ?thesis by (auto intro: mat_rel_evolves materialize_rel)
next
  case (OpCreate name mode' flags)
  with assms obtain r0 where c: "create ino name mode' flags s = Some (r0, s')"
    using map_drop_value_Some[of "create ino name mode' flags s" r s'] by auto
  from c show ?thesis
  proof (cases rule: create_cases)
    case (materialize_failed e)
    then show ?thesis by (auto intro: mat_rel_evolves materialize_rel)
  next
    case (locked_failed s1 e)
    then show ?thesis
      using create_locked_evolves[of s1 ino name flags "resolvePathToNode s ino"
          "contentDir s1 @ resolvePathToNode s ino @ [name]"]
      by (auto intro: evolves_trans mat_rel_evolves materialize_rel)
  next
    case (getattr_failed s1 s2 node inode e)
    let ?g = "sys (HandleGetattr (contentDir s1 @ resolvePathToNode s ino @ [name]))
                (addDelta (JournalDelta [resolvePathToNode s ino @ [name]]) s2)"
    from getattr_failed(3) have "s' = snd ?g" by simp
    then have "evolves s2 s'" by (simp add: evolves_def)
    moreover have "evolves s1 s2"
      using getattr_failed(2) create_locked_evolves[of s1 ino name flags "resolvePathToNode s ino"
          "contentDir s1 @ resolvePathToNode s ino @ [name]"] by simp
    moreover have "evolves s s1"
      using getattr_failed(1) by (auto intro: mat_rel_evolves materialize_rel)
    ultimately show ?thesis by (blast intro: evolves_trans)
  next
    case (succeeded s1 s2 node inode attr)
    let ?g = "sys (HandleGetattr (contentDir s1 @ resolvePathToNode s ino @ [name]))
                (addDelta (JournalDelta [resolvePathToNode s ino @ [name]]) s2)"
    from succeeded(3) have "s' = snd ?g" by simp
    then have "evolves s2 s'" by (simp add: evolves_def)
    moreover have "evolves s1 s2"
      using succeeded(2) create_locked_evolves[of s1 ino name flags "resolvePathToNode s ino"
          "contentDir s1 @ resolvePathToNode s ino @ [name]"] by simp
    moreover have "evolves s s1"
      using succeeded(1) by (auto intro: mat_rel_evolves materialize_rel)
    ultimately show ?thesis by (blast intro: evolves_trans)
  qed
next
  case (OpMkdir name mode')
  with assms obtain r0 where c: "mkdir ino name mode' s = Some (r0, s')"
    using map_drop_value_Some[of "mkdir ino name mode' s" r s'] by auto
  from c show ?thesis
  proof (cases rule: mkdir_cases)
    case (materialize_failed e)
    then show ?thesis by (auto intro: mat_rel_evolves materialize_rel)
  next
    case (locked_failed s1 e)
    then show ?thesis
      using mkdir_locked_evolves[of s1 ino name mode' "resolvePathToNode s ino"
          "resolvePathToNode s ino @ [name]"]
      by (auto intro: evolves_trans mat_rel_evolves materialize_rel)
  next
    case (succeeded s1 s2)
    let ?sj = "addDelta (JournalDelta [resolvePathToNode s ino @ [name]]) s2"
    have "nm_grows s ?sj"
      using mat_rel_nm_grows[OF materialize_rel[OF succeeded(1)]] succeeded(2)
        mkdir_locked_nm_grows[of s1 ino name mode' "resolvePathToNode s ino"
          "resolvePathToNode s ino @ [name]"]
      by (auto intro: nm_grows_trans)
    then have "nm_ok ?sj" using ok by (blast intro: nm_grows_ok)
    then have "evolves ?sj s'"
      using succeeded dispatcher_lookup_evolves[of ?sj ino name] by simp
    moreover have "evolves s2 ?sj" by (simp add: evolves_def)
    moreover have "evolves s1 s2"
      using succeeded mkdir_locked_evolves[of s1 ino name mode' "resolvePathToNode s ino"
          "resolvePathToNode s ino @ [name]"] by simp
    moreover have "evolves s s1" using succeeded by (auto intro: mat_rel_evolves materialize_rel)
    ultimately show ?thesis by (blast intro: evolves_trans)
  qed
next
  case (OpUnlink name)
  with assms have c: "unlink ino name s = Some (r, s')" by simp
  from c show ?thesis
  proof (cases rule: unlink_cases)
    case (preflight_failed e)
    then show ?thesis
      by (auto simp: unlink_preflight_def split: option.splits if_splits)
  next
    case (materialize_failed e)
    then show ?thesis by (auto intro: mat_rel_evolves materialize_rel)
  next
    case (locked_failed s1 e)
    then show ?thesis
      using unlink_locked_evolves[of s1 ino name "resolvePathToNode s ino"
          "resolvePathToNode s ino @ [name]"]
      by (auto intro: evolves_trans mat_rel_evolves materialize_rel)
  next
    case (succeeded s1 s2)
    have "evolves s2 s'" using succeeded by (simp add: evolves_def)
    moreover have "evolves s1 s2"
      using succeeded unlink_locked_evolves[of s1 ino name "resolvePathToNode s ino"
          "resolvePathToNode s ino @ [name]"] by simp
    moreover have "evolves s s1" using succeeded by (auto intro: mat_rel_evolves materialize_rel)
    ultimately show ?thesis by (blast intro: evolves_trans)
  qed
next
  case (OpRmdir name)
  with assms have c: "rmdir ino name s = Some (r, s')" by simp
  have pre: "evolves s (snd (rmdir_preflight ino name s))"
    using rmdir_checks_evolves[of s ino name]
    by (simp add: rmdir_preflight_def case_prod_unfold split: sum.splits)
  from c show ?thesis
  proof (cases rule: rmdir_cases)
    case (preflight_failed e)
    with pre show ?thesis by simp
  next
    case (materialize_failed s0 e)
    with pre show ?thesis by (auto intro: evolves_trans mat_rel_evolves materialize_rel)
  next
    case (locked_failed s0 s1 e)
    have "evolves s1 s'"
      using locked_failed rmdir_locked_evolves[of s1 ino name "resolvePathToNode s ino"
          "resolvePathToNode s ino @ [name]"] by simp
    moreover have "evolves s0 s1" using locked_failed by (auto intro: mat_rel_evolves materialize_rel)
    moreover have "evolves s s0" using pre locked_failed by simp
    ultimately show ?thesis by (blast intro: evolves_trans)
  next
    case (succeeded s0 s1 s2)
    have "evolves s2 s'" using succeeded by (simp add: evolves_def)
    moreover have "evolves s1 s2"
      using succeeded rmdir_locked_evolves[of s1 ino name "resolvePathToNode s ino"
          "resolvePathToNode s ino @ [name]"] by simp
    moreover have "evolves s0 s1" using succeeded by (auto intro: mat_rel_evolves materialize_rel)
    moreover have "evolves s s0" using pre succeeded by simp
    ultimately show ?thesis by (blast intro: evolves_trans)
  qed
next
  case (OpRename name newParent newName)
  with assms have c: "rename ino name newParent newName s = Some (r, s')" by simp
  from c show ?thesis
  proof (cases rule: rename_cases)
    case not_a_tree
    then show ?thesis by simp
  next
    case preflight_failed
    then show ?thesis by simp
  next
    case (materialize_failed e)
    then show ?thesis by (auto intro: mat_rel_evolves materialize_rel)
  next
    case (materialize_target_failed s1 e)
    then show ?thesis by (blast intro: evolves_trans mat_rel_evolves materialize_rel)
  next
    case (helper_failed s1 s2 e)
    have "evolves s2 s'"
      using helper_failed renameHelper_evolves[of s2 ino ino "resolvePathToNode s ino @ [name]"
          newParent "resolvePathToNode s newParent @ [newName]"] by simp
    moreover have "evolves s1 s2"
      using helper_failed by (auto split: if_splits intro: mat_rel_evolves materialize_rel)
    moreover have "evolves s s1" using helper_failed by (auto intro: mat_rel_evolves materialize_rel)
    ultimately show ?thesis by (blast intro: evolves_trans)
  next
    case (succeeded s1 s2 s3)
    have "evolves s3 s'" using succeeded by (simp add: evolves_def)
    moreover have "evolves s2 s3"
      using succeeded renameHelper_evolves[of s2 ino ino "resolvePathToNode s ino @ [name]"
          newParent "resolvePathToNode s newParent @ [newName]"] by simp
    moreover have "evolves s1 s2"
      using succeeded by (auto split: if_splits intro: mat_rel_evolves materialize_rel)
    moreover have "evolves s s1" using succeeded by (auto intro: mat_rel_evolves materialize_rel)
    ultimately show ?thesis by (blast intro: evolves_trans)
  qed
qed

lemma run_op_nm_grows:
  assumes "run_op ino op s = Some (r, s')"
  shows "nm_grows s s'"
proof (cases op)
  case (OpLookup name)
  with assms have "s' = snd (getChildByName ino name s)"
    using drop_value_state[of "getChildByName ino name s"] by auto
  then show ?thesis
    using getChildByName_nm_grows[of s ino name] by simp
next
  case OpMaterialize
  with assms show ?thesis by (auto intro: mat_rel_nm_grows materialize_rel)
next
  case (OpCreate name mode' flags)
  with assms obtain r0 where c: "create ino name mode' flags s = Some (r0, s')"
    using map_drop_value_Some[of "create ino name mode' flags s" r s'] by auto
  from c show ?thesis
  proof (cases rule: create_cases)
    case (materialize_failed e)
    then show ?thesis by (auto intro: mat_rel_nm_grows materialize_rel)
  next
    case (locked_failed s1 e)
    then show ?thesis
      using create_locked_nm_grows[of s1 ino name flags "resolvePathToNode s ino"
          "contentDir s1 @ resolvePathToNode s ino @ [name]"]
      by (auto intro: nm_grows_trans mat_rel_nm_grows materialize_rel)
  next
    case (getattr_failed s1 s2 node inode e)
    let ?g = "sys (HandleGetattr (contentDir s1 @ resolvePathToNode s ino @ [name]))
                (addDelta (JournalDelta [resolvePathToNode s ino @ [name]]) s2)"
    from getattr_failed(3) have "s' = snd ?g" by simp
    then have "nm_grows s2 s'" by (simp add: nm_grows_def)
    moreover have "nm_grows s1 s2"
      using getattr_failed(2) create_locked_nm_grows[of s1 ino name flags "resolvePathToNode s ino"
          "contentDir s1 @ resolvePathToNode s ino @ [name]"] by simp
    moreover have "nm_grows s s1"
      using getattr_failed(1) by (auto intro: mat_rel_nm_grows materialize_rel)
    ultimately show ?thesis by (blast intro: nm_grows_trans)
  next
    case (succeeded s1 s2 node inode attr)
    let ?g = "sys (HandleGetattr (contentDir s1 @ resolvePathToNode s ino @ [name]))
                (addDelta (JournalDelta [resolvePathToNode s ino @ [name]]) s2)"
    from succeeded(3) have "s' = snd ?g" by simp
    then have "nm_grows s2 s'" by (simp add: nm_grows_def)
    moreover have "nm_grows s1 s2"
      using succeeded(2) create_locked_nm_grows[of s1 ino name flags "resolvePathToNode s ino"
          "contentDir s1 @ resolvePathToNode s ino @ [name]"] by simp
    moreover have "nm_grows s s1"
      using succeeded(1) by (auto intro: mat_rel_nm_grows materialize_rel)
    ultimately show ?thesis by (blast intro: nm_grows_trans)
  qed
next
  case (OpMkdir name mode')
  with assms obtain r0 where c: "mkdir ino name mode' s = Some (r0, s')"
    using map_drop_value_Some[of "mkdir ino name mode' s" r s'] by auto
  from c show ?thesis
  proof (cases rule: mkdir_cases)
    case (materialize_failed e)
    then show ?thesis by (auto intro: mat_rel_nm_grows materialize_rel)
  next
    case (locked_failed s1 e)
    then show ?thesis
      using mkdir_locked_nm_grows[of s1 ino name mode' "resolvePathToNode s ino"
          "resolvePathToNode s ino @ [name]"]
      by (auto intro: nm_grows_trans mat_rel_nm_grows materialize_rel)
  next
    case (succeeded s1 s2)
    let ?sj = "addDelta (JournalDelta [resolvePathToNode s ino @ [name]]) s2"
    have "nm_grows ?sj s'" using succeeded dispatcher_lookup_nm_grows[of ?sj ino name] by simp
    moreover have "nm_grows s2 ?sj" by (simp add: nm_grows_def)
    moreover have "nm_grows s1 s2"
      using succeeded mkdir_locked_nm_grows[of s1 ino name mode' "resolvePathToNode s ino"
          "resolvePathToNode s ino @ [name]"] by simp
    moreover have "nm_grows s s1" using succeeded by (auto intro: mat_rel_nm_grows materialize_rel)
    ultimately show ?thesis by (blast intro: nm_grows_trans)
  qed
next
  case (OpUnlink name)
  with assms have c: "unlink ino name s = Some (r, s')" by simp
  from c show ?thesis
  proof (cases rule: unlink_cases)
    case (preflight_failed e)
    then show ?thesis
      by (auto simp: unlink_preflight_def split: option.splits if_splits)
  next
    case (materialize_failed e)
    then show ?thesis by (auto intro: mat_rel_nm_grows materialize_rel)
  next
    case (locked_failed s1 e)
    then show ?thesis
      using unlink_locked_nm_grows[of s1 ino name "resolvePathToNode s ino"
          "resolvePathToNode s ino @ [name]"]
      by (auto intro: nm_grows_trans mat_rel_nm_grows materialize_rel)
  next
    case (succeeded s1 s2)
    have "nm_grows s2 s'" using succeeded by (simp add: nm_grows_def)
    moreover have "nm_grows s1 s2"
      using succeeded unlink_locked_nm_grows[of s1 ino name "resolvePathToNode s ino"
          "resolvePathToNode s ino @ [name]"] by simp
    moreover have "nm_grows s s1" using succeeded by (auto intro: mat_rel_nm_grows materialize_rel)
    ultimately show ?thesis by (blast intro: nm_grows_trans)
  qed
next
  case (OpRmdir name)
  with assms have c: "rmdir ino name s = Some (r, s')" by simp
  have pre: "nm_grows s (snd (rmdir_preflight ino name s))"
    using rmdir_checks_nm_grows[OF nm_grows_refl, of s ino name]
    by (simp add: rmdir_preflight_def case_prod_unfold split: sum.splits)
  from c show ?thesis
  proof (cases rule: rmdir_cases)
    case (preflight_failed e)
    with pre show ?thesis by simp
  next
    case (materialize_failed s0 e)
    with pre show ?thesis by (auto intro: nm_grows_trans mat_rel_nm_grows materialize_rel)
  next
    case (locked_failed s0 s1 e)
    have "nm_grows s1 s'"
      using locked_failed rmdir_locked_nm_grows[of s1 ino name "resolvePathToNode s ino"
          "resolvePathToNode s ino @ [name]"] by simp
    moreover have "nm_grows s0 s1" using locked_failed by (auto intro: mat_rel_nm_grows materialize_rel)
    moreover have "nm_grows s s0" using pre locked_failed by simp
    ultimately show ?thesis by (blast intro: nm_grows_trans)
  next
    case (succeeded s0 s1 s2)
    have "nm_grows s2 s'" using succeeded by (simp add: nm_grows_def)
    moreover have "nm_grows s1 s2"
      using succeeded rmdir_locked_nm_grows[of s1 ino name "resolvePathToNode s ino"
          "resolvePathToNode s ino @ [name]"] by simp
    moreover have "nm_grows s0 s1" using succeeded by (auto intro: mat_rel_nm_grows materialize_rel)
    moreover have "nm_grows s s0" using pre succeeded by simp
    ultimately show ?thesis by (blast intro: nm_grows_trans)
  qed
next
  case (OpRename name newParent newName)
  with assms have c: "rename ino name newParent newName s = Some (r, s')" by simp
  from c show ?thesis
  proof (cases rule: rename_cases)
    case not_a_tree
    then show ?thesis by simp
  next
    case preflight_failed
    then show ?thesis by simp
  next
    case (materialize_failed e)
    then show ?thesis by (auto intro: mat_rel_nm_grows materialize_rel)
  next
    case (materialize_target_failed s1 e)
    then show ?thesis by (blast intro: nm_grows_trans mat_rel_nm_grows materialize_rel)
  next
    case (helper_failed s1 s2 e)
    have "nm_grows s2 s'"
      using helper_failed renameHelper_nm_grows[of s2 ino ino "resolvePathToNode s ino @ [name]"
          newParent "resolvePathToNode s newParent @ [newName]"] by simp
    moreover have "nm_grows s1 s2"
      using helper_failed by (auto split: if_splits intro: mat_rel_nm_grows materialize_rel)
    moreover have "nm_grows s s1" using helper_failed by (auto intro: mat_rel_nm_grows materialize_rel)
    ultimately show ?thesis by (blast intro: nm_grows_trans)
  next
    case (succeeded s1 s2 s3)
    have "nm_grows s3 s'" using succeeded by (simp add: nm_grows_def)
    moreover have "nm_grows s2 s3"
      using succeeded renameHelper_nm_grows[of s2 ino ino "resolvePathToNode s ino @ [name]"
          newParent "resolvePathToNode s newParent @ [newName]"] by simp
    moreover have "nm_grows s1 s2"
      using succeeded by (auto split: if_splits intro: mat_rel_nm_grows materialize_rel)
    moreover have "nm_grows s s1" using succeeded by (auto intro: mat_rel_nm_grows materialize_rel)
    ultimately show ?thesis by (blast intro: nm_grows_trans)
  qed
qed

lemma evolves_fresh:
  assumes "evolves s s'" "fresh_ids s"
  shows "fresh_ids s'" and "is_materialized s i \<Longrightarrow> is_materialized s' i"
proof -
  show "fresh_ids s'"
    using assms by (auto simp: evolves_def fresh_ids_def)
  show "is_materialized s' i" if m: "is_materialized s i"
  proof -
    have "i < nm_next s"
    proof (rule ccontr)
      assume "\<not> i < nm_next s"
      with assms(2) have "inodes s i = None" by (simp add: fresh_ids_def)
      with m show False by (simp add: is_materialized_def getTreeInode_def)
    qed
    with assms(1) m show ?thesis by (simp add: evolves_def)
  qed
qed

lemma run_ops_monotone:
  "fresh_ids s \<Longrightarrow> nm_ok s \<Longrightarrow> run_ops ops s = Some s' \<Longrightarrow>
   fresh_ids s' \<and> nm_ok s' \<and> (is_materialized s i \<longrightarrow> is_materialized s' i)"
proof (induction ops arbitrary: s)
  case Nil
  then show ?case by simp
next
  case (Cons a ops)
  obtain ino op where a: "a = (ino, op)" by (cases a)
  from Cons.prems(3) a obtain r s1 where
    step: "run_op ino op s = Some (r, s1)" and rest: "run_ops ops s1 = Some s'"
    by (auto split: option.splits)
  from run_op_evolves[OF step Cons.prems(2)] Cons.prems(1)
  have "fresh_ids s1" "is_materialized s i \<longrightarrow> is_materialized s1 i"
    using evolves_fresh by blast+
  moreover have "nm_ok s1"
    using run_op_nm_grows[OF step] Cons.prems(2) by (blast intro: nm_grows_ok)
  ultimately show ?case using Cons.IH[OF _ _ rest] by blast
qed

subsection \<open>Preflight checks\<close>

lemma no_materialization_refl [simp]: "no_materialization s s"
  by (simp add: no_materialization_def)

lemma lookup_frame_no_materialization:
  assumes "lookup_frame s s'" "fresh_ids s" "fresh_heap s"
  shows "no_materialization s s'"
proof -
  have "inodes s' i = inodes s i" if "inodes s i \<noteq> None" for i
  proof -
    from that assms(2) have "i < nm_next s"
      by (auto simp: fresh_ids_def not_le[symmetric])
    with assms(1) show ?thesis by (simp add: lookup_frame_def)
  qed
  moreover have "heap s' p = heap s p" if "heap s p \<noteq> None" for p
  proof -
    from that assms(3) have "p \<le> heap_next s"
      by (auto simp: fresh_heap_def not_less[symmetric])
    with assms(1) show ?thesis by (simp add: lookup_frame_def)
  qed
  ultimately show ?thesis
    using assms(1) by (simp add: no_materialization_def lookup_frame_def)
qed

lemma rmdir_checks_frame: "lookup_frame s (snd (rmdir_checks ino name s))"
  using lookupChildByNameLocked_frame[of s ino "dir_of s ino" name]
  by (simp add: rmdir_checks_def case_prod_unfold
      split: option.splits sum.splits Inode.splits)

lemma rmdir_preflight_frame: "lookup_frame s (snd (rmdir_preflight ino name s))"
  using rmdir_checks_frame[of s ino name]
  by (simp add: rmdir_preflight_def case_prod_unfold split: sum.splits)

lemma unlink_preflight_state [simp]: "snd (unlink_preflight ino name s) = s"
  by (simp add: unlink_preflight_def split: option.splits)

subsection \<open>What the locked parts do when they succeed\<close>




lemma is_materialized_recordInode [simp]:
  "is_materialized (recordInode j x s) i =
     (if i = j then (case x of TreeInodeObj t \<Rightarrow> dir_materialized (tree_contents t)
                     | FileInodeObj f \<Rightarrow> False)
      else is_materialized s i)"
  by (auto simp: is_materialized_def split: Inode.splits)

lemma dir_of_recordInode [simp]:
  "dir_of (recordInode j x s) i =
     (if i = j then (case x of TreeInodeObj t \<Rightarrow> tree_contents t
                     | FileInodeObj f \<Rightarrow> default_Dir)
      else dir_of s i)"
  by (auto simp: dir_of_def split: Inode.splits)

lemma lookup_frame_dir_of:
  "lookup_frame s s' \<Longrightarrow> i < nm_next s \<Longrightarrow> dir_of s' i = dir_of s i"
  by (simp add: lookup_frame_def dir_of_def getTreeInode_def)

lemma rmdir_checks_ok:
  assumes "rmdir_checks ino name s = (Inr p, s1)"
  shows "\<exists>ent targetId targetDir.
           find_entry (dir_of s ino) name = Some p \<and> deref s p = Some ent \<and>
           S_ISDIR (mode ent) \<and>
           lookupChildByNameLocked ino (dir_of s ino) name s
             = (Inr (Some (targetId, TreeInodeObj targetDir)), s1) \<and>
           entries (tree_contents targetDir) = []"
  using assms
  by (auto simp: rmdir_checks_def split: option.splits if_splits prod.splits sum.splits
      Inode.splits)

lemma rmdir_checks_nonempty:
  assumes "find_entry (dir_of s ino) name = Some p" "deref s p = Some ent" "S_ISDIR (mode ent)"
    "lookupChildByNameLocked ino (dir_of s ino) name s
       = (Inr (Some (targetId, TreeInodeObj targetDir)), s1)"
    "entries (tree_contents targetDir) \<noteq> []"
  shows "rmdir_checks ino name s = (Inl (SystemError ENOTEMPTY), s1)"
  using assms by (simp add: rmdir_checks_def)

lemma rmdir_locked_failed_checks:
  assumes "rmdir_checks ino name s = (Inl e, s1)"
  shows "rmdir_locked ino name myname targetName s = (Inl e, s1)"
    and "rmdir_preflight ino name s = (Inl e, s1)"
    and "rmdir ino name s = Some (Inl e, s1)"
  using assms by (simp_all add: rmdir_locked_def rmdir_preflight_def rmdir_def)

lemma rmdir_locked_done:
  assumes "rmdir_locked ino name myname targetName s = (Inr (), s')"
  shows "\<exists>p s1 ent1. rmdir_checks ino name s = (Inr p, s1) \<and> deref s1 p = Some ent1 \<and>
           syscalls s' = syscalls s @
              (if materialized ent1 then [SysRmdir (contentDir s @ targetName)] else []) \<and>
           find_entry (dir_of s' ino) name = None \<and>
           (getTreeInode s1 ino \<noteq> None \<longrightarrow> dir_of s' ino = erase_entry name (dir_of s1 ino)) \<and>
           deref s' p = None \<and>
           overlayDirs s' =
             ((overlayDirs s)(myname \<mapsto> serializeDir s' (dir_of s' ino)))(targetName := None) \<and>
           journal s' = journal s"
proof -
  obtain r s1 where c: "rmdir_checks ino name s = (r, s1)" by (cases "rmdir_checks ino name s")
  with assms obtain p where r: "r = Inr p" by (cases r) (auto simp: rmdir_locked_def)
  have f: "overlayDirs s1 = overlayDirs s" "syscalls s1 = syscalls s" "contentDir s1 = contentDir s"
    "journal s1 = journal s"
    using rmdir_checks_fields[of ino name s] c by simp_all
  from assms c r obtain ent1 where e: "deref s1 p = Some ent1"
    by (auto simp: rmdir_locked_def split: option.splits)
  have gone: "getTreeInode s1 ino = None \<Longrightarrow> find_entry (dir_of s1 ino) name = None"
    by (simp add: dir_of_None)
  show ?thesis
    using assms c r e f gone
    by (cases "materialized ent1")
       (auto simp: rmdir_locked_def Let_def case_prod_unfold
          split: sum.splits)
qed

subsection \<open>The journal\<close>

lemma inodes_set_contents_other:
  "i \<noteq> ino \<Longrightarrow> inodes (set_contents ino d s) i = inodes s i"
  by (simp add: set_contents_def split: option.splits Inode.splits)

lemma materialize_success_tree:
  "materializeDirAndParents ino s = Some (Inr (), s1) \<Longrightarrow> getTreeInode s ino \<noteq> None"
  by (subst (asm) materializeDirAndParents.simps) (auto split: option.splits)

lemma create_journal:
  assumes run: "create ino name mode' flags s = Some (r, s')"
  shows "\<forall>res. r = Inr res \<longrightarrow>
           journal s' = journal s @ [JournalDelta [resolvePathToNode s ino @ [name]]]"
    and "\<forall>e. r = Inl e \<longrightarrow>
           journal s' = journal s \<or>
           (journal s' = journal s @ [JournalDelta [resolvePathToNode s ino @ [name]]] \<and>
            (\<exists>s1 s2 v en.
               materializeDirAndParents ino s = Some (Inr (), s1) \<and>
               create_locked ino name flags (resolvePathToNode s ino)
                 (contentDir s @ resolvePathToNode s ino @ [name]) s1 = (Inr v, s2) \<and>
               os s (syscalls s2)
                 (HandleGetattr (contentDir s @ resolvePathToNode s ino @ [name])) = Inl en \<and>
               e = HandleError en))"
proof -
  let ?d = "JournalDelta [resolvePathToNode s ino @ [name]]"
  let ?P = "(\<forall>res. r = Inr res \<longrightarrow> journal s' = journal s @ [?d]) \<and>
    (\<forall>e. r = Inl e \<longrightarrow>
           journal s' = journal s \<or>
           (journal s' = journal s @ [?d] \<and>
            (\<exists>s1 s2 v en.
               materializeDirAndParents ino s = Some (Inr (), s1) \<and>
               create_locked ino name flags (resolvePathToNode s ino)
                 (contentDir s @ resolvePathToNode s ino @ [name]) s1 = (Inr v, s2) \<and>
               os s (syscalls s2)
                 (HandleGetattr (contentDir s @ resolvePathToNode s ino @ [name])) = Inl en \<and>
               e = HandleError en)))"
  from run have ?P
  proof (cases rule: create_cases)
    case (materialize_failed e)
    then show ?thesis using mat_rel_fields(1)[OF materialize_rel] by simp
  next
    case (locked_failed s1 e)
    then show ?thesis
      using mat_rel_fields(1)[OF materialize_rel[OF locked_failed(1)]]
        create_locked_fields(3)[of ino name flags "resolvePathToNode s ino"
          "contentDir s1 @ resolvePathToNode s ino @ [name]" s1]
      by simp
  next
    case (getattr_failed s1 s2 node inode e)
    note rel = materialize_rel[OF getattr_failed(1)]
    note f = create_locked_fields[of ino name flags "resolvePathToNode s ino"
          "contentDir s1 @ resolvePathToNode s ino @ [name]" s1]
    have j: "journal s' = journal s @ [?d]"
      using getattr_failed(2,3) mat_rel_fields(1)[OF rel] f(3)
      by (auto simp: sys_def)
    have a: "os s (syscalls s2)
               (HandleGetattr (contentDir s @ resolvePathToNode s ino @ [name])) = Inl e"
      using getattr_failed(2,3) mat_rel_fields(7,8)[OF rel] f(4)
      by (auto simp: sys_def)
    have c: "create_locked ino name flags (resolvePathToNode s ino)
               (contentDir s @ resolvePathToNode s ino @ [name]) s1 = (Inr (node, inode), s2)"
      using getattr_failed(2) mat_rel_fields(7)[OF rel] by simp
    show ?thesis
    proof (intro conjI allI impI)
      fix res assume "r = Inr res"
      with getattr_failed(4) show "journal s' = journal s @ [?d]" by simp
    next
      fix e' assume "r = Inl e'"
      with getattr_failed(4) have "e' = HandleError e" by simp
      with j a c getattr_failed(1) show "journal s' = journal s \<or>
           (journal s' = journal s @ [?d] \<and>
            (\<exists>s1 s2 v en.
               materializeDirAndParents ino s = Some (Inr (), s1) \<and>
               create_locked ino name flags (resolvePathToNode s ino)
                 (contentDir s @ resolvePathToNode s ino @ [name]) s1 = (Inr v, s2) \<and>
               os s (syscalls s2)
                 (HandleGetattr (contentDir s @ resolvePathToNode s ino @ [name])) = Inl en \<and>
               e' = HandleError en))"
        by blast
    qed
  next
    case (succeeded s1 s2 node inode attr)
    then show ?thesis
      using mat_rel_fields(1)[OF materialize_rel[OF succeeded(1)]]
        create_locked_fields(3)[of ino name flags "resolvePathToNode s ino"
          "contentDir s1 @ resolvePathToNode s ino @ [name]" s1]
      by (auto simp: sys_def)
  qed
  then show "\<forall>res. r = Inr res \<longrightarrow> journal s' = journal s @ [?d]"
    and "\<forall>e. r = Inl e \<longrightarrow>
           journal s' = journal s \<or>
           (journal s' = journal s @ [?d] \<and>
            (\<exists>s1 s2 v en.
               materializeDirAndParents ino s = Some (Inr (), s1) \<and>
               create_locked ino name flags (resolvePathToNode s ino)
                 (contentDir s @ resolvePathToNode s ino @ [name]) s1 = (Inr v, s2) \<and>
               os s (syscalls s2)
                 (HandleGetattr (contentDir s @ resolvePathToNode s ino @ [name])) = Inl en \<and>
               e = HandleError en))"
    by blast+
qed

lemma unlink_journal:
  assumes "unlink ino name s = Some (r, s')"
  shows "journal s' = journal s @
           (case r of Inr v \<Rightarrow> [JournalDelta [resolvePathToNode s ino @ [name]]] | Inl e \<Rightarrow> [])"
  using assms
proof (cases rule: unlink_cases)
  case (preflight_failed e)
  then show ?thesis using unlink_preflight_state[of ino name s] by simp
next
  case (materialize_failed e)
  then show ?thesis using mat_rel_fields(1)[OF materialize_rel] by simp
next
  case (locked_failed s1 e)
  then show ?thesis
    using mat_rel_fields(1)[OF materialize_rel[OF locked_failed(2)]]
      unlink_locked_fields(3)[of ino name "resolvePathToNode s ino"
        "resolvePathToNode s ino @ [name]" s1]
    by simp
next
  case (succeeded s1 s2)
  then show ?thesis
    using mat_rel_fields(1)[OF materialize_rel[OF succeeded(2)]]
      unlink_locked_fields(3)[of ino name "resolvePathToNode s ino"
        "resolvePathToNode s ino @ [name]" s1]
    by simp
qed

lemma rmdir_journal:
  assumes "rmdir ino name s = Some (r, s')"
  shows "journal s' = journal s @
           (case r of Inr v \<Rightarrow> [JournalDelta [resolvePathToNode s ino @ [name]]] | Inl e \<Rightarrow> [])"
proof -
  have pre: "journal (snd (rmdir_preflight ino name s)) = journal s"
    using rmdir_preflight_frame[of s ino name] by (simp add: lookup_frame_def)
  from assms show ?thesis
  proof (cases rule: rmdir_cases)
    case (preflight_failed e)
    then show ?thesis using pre by simp
  next
    case (materialize_failed s0 e)
    then show ?thesis using pre mat_rel_fields(1)[OF materialize_rel] by simp
  next
    case (locked_failed s0 s1 e)
    then show ?thesis
      using pre mat_rel_fields(1)[OF materialize_rel[OF locked_failed(2)]]
        rmdir_locked_fields(3)[of ino name "resolvePathToNode s ino"
          "resolvePathToNode s ino @ [name]" s1]
      by simp
  next
    case (succeeded s0 s1 s2)
    then show ?thesis
      using pre mat_rel_fields(1)[OF materialize_rel[OF succeeded(2)]]
        rmdir_locked_fields(3)[of ino name "resolvePathToNode s ino"
          "resolvePathToNode s ino @ [name]" s1]
      by simp
  qed
qed

lemma rename_journal:
  assumes "rename ino name newParent newName s = Some (r, s')"
  shows "journal s' = journal s @
           (case r of
              Inr v \<Rightarrow> [JournalDelta [resolvePathToNode s ino @ [name],
                                        resolvePathToNode s newParent @ [newName]]]
            | Inl e \<Rightarrow> [])"
  using assms
proof (cases rule: rename_cases)
  case (materialize_failed e)
  then show ?thesis using mat_rel_fields(1)[OF materialize_rel] by simp
next
  case (materialize_target_failed s1 e)
  then show ?thesis
    using mat_rel_fields(1)[OF materialize_rel[OF materialize_target_failed(3)]]
      mat_rel_fields(1)[OF materialize_rel[OF materialize_target_failed(5)]] by simp
next
  case (helper_failed s1 s2 e)
  have "journal s2 = journal s1"
    using helper_failed(4) mat_rel_fields(1)[OF materialize_rel, of newParent s1 "Inr ()" s2]
    by (auto split: if_splits)
  then show ?thesis
    using helper_failed mat_rel_fields(1)[OF materialize_rel[OF helper_failed(3)]]
      renameHelper_fields(3)[of ino ino "resolvePathToNode s ino @ [name]" newParent
        "resolvePathToNode s newParent @ [newName]" s2]
    by simp
next
  case (succeeded s1 s2 s3)
  have "journal s2 = journal s1"
    using succeeded(4) mat_rel_fields(1)[OF materialize_rel, of newParent s1 "Inr ()" s2]
    by (auto split: if_splits)
  then show ?thesis
    using succeeded mat_rel_fields(1)[OF materialize_rel[OF succeeded(3)]]
      renameHelper_fields(3)[of ino ino "resolvePathToNode s ino @ [name]" newParent
        "resolvePathToNode s newParent @ [newName]" s2]
    by simp
qed simp_all

lemma mkdir_journal:
  assumes run: "mkdir ino name mode' s = Some (r, s')"
  shows "\<forall>i. r = Inr i \<longrightarrow>
           journal s' = journal s @ [JournalDelta [resolvePathToNode s ino @ [name]]]"
    and "\<forall>e. r = Inl e \<longrightarrow>
           journal s' = journal s \<or>
           (journal s' = journal s @ [JournalDelta [resolvePathToNode s ino @ [name]]] \<and>
            (\<exists>s1 s2.
               materializeDirAndParents ino s = Some (Inr (), s1) \<and>
               mkdir_locked ino name mode' (resolvePathToNode s ino)
                 (resolvePathToNode s ino @ [name]) s1 = (Inr (), s2) \<and>
               dispatcher_lookup ino name
                 (addDelta (JournalDelta [resolvePathToNode s ino @ [name]]) s2) = (Inl e, s')))"
proof -
  let ?d = "JournalDelta [resolvePathToNode s ino @ [name]]"
  let ?P = "(\<forall>i. r = Inr i \<longrightarrow> journal s' = journal s @ [?d]) \<and>
    (\<forall>e. r = Inl e \<longrightarrow>
           journal s' = journal s \<or>
           (journal s' = journal s @ [?d] \<and>
            (\<exists>s1 s2.
               materializeDirAndParents ino s = Some (Inr (), s1) \<and>
               mkdir_locked ino name mode' (resolvePathToNode s ino)
                 (resolvePathToNode s ino @ [name]) s1 = (Inr (), s2) \<and>
               dispatcher_lookup ino name (addDelta ?d s2) = (Inl e, s'))))"
  from run have ?P
  proof (cases rule: mkdir_cases)
    case (materialize_failed e)
    then show ?thesis using mat_rel_fields(1)[OF materialize_rel] by simp
  next
    case (locked_failed s1 e)
    then show ?thesis
      using mat_rel_fields(1)[OF materialize_rel[OF locked_failed(1)]]
        mkdir_locked_fields(3)[of ino name mode' "resolvePathToNode s ino"
          "resolvePathToNode s ino @ [name]" s1]
      by simp
  next
    case (succeeded s1 s2)
    note rel = materialize_rel[OF succeeded(1)]
    let ?sj = "addDelta ?d s2"
    have j: "journal s' = journal s @ [?d]"
      using succeeded(3) mat_rel_fields(1)[OF rel]
        dispatcher_lookup_fields(4)[of ino name ?sj]
        mkdir_locked_fields(3)[of ino name mode' "resolvePathToNode s ino"
          "resolvePathToNode s ino @ [name]" s1] succeeded(2)
      by simp
    show ?thesis
    proof (intro conjI allI impI)
      fix i assume "r = Inr i"
      show "journal s' = journal s @ [?d]" by (rule j)
    next
      fix e assume "r = Inl e"
      with succeeded j show "journal s' = journal s \<or>
           (journal s' = journal s @ [?d] \<and>
            (\<exists>s1 s2.
               materializeDirAndParents ino s = Some (Inr (), s1) \<and>
               mkdir_locked ino name mode' (resolvePathToNode s ino)
                 (resolvePathToNode s ino @ [name]) s1 = (Inr (), s2) \<and>
               dispatcher_lookup ino name (addDelta ?d s2) = (Inl e, s')))"
        by blast
    qed
  qed
  then show "\<forall>i. r = Inr i \<longrightarrow> journal s' = journal s @ [?d]"
    and "\<forall>e. r = Inl e \<longrightarrow>
           journal s' = journal s \<or>
           (journal s' = journal s @ [?d] \<and>
            (\<exists>s1 s2.
               materializeDirAndParents ino s = Some (Inr (), s1) \<and>
               mkdir_locked ino name mode' (resolvePathToNode s ino)
                 (resolvePathToNode s ino @ [name]) s1 = (Inr (), s2) \<and>
               dispatcher_lookup ino name (addDelta ?d s2) = (Inl e, s')))"
    by blast+
qed

lemma inodes_set_contents_same:
  "inodes (set_contents i d s) i =
     (case inodes s i of Some (TreeInodeObj t) \<Rightarrow> Some (TreeInodeObj (t\<lparr>tree_contents := d\<rparr>))
      | x \<Rightarrow> x)"
  by (simp add: set_contents_def split: option.splits Inode.splits)
subsection \<open>What create does under the write lock\<close>

lemma create_locked_EEXIST:
  assumes "fst (create_locked ino name flags myname filePath s) = Inl (SystemError EEXIST)"
  shows "os s (syscalls s)
           (SysOpen filePath (O_RDWR OR O_CREAT OR (flags AND NOT (O_RDONLY OR O_WRONLY))) 384)
           = Inl EEXIST \<or>
         os s (syscalls s @
                [SysOpen filePath (O_RDWR OR O_CREAT OR (flags AND NOT (O_RDONLY OR O_WRONLY))) 384])
           (SysFstat filePath) = Inl EEXIST"
  using assms
  by (auto simp: create_locked_def Let_def case_prod_unfold write_Entry_def
      split: sum.splits option.splits)

lemma create_locked_replaces:
  assumes t: "getTreeInode s ino \<noteq> None"
    and old: "slot_of s ino name \<le> heap_next s"
    and op: "os s (syscalls s)
           (SysOpen filePath (O_RDWR OR O_CREAT OR (flags AND NOT (O_RDONLY OR O_WRONLY))) 384)
           = Inr fd"
    and st: "os s (syscalls s @
                [SysOpen filePath (O_RDWR OR O_CREAT OR (flags AND NOT (O_RDONLY OR O_WRONLY))) 384])
           (SysFstat filePath) = Inr m"
  shows "\<exists>r s'. create_locked ino name flags myname filePath s = (r, s') \<and>
           find_entry (dir_of s' ino) name = Some (Suc (heap_next s)) \<and>
           deref s' (Suc (heap_next s)) = Some \<lparr>mode = m, hash = None, materialized = True\<rparr> \<and>
           (\<forall>q. find_entry (dir_of s ino) name = Some q \<longrightarrow> deref s' q = None) \<and>
           (\<forall>n. n \<noteq> name \<longrightarrow> find_entry (dir_of s' ino) n = find_entry (dir_of s ino) n) \<and>
           syscalls s' = syscalls s @
             [SysOpen filePath (O_RDWR OR O_CREAT OR (flags AND NOT (O_RDONLY OR O_WRONLY))) 384,
              SysFstat filePath, HandleFinishCreate filePath] \<and>
           (\<forall>h. os s (syscalls s @
                   [SysOpen filePath
                      (O_RDWR OR O_CREAT OR (flags AND NOT (O_RDONLY OR O_WRONLY))) 384,
                    SysFstat filePath]) (HandleFinishCreate filePath) = Inr h \<longrightarrow>
                (\<exists>node. r = Inr (node, FileInodeObj
                              \<lparr>file_parent = ino, file_entry = Suc (heap_next s)\<rparr>)) \<and>
                overlayDirs s' myname = Some (serializeDir s' (dir_of s' ino))) \<and>
           (\<forall>e. os s (syscalls s @
                   [SysOpen filePath
                      (O_RDWR OR O_CREAT OR (flags AND NOT (O_RDONLY OR O_WRONLY))) 384,
                    SysFstat filePath]) (HandleFinishCreate filePath) = Inl e \<longrightarrow>
                r = Inl (HandleError e))"
proof -
  have q: "find_entry (dir_of s ino) name = Some q \<Longrightarrow> q \<noteq> Suc (heap_next s)" for q
    using old by (auto simp: slot_of_def)
  show ?thesis
    using t old op st q
    by (auto simp: create_locked_def Let_def case_prod_unfold write_Entry_def default_Entry_def
        slot_of_def split: option.splits sum.splits)
qed

subsection \<open>The example mount\<close>

lemma materialize_root:
  assumes "getTreeInode s FUSE_ROOT_ID = Some t" "\<not> dir_materialized (tree_contents t)"
  shows "materializeDirAndParents FUSE_ROOT_ID s = Some (materialize_self FUSE_ROOT_ID s)"
  using assms by (subst materializeDirAndParents.simps) simp

lemma example_root_simps:
  "tree_contents example_root = example_root_dir" "tree_entry example_root = nullptr"
  "tree_parent example_root = FUSE_ROOT_ID"
  "dir_materialized example_root_dir = False"
  "treeHash example_root_dir = Some 100"
  "entries example_root_dir = [(''a'', 11), (''sub'', 12), (''empty'', 13)]"
  "find_entry example_root_dir ''a'' = Some 11"
  "find_entry example_root_dir ''sub'' = Some 12"
  "find_entry example_root_dir ''empty'' = Some 13"
  "find_entry example_root_dir ''zz'' = None"
  "find_entry (example_root_dir\<lparr>dir_materialized := True\<rparr>) = find_entry example_root_dir"
  by (simp_all add: example_root_def example_root_dir_def find_entry_def fun_eq_iff)

lemma example_mount_simps:
  "getTreeInode example_mount FUSE_ROOT_ID = Some example_root"
  "dir_of example_mount FUSE_ROOT_ID = example_root_dir"
  "is_materialized example_mount i = False"
  "inodes example_mount i = (if i = FUSE_ROOT_ID then Some (TreeInodeObj example_root) else None)"
  "nm_next example_mount = 2"
  "heap_next example_mount = 13"
  "contentDir example_mount = [''overlay'']"
  "os example_mount = example_os"
  "syscalls example_mount = []"
  "journal example_mount = []"
  "resolvePathToNode example_mount i = []"
  "nm_byname example_mount k = None"
  "overlayDirs example_mount p = None"
  "deref example_mount 11 = Some \<lparr>mode = 33188, hash = Some 21, materialized = False\<rparr>"
  "deref example_mount 12 = Some \<lparr>mode = 16877, hash = Some 22, materialized = False\<rparr>"
  "deref example_mount 13 = Some \<lparr>mode = 16877, hash = Some 23, materialized = False\<rparr>"
  by (simp_all add: example_mount_def example_root_def example_root_dir_def getTreeInode_def
      dir_of_def is_materialized_def resolvePathToNode_def deref_def)

lemma example_materialized_simps:
  "getTreeInode example_materialized FUSE_ROOT_ID =
     Some (example_root\<lparr>tree_contents := example_root_dir\<lparr>dir_materialized := True\<rparr>\<rparr>)"
  "dir_of example_materialized FUSE_ROOT_ID = example_root_dir\<lparr>dir_materialized := True\<rparr>"
  "is_materialized example_materialized FUSE_ROOT_ID = True"
  "inodes example_materialized i =
     (if i = FUSE_ROOT_ID
      then Some (TreeInodeObj (example_root
             \<lparr>tree_contents := example_root_dir\<lparr>dir_materialized := True\<rparr>\<rparr>))
      else None)"
  "nm_next example_materialized = 2"
  "heap_next example_materialized = 13"
  "contentDir example_materialized = [''overlay'']"
  "os example_materialized = example_os"
  "syscalls example_materialized = [SysMkdir [''overlay''] 493]"
  "journal example_materialized = []"
  "resolvePathToNode example_materialized i = []"
  "nm_byname example_materialized k = None"
  "deref example_materialized 11 = Some \<lparr>mode = 33188, hash = Some 21, materialized = False\<rparr>"
  "deref example_materialized 12 = Some \<lparr>mode = 16877, hash = Some 22, materialized = False\<rparr>"
  "deref example_materialized 13 = Some \<lparr>mode = 16877, hash = Some 23, materialized = False\<rparr>"
  "getTree example_materialized 22 =
     Some \<lparr>tree_hash = 22,
           treeEntries = [\<lparr>te_name = ''c'', te_mode = 33188, te_hash = 24\<rparr>]\<rparr>"
  "getTree example_materialized 23 = Some \<lparr>tree_hash = 23, treeEntries = []\<rparr>"
  by (simp_all add: example_materialized_def example_mount_def example_root_def
      example_root_dir_def getTreeInode_def getTree_def
      dir_of_def is_materialized_def resolvePathToNode_def deref_def)

lemma example_materialize:
  "materializeDirAndParents FUSE_ROOT_ID example_mount = Some (Inr (), example_materialized)"
proof -
  have 1: "materializeDirAndParents FUSE_ROOT_ID example_mount
           = Some (materialize_self FUSE_ROOT_ID example_mount)"
    by (rule materialize_root[OF example_mount_simps(1)])
       (simp add: example_root_simps)
  have 2: "materialize_self FUSE_ROOT_ID example_mount = (Inr (), example_materialized)"
    apply (simp add: materialize_self_def materialize_locked_def example_mount_simps Let_def
        case_prod_unfold example_os_def example_root_simps)
    apply (simp add: example_materialized_def example_mount_def set_contents_def
        saveOverlayDir_def sys_def serializeDir_def deref_def example_root_dir_def
        List.map_filter_def)
    done
  show ?thesis using 1 2 by simp
qed

lemma modes:
  "S_ISDIR 16877" "\<not> S_ISDIR 33188" "mode_to_dtype 16877 = dtype_Dir"
  "mode_to_dtype 33188 \<noteq> dtype_Dir" "\<not> S_ISDIR 33152"
  by (simp_all add: S_ISDIR_def mode_to_dtype_def)

lemma example_rename_a_a:
  "\<exists>s'. rename FUSE_ROOT_ID ''a'' FUSE_ROOT_ID ''a'' example_mount = Some (Inr (), s')"
  by (simp add: rename_def example_mount_simps example_root_simps example_materialize
      renameHelper_def rename_checks_def example_materialized_simps modes Let_def
      basename_def dirname_def
      case_prod_unfold)

lemma root_lt_2 [simp]: "FUSE_ROOT_ID < 2"
  by (simp add: FUSE_ROOT_ID_def)

lemma example_lookup_sub:
  "fst (lookupChildByNameLocked FUSE_ROOT_ID (example_root_dir\<lparr>dir_materialized := True\<rparr>)
          ''sub'' example_materialized) =
     Inr (Some (2, TreeInodeObj
       \<lparr>tree_contents = \<lparr>entries = [(''c'', 14)], treeHash = Some 22,
                          dir_materialized = False\<rparr>,
        tree_entry = 12, tree_parent = FUSE_ROOT_ID\<rparr>))"
  by (simp add: lookupChildByNameLocked_def getChildByNameLocked_def buildDirFromTree_def
      example_materialized_simps example_root_simps modes Let_def case_prod_unfold
      emplace_entry_def find_entry_def default_Dir_def)

lemma example_rename_sub_sub:
  "rename FUSE_ROOT_ID ''sub'' FUSE_ROOT_ID ''sub'' example_mount
     = Some (Inl (SystemError ENOTEMPTY),
             snd (lookupChildByNameLocked FUSE_ROOT_ID
                    (example_root_dir\<lparr>dir_materialized := True\<rparr>) ''sub''
                    example_materialized))"
  "find_entry (dir_of (snd (lookupChildByNameLocked FUSE_ROOT_ID
                    (example_root_dir\<lparr>dir_materialized := True\<rparr>) ''sub''
                    example_materialized)) FUSE_ROOT_ID) ''sub'' = Some 12"
proof -
  let ?s' = "snd (lookupChildByNameLocked FUSE_ROOT_ID
                    (example_root_dir\<lparr>dir_materialized := True\<rparr>) ''sub'' example_materialized)"
  have checks: "rename_checks FUSE_ROOT_ID FUSE_ROOT_ID [''sub''] FUSE_ROOT_ID [''sub'']
                  example_materialized = (Inl (SystemError ENOTEMPTY), ?s')"
    by (simp add: rename_checks_def example_materialized_simps example_root_simps modes
        basename_def example_lookup_sub prod_eq_iff case_prod_unfold)
  have "getTreeInode ?s' FUSE_ROOT_ID = getTreeInode example_materialized FUSE_ROOT_ID"
    by (rule lookupChildByNameLocked_table) (simp add: example_materialized_simps)
  then have dir: "dir_of ?s' FUSE_ROOT_ID = dir_of example_materialized FUSE_ROOT_ID"
    by (simp add: dir_of_def)
  show "rename FUSE_ROOT_ID ''sub'' FUSE_ROOT_ID ''sub'' example_mount
          = Some (Inl (SystemError ENOTEMPTY), ?s')"
    by (simp add: rename_def example_mount_simps example_root_simps example_materialize
        renameHelper_def checks)
  show "find_entry (dir_of ?s' FUSE_ROOT_ID) ''sub'' = Some 12"
    using dir by (simp add: example_materialized_simps example_root_simps)
qed

lemma example_rename_sub_a:
  "rename FUSE_ROOT_ID ''sub'' FUSE_ROOT_ID ''a'' example_mount
     = Some (Inl (SystemError ENOTDIR), example_materialized)"
  by (simp add: rename_def example_mount_simps example_root_simps example_materialize
      renameHelper_def rename_checks_def example_materialized_simps modes Let_def
      basename_def dirname_def
      case_prod_unfold)

lemma example_mount_fresh: "fresh_ids example_mount" "fresh_heap example_mount"
  by (simp_all add: fresh_ids_def fresh_heap_def example_mount_def FUSE_ROOT_ID_def)

lemma example_mount_getTree:
  "getTree example_mount 22 =
     Some \<lparr>tree_hash = 22,
           treeEntries = [\<lparr>te_name = ''c'', te_mode = 33188, te_hash = 24\<rparr>]\<rparr>"
  "getTree example_mount 23 = Some \<lparr>tree_hash = 23, treeEntries = []\<rparr>"
  by (simp_all add: example_mount_def getTree_def)

lemma example_mount_lookup_sub:
  "fst (lookupChildByNameLocked FUSE_ROOT_ID example_root_dir ''sub'' example_mount) =
     Inr (Some (2, TreeInodeObj
       \<lparr>tree_contents = \<lparr>entries = [(''c'', 14)], treeHash = Some 22,
                          dir_materialized = False\<rparr>,
        tree_entry = 12, tree_parent = FUSE_ROOT_ID\<rparr>))"
  by (simp add: lookupChildByNameLocked_def getChildByNameLocked_def buildDirFromTree_def
      example_mount_simps example_mount_getTree example_root_simps modes Let_def
      case_prod_unfold emplace_entry_def find_entry_def default_Dir_def)

lemma example_materialized_fresh:
  "fresh_ids example_materialized" "nm_ok example_materialized"
  by (simp_all add: fresh_ids_def nm_ok_def example_materialized_simps FUSE_ROOT_ID_def)

lemma example_unlink_a:
  "\<exists>s'. unlink FUSE_ROOT_ID ''a'' example_materialized = Some (Inr (), s')"
  by (simp add: unlink_def unlink_preflight_def unlink_locked_def materialize_idem
      example_materialized_simps example_root_simps modes Let_def case_prod_unfold
      example_os_def)

lemma example_unlink_a_mount:
  "\<exists>s'. unlink FUSE_ROOT_ID ''a'' example_mount = Some (Inr (), s')"
  by (simp add: unlink_def unlink_preflight_def unlink_locked_def example_materialize
      example_mount_simps example_materialized_simps example_root_simps modes Let_def
      case_prod_unfold example_os_def)

lemma root_neq_2 [simp]: "FUSE_ROOT_ID \<noteq> 2" "2 \<noteq> FUSE_ROOT_ID"
  by (simp_all add: FUSE_ROOT_ID_def)

lemma example_lookup_empty:
  "fst (lookupChildByNameLocked FUSE_ROOT_ID (example_root_dir\<lparr>dir_materialized := True\<rparr>)
          ''empty'' example_materialized) =
     Inr (Some (2, TreeInodeObj
       \<lparr>tree_contents = \<lparr>entries = [], treeHash = Some 23, dir_materialized = False\<rparr>,
        tree_entry = 13, tree_parent = FUSE_ROOT_ID\<rparr>))"
  by (simp add: lookupChildByNameLocked_def getChildByNameLocked_def buildDirFromTree_def
      example_materialized_simps example_root_simps modes Let_def case_prod_unfold
      emplace_entry_def find_entry_def default_Dir_def)

lemma example_rmdir_empty:
  "\<exists>s'. rmdir FUSE_ROOT_ID ''empty'' example_materialized = Some (Inr (), s')"
  by (simp add: rmdir_def rmdir_preflight_def rmdir_locked_def rmdir_checks_def
      lookupChildByNameLocked_def getChildByNameLocked_def buildDirFromTree_def
      materialize_idem getInode_def
      example_materialized_simps example_root_simps modes Let_def case_prod_unfold
      default_Dir_def)


lemma example_root_absent:
  "find_entry example_root_dir ''b'' = None" "find_entry example_root_dir ''d'' = None"
  by (simp_all add: find_entry_def example_root_dir_def)

lemma example_nm_path:
  "nm_path example_mount i = []" "nm_path example_materialized i = []"
  by (simp_all add: example_mount_def example_materialized_def)

lemma example_rmdir_sub:
  "\<exists>s1. rmdir FUSE_ROOT_ID ''sub'' example_mount = Some (Inl (SystemError ENOTEMPTY), s1)"
proof -
  have "fst (rmdir_checks FUSE_ROOT_ID ''sub'' example_mount) = Inl (SystemError ENOTEMPTY)"
    using example_mount_lookup_sub
    by (simp add: rmdir_checks_def example_mount_simps example_root_simps modes
        case_prod_unfold)
  then show ?thesis
    by (cases "rmdir_checks FUSE_ROOT_ID ''sub'' example_mount")
       (simp add: rmdir_def rmdir_preflight_def)
qed

lemma example_create_b:
  "\<exists>res s'. create FUSE_ROOT_ID ''b'' 33188 (O_CREAT OR O_WRONLY) example_mount
             = Some (Inr res, s')"
  by (simp add: create_def create_locked_def example_materialize write_Entry_def
      example_mount_simps example_materialized_simps example_root_simps modes Let_def
      case_prod_unfold example_os_def example_root_absent)

lemma example_mkdir_d:
  "\<exists>i s'. mkdir FUSE_ROOT_ID ''d'' 493 example_mount = Some (Inr i, s')"
  by (simp add: mkdir_def mkdir_locked_def example_materialize
      dispatcher_lookup_def getInode_def getChildByNameLocked_def
      loadOverlayDir_def resolvePathToNode_def example_nm_path inodes_set_contents_other
      example_mount_simps example_materialized_simps example_root_simps modes Let_def
      case_prod_unfold example_os_def example_root_absent)

lemma example_mkdir_a:
  "mkdir FUSE_ROOT_ID ''a'' 493 example_mount
     = Some (Inl (SystemError EEXIST), example_materialized)"
  by (simp add: mkdir_def mkdir_locked_def example_materialize
      example_mount_simps example_materialized_simps example_root_simps modes Let_def
      case_prod_unfold example_os_def)

lemma example_rename_a_b:
  "\<exists>s'. rename FUSE_ROOT_ID ''a'' FUSE_ROOT_ID ''b'' example_mount = Some (Inr (), s')"
  by (simp add: rename_def example_mount_simps example_root_simps example_materialize
      renameHelper_def rename_checks_def example_materialized_simps modes Let_def
      basename_def dirname_def find_entry_def example_root_dir_def
      case_prod_unfold)


lemma example_overlay_mount_simps:
  "getTreeInode example_overlay_mount FUSE_ROOT_ID =
     Some (example_root\<lparr>tree_contents := example_root_dir\<lparr>dir_materialized := True\<rparr>\<rparr>)"
  "dir_of example_overlay_mount FUSE_ROOT_ID = example_root_dir\<lparr>dir_materialized := True\<rparr>"
  "is_materialized example_overlay_mount FUSE_ROOT_ID = True"
  "contentDir example_overlay_mount = [''overlay'']"
  "os example_overlay_mount = example_excl_os"
  "syscalls example_overlay_mount = [SysMkdir [''overlay''] 493]"
  "resolvePathToNode example_overlay_mount i = []"
  "deref example_overlay_mount 11 = Some \<lparr>mode = 33188, hash = None, materialized = True\<rparr>"
  by (simp_all add: example_overlay_mount_def example_materialized_def example_mount_def
      example_root_def example_root_dir_def getTreeInode_def
      dir_of_def is_materialized_def resolvePathToNode_def deref_def)

lemma example_flags:
  "(2::32 word) OR 64 OR (193 AND NOT (0 OR 1)) = 194" "(194::32 word) AND 128 \<noteq> 0"
  "(2::32 word) OR 64 OR (65 AND NOT (0 OR 1)) = 66" "(66::32 word) AND 128 = 0"
  by simp_all

lemma example_create_excl:
  "create FUSE_ROOT_ID ''a'' 33188 193 example_overlay_mount
     = Some (Inl (SystemError EEXIST),
             snd (sys (SysOpen [''overlay'', ''a''] 194 384) example_overlay_mount))"
  by (simp add: create_def create_locked_def materialize_idem example_overlay_mount_simps
      Let_def case_prod_unfold example_excl_os_def example_flags)

lemma example_noattr_mount_simps:
  "getTreeInode example_noattr_mount FUSE_ROOT_ID =
     Some (example_root\<lparr>tree_contents := example_root_dir\<lparr>dir_materialized := True\<rparr>\<rparr>)"
  "dir_of example_noattr_mount FUSE_ROOT_ID = example_root_dir\<lparr>dir_materialized := True\<rparr>"
  "is_materialized example_noattr_mount FUSE_ROOT_ID = True"
  "contentDir example_noattr_mount = [''overlay'']"
  "os example_noattr_mount = example_noattr_os"
  "syscalls example_noattr_mount = [SysMkdir [''overlay''] 493]"
  "journal example_noattr_mount = []"
  "resolvePathToNode example_noattr_mount i = []"
  "heap_next example_noattr_mount = 13"
  "nm_byname example_noattr_mount k = None"
  by (simp_all add: example_noattr_mount_def example_materialized_def example_mount_def
      example_root_def example_root_dir_def getTreeInode_def
      dir_of_def is_materialized_def resolvePathToNode_def deref_def)

lemma example_stale_mount_simps:
  "getTreeInode example_stale_mount FUSE_ROOT_ID =
     Some (example_root\<lparr>tree_contents := example_root_dir\<lparr>dir_materialized := True\<rparr>\<rparr>)"
  "dir_of example_stale_mount FUSE_ROOT_ID = example_root_dir\<lparr>dir_materialized := True\<rparr>"
  "is_materialized example_stale_mount FUSE_ROOT_ID = True"
  "contentDir example_stale_mount = [''overlay'']"
  "os example_stale_mount = example_os"
  "syscalls example_stale_mount = [SysMkdir [''overlay''] 493]"
  "journal example_stale_mount = []"
  "resolvePathToNode example_stale_mount FUSE_ROOT_ID = []"
  "resolvePathToNode example_stale_mount 2 = [''gone'']"
  "heap_next example_stale_mount = 13"
  "nm_byname example_stale_mount (FUSE_ROOT_ID, ''d'') = Some 2"
  "inodes example_stale_mount 2 = None"
  "overlayDirs example_stale_mount [''gone''] = None"
  by (simp_all add: example_stale_mount_def example_materialized_def example_mount_def
      example_root_def example_root_dir_def getTreeInode_def
      dir_of_def is_materialized_def resolvePathToNode_def deref_def FUSE_ROOT_ID_def)

lemma example_stale_mount_ok: "fresh_ids example_stale_mount" "nm_ok example_stale_mount"
  by (simp_all add: fresh_ids_def nm_ok_def example_stale_mount_def example_materialized_def
      example_mount_def FUSE_ROOT_ID_def)

lemma example_create_noattr:
  "\<exists>s'. create FUSE_ROOT_ID ''b'' 33188 65 example_noattr_mount
          = Some (Inl (HandleError EIO), s') \<and>
        journal s' = [JournalDelta [[''b'']]]"
  by (simp add: create_def create_locked_def materialize_idem write_Entry_def
      example_noattr_mount_simps example_root_simps modes Let_def
      case_prod_unfold example_os_def example_noattr_os_def example_root_absent)

lemma example_mkdir_stale:
  "\<exists>s'. mkdir FUSE_ROOT_ID ''d'' 493 example_stale_mount = Some (Inl AssertionFailure, s') \<and>
        journal s' = [JournalDelta [[''d'']]]"
  by (simp add: mkdir_def mkdir_locked_def materialize_idem
      dispatcher_lookup_def getInode_def getChildByNameLocked_def
      loadOverlayDir_def inodes_set_contents_other
      example_stale_mount_simps example_root_simps modes Let_def
      case_prod_unfold example_os_def example_root_absent)

lemma example_preflight_empty:
  "\<exists>s0. rmdir_preflight FUSE_ROOT_ID ''empty'' example_materialized = (Inr (), s0) \<and>
        materializeDirAndParents FUSE_ROOT_ID s0 = Some (Inr (), s0) \<and>
        find_entry (dir_of (example_other_thread s0) FUSE_ROOT_ID) ''empty'' = Some 13 \<and>
        deref (example_other_thread s0) 13
          = Some \<lparr>mode = 16877, hash = Some 23, materialized = False\<rparr> \<and>
        lookupChildByNameLocked FUSE_ROOT_ID (dir_of (example_other_thread s0) FUSE_ROOT_ID)
            ''empty'' (example_other_thread s0)
          = (Inr (Some (2, TreeInodeObj
               \<lparr>tree_contents = \<lparr>entries = [(''x'', 11)], treeHash = None,
                                  dir_materialized = True\<rparr>,
                tree_entry = 13, tree_parent = FUSE_ROOT_ID\<rparr>)),
             snd (lookupChildByNameLocked FUSE_ROOT_ID
                    (dir_of (example_other_thread s0) FUSE_ROOT_ID)
                    ''empty'' (example_other_thread s0))) \<and>
        syscalls (example_other_thread s0) = [SysMkdir [''overlay''] 493] \<and>
        journal (example_other_thread s0) = [] \<and>
        nm_next (example_other_thread s0) = 3"
  by (simp add: rmdir_preflight_def rmdir_checks_def example_other_thread_def
      lookupChildByNameLocked_def getChildByNameLocked_def buildDirFromTree_def
      materialize_idem getInode_def prod_eq_iff inodes_set_contents_same
      example_materialized_simps example_root_simps modes Let_def case_prod_unfold
      default_Dir_def)
section \<open>The claims\<close>

text \<open>
  C8. A lookup fails with \<^verbatim>\<open>ENOENT\<close> exactly when the name is absent from the entries of the
  directory. A lookup of an absent name leaves the whole mount as it was, so it allocates
  no inode id; a lookup of a present name has the name manager's id for the name, a new
  one when the name had none.
\<close>

theorem lookup_ENOENT_iff_absent:
  "(fst (getChildByNameLocked ino contents name s) = Inl (SystemError ENOENT)
      \<longleftrightarrow> find_entry contents name = None) \<and>
   (find_entry contents name = None \<longrightarrow>
      snd (getChildByNameLocked ino contents name s) = s) \<and>
   (find_entry contents name \<noteq> None \<longrightarrow>
      nm_byname (snd (getChildByNameLocked ino contents name s)) (ino, name) =
        Some (case nm_byname s (ino, name) of Some i \<Rightarrow> i | None \<Rightarrow> nm_next s)) \<and>
   (getTreeInode s ino = Some t \<longrightarrow>
      getChildByName ino name s = getChildByNameLocked ino (tree_contents t) name s)"
proof (intro conjI impI)
  show "fst (getChildByNameLocked ino contents name s) = Inl (SystemError ENOENT)
          \<longleftrightarrow> find_entry contents name = None"
    by (auto simp: getChildByNameLocked_def Let_def case_prod_unfold
        buildDirFromTree_def loadOverlayDir_def split: option.splits)
  show "snd (getChildByNameLocked ino contents name s) = s"
    if "find_entry contents name = None"
    using that by (simp add: getChildByNameLocked_def)
  show "nm_byname (snd (getChildByNameLocked ino contents name s)) (ino, name) =
          Some (case nm_byname s (ino, name) of Some i \<Rightarrow> i | None \<Rightarrow> nm_next s)"
    if "find_entry contents name \<noteq> None"
    using that
    by (auto simp: getChildByNameLocked_def Let_def case_prod_unfold
        buildDirFromTree_def loadOverlayDir_def split: option.splits)
  show "getChildByName ino name s = getChildByNameLocked ino (tree_contents t) name s"
    if "getTreeInode s ino = Some t"
    using that by (simp add: getChildByName_def)
qed

theorem lookup_ENOENT_iff_absent_witness:
  "find_entry example_root_dir ''zz'' = None \<and>
   getChildByNameLocked FUSE_ROOT_ID example_root_dir ''zz'' example_mount =
     (Inl (SystemError ENOENT), example_mount) \<and>
   find_entry example_root_dir ''a'' \<noteq> None \<and>
   fst (getChildByNameLocked FUSE_ROOT_ID example_root_dir ''a'' example_mount)
     \<noteq> Inl (SystemError ENOENT) \<and>
   nm_byname (snd (getChildByNameLocked FUSE_ROOT_ID example_root_dir ''a'' example_mount))
     (FUSE_ROOT_ID, ''a'') = Some 2 \<and>
   getTreeInode example_mount FUSE_ROOT_ID = Some example_root \<and>
   getChildByName FUSE_ROOT_ID ''a'' example_mount =
     getChildByNameLocked FUSE_ROOT_ID example_root_dir ''a'' example_mount"
proof -
  have absent: "find_entry example_root_dir ''zz'' = None"
    by (simp add: find_entry_def example_root_dir_def)
  have present: "find_entry example_root_dir ''a'' \<noteq> None"
    by (simp add: find_entry_def example_root_dir_def)
  have root: "getTreeInode example_mount FUSE_ROOT_ID = Some example_root"
    by (simp add: getTreeInode_def example_mount_def)
  have nm: "nm_byname example_mount (FUSE_ROOT_ID, ''a'') = None" "nm_next example_mount = 2"
    by (simp_all add: example_mount_def)
  have contents: "tree_contents example_root = example_root_dir"
    by (simp add: example_root_def)
  show ?thesis
    using lookup_ENOENT_iff_absent[of FUSE_ROOT_ID example_root_dir "''zz''" example_mount example_root]
      lookup_ENOENT_iff_absent[of FUSE_ROOT_ID example_root_dir "''a''" example_mount example_root]
      absent present root nm contents
    by (simp add: prod_eq_iff)
qed

text \<open>
  C3, as amended. Whenever a rename of a name of a directory onto the same name in the same
  directory succeeds, the name has no entry afterwards: \<^verbatim>\<open>entries[destName]\<close> finds the
  source's own slot, the move assignment of the pointer onto itself changes nothing, and
  \<^verbatim>\<open>erase\<close> removes the slot. The rename does not succeed for every name: a directory
  that is not empty is refused with \<^verbatim>\<open>ENOTEMPTY\<close> and its entry stays.
\<close>

theorem rename_onto_itself_erases:
  assumes "rename ino n ino n s = Some (Inr (), s')"
  shows "find_entry (dir_of s' ino) n = None"
  using assms
proof (cases rule: rename_cases)
  case (succeeded s1 s2 s3)
  from renameHelper_done[OF succeeded(5)] obtain sx where
    "dir_of s3 = dir_of (rename_move ino n ino n sx)" by auto
  with succeeded(7) show ?thesis by (simp add: rename_move_same_slot)
qed simp_all

theorem rename_onto_itself_erases_witness:
  "\<exists>s'. rename FUSE_ROOT_ID ''a'' FUSE_ROOT_ID ''a'' example_mount = Some (Inr (), s') \<and>
        find_entry (dir_of example_mount FUSE_ROOT_ID) ''a'' = Some 11 \<and>
        find_entry (dir_of s' FUSE_ROOT_ID) ''a'' = None"
proof -
  from example_rename_a_a obtain s' where
    run: "rename FUSE_ROOT_ID ''a'' FUSE_ROOT_ID ''a'' example_mount = Some (Inr (), s')" ..
  from rename_onto_itself_erases[OF run] run show ?thesis
    by (simp add: example_mount_simps example_root_simps)
qed

text \<open>
  C3, as stated, fails on a directory that is not empty: the rename of \<open>sub\<close> onto itself
  is refused and \<open>sub\<close> keeps its entry.
\<close>

theorem rename_onto_itself_nonempty_counterexample:
  "rename FUSE_ROOT_ID ''sub'' FUSE_ROOT_ID ''sub'' example_mount
     = Some (Inl (SystemError ENOTEMPTY),
             snd (lookupChildByNameLocked FUSE_ROOT_ID
                    (example_root_dir\<lparr>dir_materialized := True\<rparr>) ''sub''
                    example_materialized)) \<and>
   find_entry (dir_of example_mount FUSE_ROOT_ID) ''sub'' = Some 12 \<and>
   find_entry (dir_of (snd (lookupChildByNameLocked FUSE_ROOT_ID
                    (example_root_dir\<lparr>dir_materialized := True\<rparr>) ''sub''
                    example_materialized)) FUSE_ROOT_ID) ''sub'' = Some 12"
  using example_rename_sub_sub by (simp add: example_mount_simps example_root_simps)

text \<open>
  C2 at the rename of the file \<open>a\<close> onto itself: the rename succeeds, and afterwards the
  destination name \<open>a\<close> has no entry at all, so it does not hold the entry the source had.
\<close>

theorem rename_identity_lost_on_same_name:
  "\<exists>s'. rename FUSE_ROOT_ID ''a'' FUSE_ROOT_ID ''a'' example_mount = Some (Inr (), s') \<and>
        deref example_mount (slot_of example_mount FUSE_ROOT_ID ''a'') =
          Some \<lparr>mode = 33188, hash = Some 21, materialized = False\<rparr> \<and>
        find_entry (dir_of s' FUSE_ROOT_ID) ''a'' = None"
proof -
  from example_rename_a_a obtain s' where
    run: "rename FUSE_ROOT_ID ''a'' FUSE_ROOT_ID ''a'' example_mount = Some (Inr (), s')" ..
  have "find_entry (dir_of s' FUSE_ROOT_ID) ''a'' = None"
    using run
  proof (cases rule: rename_cases)
    case (succeeded s1 s2 s3)
    from renameHelper_done[OF succeeded(5)] obtain sx where
      "dir_of s3 = dir_of (rename_move FUSE_ROOT_ID ''a'' FUSE_ROOT_ID ''a'' sx)" by auto
    with succeeded(7) show ?thesis by (simp add: rename_move_same_slot)
  qed simp_all
  with run show ?thesis
    by (simp add: example_mount_simps example_root_simps slot_of_def)
qed

text \<open>
  C1, as stated, fails for \<^verbatim>\<open>rename\<close>: the rename of the directory \<open>sub\<close> onto the file
  \<open>a\<close> is refused with \<^verbatim>\<open>ENOTDIR\<close> after the directory has been materialized.
\<close>

theorem rename_ENOTDIR_after_materialization_counterexample:
  "rename FUSE_ROOT_ID ''sub'' FUSE_ROOT_ID ''a'' example_mount
     = Some (Inl (SystemError ENOTDIR), example_materialized) \<and>
   \<not> is_materialized example_mount FUSE_ROOT_ID \<and>
   is_materialized example_materialized FUSE_ROOT_ID \<and>
   syscalls example_mount = [] \<and>
   syscalls example_materialized = [SysMkdir [''overlay''] 493] \<and>
   overlayDirs example_mount [] = None \<and>
   overlayDirs example_materialized [] \<noteq> None"
  using example_rename_sub_a
  by (simp add: example_mount_simps example_materialized_simps)
    (simp add: example_materialized_def)

text \<open>
  C1, as amended. On a mount whose inode table and heap hold nothing beyond the ids and
  addresses handed out: when the preflight of \<^verbatim>\<open>unlink\<close> or of \<^verbatim>\<open>rmdir\<close> fails, the
  operation returns that error and nothing is materialized (for \<^verbatim>\<open>unlink\<close> the mount is
  unchanged; the preflight of \<^verbatim>\<open>rmdir\<close> may have built the inode of the target). The
  preflights fail with \<^verbatim>\<open>ENOENT\<close> on an absent name, with \<^verbatim>\<open>EISDIR\<close> on an entry of the
  wrong type and, for \<^verbatim>\<open>rmdir\<close>, with \<^verbatim>\<open>ENOTEMPTY\<close> on a target that has entries. A
  \<^verbatim>\<open>rename\<close> of an absent source returns its error with the mount unchanged.
\<close>

theorem preflight_failure_leaves_no_trace:
  assumes "fresh_ids s" "fresh_heap s"
  shows
    "(\<forall>e s'. unlink_preflight ino name s = (Inl e, s') \<longrightarrow>
        unlink ino name s = Some (Inl e, s) \<and> s' = s) \<and>
     (\<forall>e s'. rmdir_preflight ino name s = (Inl e, s') \<longrightarrow>
        rmdir ino name s = Some (Inl e, s') \<and> no_materialization s s') \<and>
     (find_entry (dir_of s ino) name = None \<longrightarrow>
        unlink_preflight ino name s = (Inl (SystemError ENOENT), s) \<and>
        rmdir_preflight ino name s = (Inl (SystemError ENOENT), s) \<and>
        (\<exists>e. e \<in> {ENOENT, EXDEV} \<and>
             rename ino name newParent newName s = Some (Inl (SystemError e), s))) \<and>
     (\<forall>p ent. find_entry (dir_of s ino) name = Some p \<and> deref s p = Some ent \<longrightarrow>
        (S_ISDIR (mode ent) \<longrightarrow>
           unlink_preflight ino name s = (Inl (SystemError EISDIR), s)) \<and>
        (\<not> S_ISDIR (mode ent) \<longrightarrow>
           rmdir_preflight ino name s = (Inl (SystemError EISDIR), s)) \<and>
        (\<forall>targetId targetDir s1.
           S_ISDIR (mode ent) \<and>
           lookupChildByNameLocked ino (dir_of s ino) name s
             = (Inr (Some (targetId, TreeInodeObj targetDir)), s1) \<and>
           entries (tree_contents targetDir) \<noteq> [] \<longrightarrow>
           rmdir_preflight ino name s = (Inl (SystemError ENOTEMPTY), s1)))"
proof (intro conjI allI impI)
  fix e s'
  assume "unlink_preflight ino name s = (Inl e, s')"
  then show "unlink ino name s = Some (Inl e, s)" "s' = s"
    using unlink_preflight_state[of ino name s] by (auto simp: unlink_def Let_def)
next
  fix e s'
  assume pre: "rmdir_preflight ino name s = (Inl e, s')"
  then show "rmdir ino name s = Some (Inl e, s')" by (simp add: rmdir_def Let_def)
  from pre rmdir_preflight_frame[of s ino name] have "lookup_frame s s'" by simp
  then show "no_materialization s s'"
    using assms by (rule lookup_frame_no_materialization)
next
  assume absent: "find_entry (dir_of s ino) name = None"
  then show "unlink_preflight ino name s = (Inl (SystemError ENOENT), s)"
    by (simp add: unlink_preflight_def)
  from absent show "rmdir_preflight ino name s = (Inl (SystemError ENOENT), s)"
    by (simp add: rmdir_preflight_def rmdir_checks_def)
  from absent show "\<exists>e. e \<in> {ENOENT, EXDEV} \<and>
             rename ino name newParent newName s = Some (Inl (SystemError e), s)"
    by (cases "getTreeInode s newParent") (auto simp: rename_def Let_def)
next
  fix p ent
  assume present: "find_entry (dir_of s ino) name = Some p \<and> deref s p = Some ent"
  then show "unlink_preflight ino name s = (Inl (SystemError EISDIR), s)"
    if "S_ISDIR (mode ent)" using that by (simp add: unlink_preflight_def)
  from present show "rmdir_preflight ino name s = (Inl (SystemError EISDIR), s)"
    if "\<not> S_ISDIR (mode ent)" using that by (simp add: rmdir_preflight_def rmdir_checks_def)
  fix targetId targetDir s1
  assume "S_ISDIR (mode ent) \<and>
           lookupChildByNameLocked ino (dir_of s ino) name s
             = (Inr (Some (targetId, TreeInodeObj targetDir)), s1) \<and>
           entries (tree_contents targetDir) \<noteq> []"
  with present show "rmdir_preflight ino name s = (Inl (SystemError ENOTEMPTY), s1)"
    by (simp add: rmdir_preflight_def rmdir_checks_def)
qed

theorem preflight_failure_leaves_no_trace_witness:
  "fresh_ids example_mount \<and> fresh_heap example_mount \<and>
   unlink FUSE_ROOT_ID ''zz'' example_mount = Some (Inl (SystemError ENOENT), example_mount) \<and>
   rmdir FUSE_ROOT_ID ''zz'' example_mount = Some (Inl (SystemError ENOENT), example_mount) \<and>
   (\<exists>e. e \<in> {ENOENT, EXDEV} \<and>
        rename FUSE_ROOT_ID ''zz'' FUSE_ROOT_ID ''b'' example_mount
          = Some (Inl (SystemError e), example_mount)) \<and>
   unlink FUSE_ROOT_ID ''sub'' example_mount = Some (Inl (SystemError EISDIR), example_mount) \<and>
   rmdir FUSE_ROOT_ID ''a'' example_mount = Some (Inl (SystemError EISDIR), example_mount) \<and>
   (\<exists>s1. rmdir FUSE_ROOT_ID ''sub'' example_mount = Some (Inl (SystemError ENOTEMPTY), s1) \<and>
         no_materialization example_mount s1)"
proof -
  note fresh = example_mount_fresh
  note t = preflight_failure_leaves_no_trace[OF fresh]
  have zz: "find_entry (dir_of example_mount FUSE_ROOT_ID) ''zz'' = None"
    by (simp add: example_mount_simps example_root_simps)
  have sub: "find_entry (dir_of example_mount FUSE_ROOT_ID) ''sub'' = Some 12 \<and>
             deref example_mount 12 = Some \<lparr>mode = 16877, hash = Some 22, materialized = False\<rparr>"
    by (simp add: example_mount_simps example_root_simps)
  have a: "find_entry (dir_of example_mount FUSE_ROOT_ID) ''a'' = Some 11 \<and>
           deref example_mount 11 = Some \<lparr>mode = 33188, hash = Some 21, materialized = False\<rparr>"
    by (simp add: example_mount_simps example_root_simps)
  from t[of FUSE_ROOT_ID "''zz''" FUSE_ROOT_ID "''b''"] zz
  have 1: "unlink FUSE_ROOT_ID ''zz'' example_mount
             = Some (Inl (SystemError ENOENT), example_mount)"
    and 2: "rmdir FUSE_ROOT_ID ''zz'' example_mount
             = Some (Inl (SystemError ENOENT), example_mount)"
    and 3: "\<exists>e. e \<in> {ENOENT, EXDEV} \<and>
        rename FUSE_ROOT_ID ''zz'' FUSE_ROOT_ID ''b'' example_mount
          = Some (Inl (SystemError e), example_mount)"
    by blast+
  from t[of FUSE_ROOT_ID "''sub''" FUSE_ROOT_ID "''b''"] sub modes(1)
  have 4: "unlink FUSE_ROOT_ID ''sub'' example_mount
             = Some (Inl (SystemError EISDIR), example_mount)"
    by (metis Entry.select_convs(1))
  from t[of FUSE_ROOT_ID "''a''" FUSE_ROOT_ID "''b''"] a modes(2)
  have 5: "rmdir FUSE_ROOT_ID ''a'' example_mount
             = Some (Inl (SystemError EISDIR), example_mount)"
    by (metis Entry.select_convs(1))
  let ?s1 = "snd (lookupChildByNameLocked FUSE_ROOT_ID (dir_of example_mount FUSE_ROOT_ID)
                    ''sub'' example_mount)"
  have look: "lookupChildByNameLocked FUSE_ROOT_ID (dir_of example_mount FUSE_ROOT_ID)
                ''sub'' example_mount =
              (Inr (Some (2, TreeInodeObj
                 \<lparr>tree_contents = \<lparr>entries = [(''c'', 14)], treeHash = Some 22,
                                    dir_materialized = False\<rparr>,
                  tree_entry = 12, tree_parent = FUSE_ROOT_ID\<rparr>)), ?s1)"
    using example_mount_lookup_sub by (simp add: prod_eq_iff example_mount_simps)
  from t[of FUSE_ROOT_ID "''sub''" FUSE_ROOT_ID "''b''"] sub modes(1) look
  have "rmdir_preflight FUSE_ROOT_ID ''sub'' example_mount = (Inl (SystemError ENOTEMPTY), ?s1)"
    by (metis Entry.select_convs(1) Dir.select_convs(1) TreeInode.select_convs(1) list.distinct(1))
  with t[of FUSE_ROOT_ID "''sub''" FUSE_ROOT_ID "''b''"]
  have 6: "rmdir FUSE_ROOT_ID ''sub'' example_mount = Some (Inl (SystemError ENOTEMPTY), ?s1) \<and>
           no_materialization example_mount ?s1"
    by blast
  show ?thesis
    using fresh 1 2 3 4 5 6 by blast
qed

text \<open>
  C4. The flag \<^verbatim>\<open>Dir.materialized\<close> only goes up: after any sequence of lookups,
  materializations, creates, mkdirs, unlinks, rmdirs and renames that return, on any
  directories, a directory inode that was materialized is still in the inode table and
  still materialized. Materialization is idempotent: on a directory that is materialized
  already, \<^verbatim>\<open>materializeDirAndParents\<close> returns with the whole mount unchanged, so without
  a system call and without an overlay write. The table is taken to hold inodes only for
  ids the name manager has handed out, and the name manager to have given names only ids
  below its next id; every operation keeps both.
\<close>

theorem materialized_stays_and_idempotent:
  "(fresh_ids s \<and> nm_ok s \<and> run_ops ops s = Some s' \<and> is_materialized s i \<longrightarrow>
      fresh_ids s' \<and> nm_ok s' \<and> is_materialized s' i) \<and>
   (is_materialized s i \<longrightarrow> materializeDirAndParents i s = Some (Inr (), s))"
  using run_ops_monotone[of s ops s' i] materialize_idem[of s i] by blast

theorem materialized_stays_and_idempotent_witness:
  "fresh_ids example_materialized \<and> nm_ok example_materialized \<and>
   is_materialized example_materialized FUSE_ROOT_ID \<and>
   (\<exists>s'. run_ops [(FUSE_ROOT_ID, OpUnlink ''a''), (FUSE_ROOT_ID, OpMaterialize)]
            example_materialized = Some s' \<and>
         is_materialized s' FUSE_ROOT_ID) \<and>
   materializeDirAndParents FUSE_ROOT_ID example_materialized
     = Some (Inr (), example_materialized)"
proof -
  from example_unlink_a obtain s1 where
    u: "unlink FUSE_ROOT_ID ''a'' example_materialized = Some (Inr (), s1)" ..
  have m: "is_materialized example_materialized FUSE_ROOT_ID"
    by (simp add: example_materialized_simps)
  note f = example_materialized_fresh
  have "run_ops [(FUSE_ROOT_ID, OpUnlink ''a'')] example_materialized = Some s1"
    using u by simp
  from materialized_stays_and_idempotent[of example_materialized
      "[(FUSE_ROOT_ID, OpUnlink ''a'')]" s1 FUSE_ROOT_ID] this m f
  have s1: "is_materialized s1 FUSE_ROOT_ID"
    and idem: "materializeDirAndParents FUSE_ROOT_ID example_materialized
       = Some (Inr (), example_materialized)" by blast+
  from materialized_stays_and_idempotent[of s1 "[]" s1 FUSE_ROOT_ID] s1
  have "materializeDirAndParents FUSE_ROOT_ID s1 = Some (Inr (), s1)" by blast
  with u have run: "run_ops [(FUSE_ROOT_ID, OpUnlink ''a''), (FUSE_ROOT_ID, OpMaterialize)]
            example_materialized = Some s1" by simp
  show ?thesis
    using run s1 idem m f by blast
qed




text \<open>
  C6. \<^verbatim>\<open>rmdir\<close> checks that the target is empty twice: in its preflight under the read
  lock and again, after materialization, under the write lock, right before it erases the
  entry. The theorem is about \<open>rmdir_interleaved\<close>, of which \<^verbatim>\<open>rmdir\<close> is the run where the
  other threads do nothing. A target whose inode has entries at the preflight makes it
  fail with \<^verbatim>\<open>ENOTEMPTY\<close>. Whatever the other threads did in between, a target whose inode
  has entries in the state found under the write lock makes it fail with \<^verbatim>\<open>ENOTEMPTY\<close> as
  well, although the preflight had found the target empty. Either way the error comes
  with the overlay, the system calls, the journal and the entries of the directory as the
  check found them, so before the entry is erased and before any overlay state is
  removed. When the run succeeds, the target was found empty by the preflight and again
  in the state found under the write lock; only then is the entry erased, the directory
  saved and the overlay record of the target removed.
\<close>

theorem rmdir_rechecks_emptiness_under_write_lock:
  "rmdir ino name s = rmdir_interleaved (\<lambda>s. s) (\<lambda>s. s) ino name s \<and>
   (\<forall>p ent targetId targetDir s0.
      find_entry (dir_of s ino) name = Some p \<and> deref s p = Some ent \<and> S_ISDIR (mode ent) \<and>
      lookupChildByNameLocked ino (dir_of s ino) name s
        = (Inr (Some (targetId, TreeInodeObj targetDir)), s0) \<and>
      entries (tree_contents targetDir) \<noteq> [] \<longrightarrow>
        rmdir_interleaved other1 other2 ino name s = Some (Inl (SystemError ENOTEMPTY), s0) \<and>
        overlayDirs s0 = overlayDirs s \<and> syscalls s0 = syscalls s \<and> journal s0 = journal s \<and>
        (ino < nm_next s \<longrightarrow> dir_of s0 ino = dir_of s ino)) \<and>
   (\<forall>s0 s1 p ent targetId targetDir s2.
      rmdir_preflight ino name s = (Inr (), s0) \<and>
      materializeDirAndParents ino (other1 s0) = Some (Inr (), s1) \<and>
      find_entry (dir_of (other2 s1) ino) name = Some p \<and> deref (other2 s1) p = Some ent \<and>
      S_ISDIR (mode ent) \<and>
      lookupChildByNameLocked ino (dir_of (other2 s1) ino) name (other2 s1)
        = (Inr (Some (targetId, TreeInodeObj targetDir)), s2) \<and>
      entries (tree_contents targetDir) \<noteq> [] \<longrightarrow>
        rmdir_interleaved other1 other2 ino name s = Some (Inl (SystemError ENOTEMPTY), s2) \<and>
        overlayDirs s2 = overlayDirs (other2 s1) \<and> syscalls s2 = syscalls (other2 s1) \<and>
        journal s2 = journal (other2 s1) \<and>
        (ino < nm_next (other2 s1) \<longrightarrow> dir_of s2 ino = dir_of (other2 s1) ino)) \<and>
   (rmdir_interleaved other1 other2 ino name s = Some (Inr (), s') \<longrightarrow>
      (\<exists>p0 ent0 targetId0 targetDir0 s0 s1 p ent targetId targetDir s2.
         find_entry (dir_of s ino) name = Some p0 \<and> deref s p0 = Some ent0 \<and>
         S_ISDIR (mode ent0) \<and>
         lookupChildByNameLocked ino (dir_of s ino) name s
           = (Inr (Some (targetId0, TreeInodeObj targetDir0)), s0) \<and>
         entries (tree_contents targetDir0) = [] \<and>
         materializeDirAndParents ino (other1 s0) = Some (Inr (), s1) \<and>
         find_entry (dir_of (other2 s1) ino) name = Some p \<and> deref (other2 s1) p = Some ent \<and>
         S_ISDIR (mode ent) \<and>
         lookupChildByNameLocked ino (dir_of (other2 s1) ino) name (other2 s1)
           = (Inr (Some (targetId, TreeInodeObj targetDir)), s2) \<and>
         entries (tree_contents targetDir) = [] \<and>
         find_entry (dir_of s' ino) name = None \<and>
         deref s' p = None \<and>
         overlayDirs s' =
           ((overlayDirs (other2 s1))
              (resolvePathToNode s ino \<mapsto> serializeDir s' (dir_of s' ino)))
             (resolvePathToNode s ino @ [name] := None)))"
proof (intro conjI allI impI)
  show "rmdir ino name s = rmdir_interleaved (\<lambda>s. s) (\<lambda>s. s) ino name s"
    by (simp add: rmdir_interleaved_alone)
next
  fix p ent targetId targetDir s0
  assume a: "find_entry (dir_of s ino) name = Some p \<and> deref s p = Some ent \<and>
      S_ISDIR (mode ent) \<and>
      lookupChildByNameLocked ino (dir_of s ino) name s
        = (Inr (Some (targetId, TreeInodeObj targetDir)), s0) \<and>
      entries (tree_contents targetDir) \<noteq> []"
  then have c: "rmdir_checks ino name s = (Inl (SystemError ENOTEMPTY), s0)"
    by (intro rmdir_checks_nonempty[of s ino name p ent targetId targetDir s0]) simp_all
  then show "rmdir_interleaved other1 other2 ino name s = Some (Inl (SystemError ENOTEMPTY), s0)"
    by (simp add: rmdir_interleaved_def rmdir_preflight_def)
  from rmdir_checks_fields[of ino name s] c
  show "overlayDirs s0 = overlayDirs s" "syscalls s0 = syscalls s" "journal s0 = journal s"
    by simp_all
  from rmdir_checks_frame[of s ino name] c have "lookup_frame s s0" by simp
  then show "dir_of s0 ino = dir_of s ino" if "ino < nm_next s"
    using that by (rule lookup_frame_dir_of)
next
  fix s0 s1 p ent targetId targetDir s2
  assume a: "rmdir_preflight ino name s = (Inr (), s0) \<and>
      materializeDirAndParents ino (other1 s0) = Some (Inr (), s1) \<and>
      find_entry (dir_of (other2 s1) ino) name = Some p \<and> deref (other2 s1) p = Some ent \<and>
      S_ISDIR (mode ent) \<and>
      lookupChildByNameLocked ino (dir_of (other2 s1) ino) name (other2 s1)
        = (Inr (Some (targetId, TreeInodeObj targetDir)), s2) \<and>
      entries (tree_contents targetDir) \<noteq> []"
  then have c: "rmdir_checks ino name (other2 s1) = (Inl (SystemError ENOTEMPTY), s2)"
    by (intro rmdir_checks_nonempty[of "other2 s1" ino name p ent targetId targetDir s2])
       simp_all
  from a rmdir_locked_failed_checks(1)[OF c]
  show "rmdir_interleaved other1 other2 ino name s = Some (Inl (SystemError ENOTEMPTY), s2)"
    by (simp add: rmdir_interleaved_def)
  from rmdir_checks_fields[of ino name "other2 s1"] c
  show "overlayDirs s2 = overlayDirs (other2 s1)" "syscalls s2 = syscalls (other2 s1)"
    "journal s2 = journal (other2 s1)"
    by simp_all
  from rmdir_checks_frame[of "other2 s1" ino name] c have "lookup_frame (other2 s1) s2" by simp
  then show "dir_of s2 ino = dir_of (other2 s1) ino" if "ino < nm_next (other2 s1)"
    using that by (rule lookup_frame_dir_of)
next
  assume run: "rmdir_interleaved other1 other2 ino name s = Some (Inr (), s')"
  then show "\<exists>p0 ent0 targetId0 targetDir0 s0 s1 p ent targetId targetDir s2.
         find_entry (dir_of s ino) name = Some p0 \<and> deref s p0 = Some ent0 \<and>
         S_ISDIR (mode ent0) \<and>
         lookupChildByNameLocked ino (dir_of s ino) name s
           = (Inr (Some (targetId0, TreeInodeObj targetDir0)), s0) \<and>
         entries (tree_contents targetDir0) = [] \<and>
         materializeDirAndParents ino (other1 s0) = Some (Inr (), s1) \<and>
         find_entry (dir_of (other2 s1) ino) name = Some p \<and> deref (other2 s1) p = Some ent \<and>
         S_ISDIR (mode ent) \<and>
         lookupChildByNameLocked ino (dir_of (other2 s1) ino) name (other2 s1)
           = (Inr (Some (targetId, TreeInodeObj targetDir)), s2) \<and>
         entries (tree_contents targetDir) = [] \<and>
         find_entry (dir_of s' ino) name = None \<and>
         deref s' p = None \<and>
         overlayDirs s' =
           ((overlayDirs (other2 s1))
              (resolvePathToNode s ino \<mapsto> serializeDir s' (dir_of s' ino)))
             (resolvePathToNode s ino @ [name] := None)"
  proof (cases rule: rmdir_interleaved_cases)
    case (succeeded s0 s1 s2)
    from succeeded(1) obtain p0 where c0: "rmdir_checks ino name s = (Inr p0, s0)"
      by (auto simp: rmdir_preflight_def split: prod.splits sum.splits)
    from rmdir_checks_ok[OF c0] obtain ent0 targetId0 targetDir0 where
      pre: "find_entry (dir_of s ino) name = Some p0" "deref s p0 = Some ent0"
        "S_ISDIR (mode ent0)"
        "lookupChildByNameLocked ino (dir_of s ino) name s
           = (Inr (Some (targetId0, TreeInodeObj targetDir0)), s0)"
        "entries (tree_contents targetDir0) = []"
      by blast
    from rmdir_locked_done[OF succeeded(3)] obtain p s3 where
      c1: "rmdir_checks ino name (other2 s1) = (Inr p, s3)"
      and fin: "find_entry (dir_of s2 ino) name = None" "deref s2 p = None"
        "overlayDirs s2 =
           ((overlayDirs (other2 s1))
              (resolvePathToNode s ino \<mapsto> serializeDir s2 (dir_of s2 ino)))
             (resolvePathToNode s ino @ [name] := None)"
      by blast
    from rmdir_checks_ok[OF c1] obtain ent targetId targetDir where
      commit: "find_entry (dir_of (other2 s1) ino) name = Some p"
        "deref (other2 s1) p = Some ent" "S_ISDIR (mode ent)"
        "lookupChildByNameLocked ino (dir_of (other2 s1) ino) name (other2 s1)
           = (Inr (Some (targetId, TreeInodeObj targetDir)), s3)"
        "entries (tree_contents targetDir) = []"
      by blast
    from fin succeeded(5) have fin':
      "find_entry (dir_of s' ino) name = None" "deref s' p = None"
      "overlayDirs s' =
           ((overlayDirs (other2 s1))
              (resolvePathToNode s ino \<mapsto> serializeDir s' (dir_of s' ino)))
             (resolvePathToNode s ino @ [name] := None)"
      by simp_all
    show ?thesis
      using pre succeeded(2) commit fin'
      by (intro exI[of _ p0] exI[of _ ent0] exI[of _ targetId0] exI[of _ targetDir0]
          exI[of _ s0] exI[of _ s1] exI[of _ p] exI[of _ ent] exI[of _ targetId]
          exI[of _ targetDir] exI[of _ s3]) simp
  qed simp_all
qed


theorem rmdir_rechecks_emptiness_under_write_lock_witness:
  "rmdir FUSE_ROOT_ID ''empty'' example_materialized
     = rmdir_interleaved (\<lambda>s. s) (\<lambda>s. s) FUSE_ROOT_ID ''empty'' example_materialized \<and>
   (\<exists>s0. rmdir_interleaved (\<lambda>s. s) example_other_thread FUSE_ROOT_ID ''sub'' example_mount
           = Some (Inl (SystemError ENOTEMPTY), s0) \<and>
         overlayDirs s0 = overlayDirs example_mount \<and> syscalls s0 = [] \<and>
         dir_of s0 FUSE_ROOT_ID = example_root_dir) \<and>
   (\<exists>s2. rmdir_interleaved (\<lambda>s. s) example_other_thread FUSE_ROOT_ID ''empty''
             example_materialized
           = Some (Inl (SystemError ENOTEMPTY), s2) \<and>
         syscalls s2 = [SysMkdir [''overlay''] 493] \<and> journal s2 = [] \<and>
         find_entry (dir_of s2 FUSE_ROOT_ID) ''empty'' = Some 13) \<and>
   (\<exists>s'. rmdir_interleaved (\<lambda>s. s) (\<lambda>s. s) FUSE_ROOT_ID ''empty'' example_materialized
           = Some (Inr (), s') \<and>
         find_entry (dir_of example_materialized FUSE_ROOT_ID) ''empty'' = Some 13 \<and>
         find_entry (dir_of s' FUSE_ROOT_ID) ''empty'' = None)"
proof -
  note t = rmdir_rechecks_emptiness_under_write_lock
  have 0: "rmdir FUSE_ROOT_ID ''empty'' example_materialized
     = rmdir_interleaved (\<lambda>s. s) (\<lambda>s. s) FUSE_ROOT_ID ''empty'' example_materialized"
    by (rule conjunct1[OF t])
  let ?s0 = "snd (lookupChildByNameLocked FUSE_ROOT_ID (dir_of example_mount FUSE_ROOT_ID)
                    ''sub'' example_mount)"
  let ?ent = "\<lparr>mode = 16877, hash = Some 22, materialized = False\<rparr>"
  let ?dir = "\<lparr>tree_contents = \<lparr>entries = [(''c'', 14)], treeHash = Some 22,
                                    dir_materialized = False\<rparr>,
                  tree_entry = 12, tree_parent = FUSE_ROOT_ID\<rparr>"
  have pre: "find_entry (dir_of example_mount FUSE_ROOT_ID) ''sub'' = Some 12 \<and>
      deref example_mount 12 = Some ?ent \<and> S_ISDIR (mode ?ent) \<and>
      lookupChildByNameLocked FUSE_ROOT_ID (dir_of example_mount FUSE_ROOT_ID) ''sub''
        example_mount = (Inr (Some (2, TreeInodeObj ?dir)), ?s0) \<and>
      entries (tree_contents ?dir) \<noteq> []"
    using example_mount_lookup_sub
    by (simp add: prod_eq_iff example_mount_simps example_root_simps modes)
  note r = conjunct1[OF conjunct2[OF t
      [where s = example_mount and ino = FUSE_ROOT_ID and name = "''sub''"
         and ?other1.0 = "\<lambda>s. s" and ?other2.0 = example_other_thread]], rule_format, OF pre]
  have 1: "rmdir_interleaved (\<lambda>s. s) example_other_thread FUSE_ROOT_ID ''sub'' example_mount
       = Some (Inl (SystemError ENOTEMPTY), ?s0)"
    "overlayDirs ?s0 = overlayDirs example_mount" "syscalls ?s0 = []"
    "dir_of ?s0 FUSE_ROOT_ID = example_root_dir"
    using r by (simp_all add: example_mount_simps)
  from example_preflight_empty obtain s0 where
    p: "rmdir_preflight FUSE_ROOT_ID ''empty'' example_materialized = (Inr (), s0)"
      "materializeDirAndParents FUSE_ROOT_ID s0 = Some (Inr (), s0)"
      "find_entry (dir_of (example_other_thread s0) FUSE_ROOT_ID) ''empty'' = Some 13"
      "deref (example_other_thread s0) 13
          = Some \<lparr>mode = 16877, hash = Some 23, materialized = False\<rparr>"
      "lookupChildByNameLocked FUSE_ROOT_ID (dir_of (example_other_thread s0) FUSE_ROOT_ID)
            ''empty'' (example_other_thread s0)
          = (Inr (Some (2, TreeInodeObj
               \<lparr>tree_contents = \<lparr>entries = [(''x'', 11)], treeHash = None,
                                  dir_materialized = True\<rparr>,
                tree_entry = 13, tree_parent = FUSE_ROOT_ID\<rparr>)),
             snd (lookupChildByNameLocked FUSE_ROOT_ID
                    (dir_of (example_other_thread s0) FUSE_ROOT_ID)
                    ''empty'' (example_other_thread s0)))"
      and q: "syscalls (example_other_thread s0) = [SysMkdir [''overlay''] 493]"
        "journal (example_other_thread s0) = []" "nm_next (example_other_thread s0) = 3"
    by (elim exE conjE)
  let ?s2 = "snd (lookupChildByNameLocked FUSE_ROOT_ID
                    (dir_of (example_other_thread s0) FUSE_ROOT_ID)
                    ''empty'' (example_other_thread s0))"
  have commit: "rmdir_preflight FUSE_ROOT_ID ''empty'' example_materialized = (Inr (), s0) \<and>
      materializeDirAndParents FUSE_ROOT_ID s0 = Some (Inr (), s0) \<and>
      find_entry (dir_of (example_other_thread s0) FUSE_ROOT_ID) ''empty'' = Some 13 \<and>
      deref (example_other_thread s0) 13
        = Some \<lparr>mode = 16877, hash = Some 23, materialized = False\<rparr> \<and>
      S_ISDIR (mode \<lparr>mode = 16877, hash = Some 23, materialized = False\<rparr>) \<and>
      lookupChildByNameLocked FUSE_ROOT_ID (dir_of (example_other_thread s0) FUSE_ROOT_ID)
            ''empty'' (example_other_thread s0)
          = (Inr (Some (2, TreeInodeObj
               \<lparr>tree_contents = \<lparr>entries = [(''x'', 11)], treeHash = None,
                                  dir_materialized = True\<rparr>,
                tree_entry = 13, tree_parent = FUSE_ROOT_ID\<rparr>)), ?s2) \<and>
      entries (tree_contents
               \<lparr>tree_contents = \<lparr>entries = [(''x'', 11)], treeHash = None,
                                  dir_materialized = True\<rparr>,
                tree_entry = 13, tree_parent = FUSE_ROOT_ID\<rparr>) \<noteq> []"
    using p by (simp add: modes)
  note r2 = conjunct1[OF conjunct2[OF conjunct2[OF t
      [where s = example_materialized and ino = FUSE_ROOT_ID and name = "''empty''"
         and ?other1.0 = "\<lambda>s. s" and ?other2.0 = example_other_thread]]],
      rule_format, OF commit]
  have 2: "rmdir_interleaved (\<lambda>s. s) example_other_thread FUSE_ROOT_ID ''empty''
             example_materialized = Some (Inl (SystemError ENOTEMPTY), ?s2)"
    "syscalls ?s2 = [SysMkdir [''overlay''] 493]" "journal ?s2 = []"
    "find_entry (dir_of ?s2 FUSE_ROOT_ID) ''empty'' = Some 13"
    using r2 p(3) q by (simp_all add: FUSE_ROOT_ID_def)
  from example_rmdir_empty 0 obtain s' where
    run: "rmdir_interleaved (\<lambda>s. s) (\<lambda>s. s) FUSE_ROOT_ID ''empty'' example_materialized
            = Some (Inr (), s')"
    by auto
  note ex = mp[OF conjunct2[OF conjunct2[OF conjunct2[OF t
      [where s = example_materialized and ino = FUSE_ROOT_ID and name = "''empty''"
         and s' = s' and ?other1.0 = "\<lambda>s. s" and ?other2.0 = "\<lambda>s. s"]]]] run]
  from ex have 3: "find_entry (dir_of s' FUSE_ROOT_ID) ''empty'' = None"
    by (elim exE conjE)
  have 4: "find_entry (dir_of example_materialized FUSE_ROOT_ID) ''empty'' = Some 13"
    by (simp add: example_materialized_simps example_root_simps)
  show ?thesis
    using 0 1 2 run 3 4 by (intro conjI exI[of _ ?s0] exI[of _ ?s2] exI[of _ s']) simp_all
qed

text \<open>
  C5, as stated, fails for \<^verbatim>\<open>create\<close> and for \<^verbatim>\<open>mkdir\<close>: both append their delta before
  their last step, and that step can fail. \<^verbatim>\<open>create\<close> of \<open>b\<close> on the mount whose new file
  handle cannot read its attributes fails with the \<^verbatim>\<open>EIO\<close> of \<^verbatim>\<open>getattr\<close>, and \<^verbatim>\<open>mkdir\<close> of
  \<open>d\<close> on the mount whose name manager has a stale node for \<open>d\<close> fails in the lookup of
  the new directory; in both runs the journal, empty before, holds the delta of the path
  afterwards.
\<close>

theorem journal_delta_on_failure_counterexample:
  "journal example_noattr_mount = [] \<and>
   map_option fst (create FUSE_ROOT_ID ''b'' 33188 65 example_noattr_mount)
     = Some (Inl (HandleError EIO)) \<and>
   map_option (\<lambda>x. journal (snd x)) (create FUSE_ROOT_ID ''b'' 33188 65 example_noattr_mount)
     = Some [JournalDelta [[''b'']]] \<and>
   journal example_stale_mount = [] \<and>
   map_option fst (mkdir FUSE_ROOT_ID ''d'' 493 example_stale_mount)
     = Some (Inl AssertionFailure) \<and>
   map_option (\<lambda>x. journal (snd x)) (mkdir FUSE_ROOT_ID ''d'' 493 example_stale_mount)
     = Some [JournalDelta [[''d'']]]"
proof -
  from example_create_noattr obtain sc where
    "create FUSE_ROOT_ID ''b'' 33188 65 example_noattr_mount
       = Some (Inl (HandleError EIO), sc)" "journal sc = [JournalDelta [[''b'']]]" by blast
  moreover from example_mkdir_stale obtain sm where
    "mkdir FUSE_ROOT_ID ''d'' 493 example_stale_mount = Some (Inl AssertionFailure, sm)"
    "journal sm = [JournalDelta [[''d'']]]" by blast
  ultimately show ?thesis
    by (simp add: example_noattr_mount_simps example_stale_mount_simps)
qed

text \<open>
  C5, as amended. Whenever \<^verbatim>\<open>create\<close>, \<^verbatim>\<open>mkdir\<close>, \<^verbatim>\<open>unlink\<close>, \<^verbatim>\<open>rmdir\<close> or \<^verbatim>\<open>rename\<close>
  succeeds, the journal is the journal before the call followed by exactly one delta, the
  delta of the path of the name (of both paths for \<^verbatim>\<open>rename\<close>). Whenever \<^verbatim>\<open>unlink\<close>,
  \<^verbatim>\<open>rmdir\<close> or \<^verbatim>\<open>rename\<close> fails, the journal is the journal before the call. When \<^verbatim>\<open>create\<close>
  or \<^verbatim>\<open>mkdir\<close> fails, the journal is the journal before the call, unless the step that
  failed is the one after the append: then materialization and the function run under the
  write lock had succeeded, the journal is the journal before the call followed by the
  delta, and the error is that of \<^verbatim>\<open>getattr\<close> on the new file handle for \<^verbatim>\<open>create\<close>, that of
  the lookup of the new directory for \<^verbatim>\<open>mkdir\<close>.
\<close>

theorem journal_delta_after_commit:
  "(create ino name mode' flags s = Some (rc, sc) \<longrightarrow>
      (\<forall>res. rc = Inr res \<longrightarrow>
         journal sc = journal s @ [JournalDelta [resolvePathToNode s ino @ [name]]]) \<and>
      (\<forall>e. rc = Inl e \<longrightarrow>
         journal sc = journal s \<or>
         (journal sc = journal s @ [JournalDelta [resolvePathToNode s ino @ [name]]] \<and>
          (\<exists>s1 s2 v en.
             materializeDirAndParents ino s = Some (Inr (), s1) \<and>
             create_locked ino name flags (resolvePathToNode s ino)
               (contentDir s @ resolvePathToNode s ino @ [name]) s1 = (Inr v, s2) \<and>
             os s (syscalls s2)
               (HandleGetattr (contentDir s @ resolvePathToNode s ino @ [name])) = Inl en \<and>
             e = HandleError en)))) \<and>
   (mkdir ino name mode' s = Some (rm, sm) \<longrightarrow>
      (\<forall>i. rm = Inr i \<longrightarrow>
         journal sm = journal s @ [JournalDelta [resolvePathToNode s ino @ [name]]]) \<and>
      (\<forall>e. rm = Inl e \<longrightarrow>
         journal sm = journal s \<or>
         (journal sm = journal s @ [JournalDelta [resolvePathToNode s ino @ [name]]] \<and>
          (\<exists>s1 s2.
             materializeDirAndParents ino s = Some (Inr (), s1) \<and>
             mkdir_locked ino name mode' (resolvePathToNode s ino)
               (resolvePathToNode s ino @ [name]) s1 = (Inr (), s2) \<and>
             dispatcher_lookup ino name
               (addDelta (JournalDelta [resolvePathToNode s ino @ [name]]) s2)
               = (Inl e, sm))))) \<and>
   (unlink ino name s = Some (ru, su) \<longrightarrow>
      journal su = journal s @
        (case ru of Inr v \<Rightarrow> [JournalDelta [resolvePathToNode s ino @ [name]]]
                  | Inl e \<Rightarrow> [])) \<and>
   (rmdir ino name s = Some (rr, sr) \<longrightarrow>
      journal sr = journal s @
        (case rr of Inr v \<Rightarrow> [JournalDelta [resolvePathToNode s ino @ [name]]]
                  | Inl e \<Rightarrow> [])) \<and>
   (rename ino name newParent newName s = Some (rn, sn) \<longrightarrow>
      journal sn = journal s @
        (case rn of
           Inr v \<Rightarrow> [JournalDelta [resolvePathToNode s ino @ [name],
                                     resolvePathToNode s newParent @ [newName]]]
         | Inl e \<Rightarrow> []))"
proof (intro conjI impI)
  assume a: "create ino name mode' flags s = Some (rc, sc)"
  show "\<forall>res. rc = Inr res \<longrightarrow>
         journal sc = journal s @ [JournalDelta [resolvePathToNode s ino @ [name]]]"
    and "\<forall>e. rc = Inl e \<longrightarrow>
         journal sc = journal s \<or>
         (journal sc = journal s @ [JournalDelta [resolvePathToNode s ino @ [name]]] \<and>
          (\<exists>s1 s2 v en.
             materializeDirAndParents ino s = Some (Inr (), s1) \<and>
             create_locked ino name flags (resolvePathToNode s ino)
               (contentDir s @ resolvePathToNode s ino @ [name]) s1 = (Inr v, s2) \<and>
             os s (syscalls s2)
               (HandleGetattr (contentDir s @ resolvePathToNode s ino @ [name])) = Inl en \<and>
             e = HandleError en))"
    by (rule create_journal(1)[OF a], rule create_journal(2)[OF a])
next
  assume a: "mkdir ino name mode' s = Some (rm, sm)"
  show "\<forall>i. rm = Inr i \<longrightarrow>
         journal sm = journal s @ [JournalDelta [resolvePathToNode s ino @ [name]]]"
    and "\<forall>e. rm = Inl e \<longrightarrow>
         journal sm = journal s \<or>
         (journal sm = journal s @ [JournalDelta [resolvePathToNode s ino @ [name]]] \<and>
          (\<exists>s1 s2.
             materializeDirAndParents ino s = Some (Inr (), s1) \<and>
             mkdir_locked ino name mode' (resolvePathToNode s ino)
               (resolvePathToNode s ino @ [name]) s1 = (Inr (), s2) \<and>
             dispatcher_lookup ino name
               (addDelta (JournalDelta [resolvePathToNode s ino @ [name]]) s2)
               = (Inl e, sm)))"
    by (rule mkdir_journal(1)[OF a], rule mkdir_journal(2)[OF a])
next
  assume "unlink ino name s = Some (ru, su)"
  then show "journal su = journal s @
        (case ru of Inr v \<Rightarrow> [JournalDelta [resolvePathToNode s ino @ [name]]]
                  | Inl e \<Rightarrow> [])" by (rule unlink_journal)
next
  assume "rmdir ino name s = Some (rr, sr)"
  then show "journal sr = journal s @
        (case rr of Inr v \<Rightarrow> [JournalDelta [resolvePathToNode s ino @ [name]]]
                  | Inl e \<Rightarrow> [])" by (rule rmdir_journal)
next
  assume "rename ino name newParent newName s = Some (rn, sn)"
  then show "journal sn = journal s @
        (case rn of
           Inr v \<Rightarrow> [JournalDelta [resolvePathToNode s ino @ [name],
                                     resolvePathToNode s newParent @ [newName]]]
         | Inl e \<Rightarrow> [])" by (rule rename_journal)
qed


theorem journal_delta_after_commit_witness:
  "(\<exists>res sc. create FUSE_ROOT_ID ''b'' 33188 (O_CREAT OR O_WRONLY) example_mount
               = Some (Inr res, sc) \<and>
             journal sc = [JournalDelta [[''b'']]]) \<and>
   (\<exists>sc. create FUSE_ROOT_ID ''b'' 33188 65 example_noattr_mount
            = Some (Inl (HandleError EIO), sc) \<and>
         (journal sc = [] \<or> journal sc = [JournalDelta [[''b'']]])) \<and>
   (\<exists>i sm. mkdir FUSE_ROOT_ID ''d'' 493 example_mount = Some (Inr i, sm) \<and>
           journal sm = [JournalDelta [[''d'']]]) \<and>
   (\<exists>sm. mkdir FUSE_ROOT_ID ''d'' 493 example_stale_mount = Some (Inl AssertionFailure, sm) \<and>
         (journal sm = [] \<or> journal sm = [JournalDelta [[''d'']]])) \<and>
   (\<exists>su. unlink FUSE_ROOT_ID ''a'' example_mount = Some (Inr (), su) \<and>
         journal su = [JournalDelta [[''a'']]]) \<and>
   (\<exists>sr. rmdir FUSE_ROOT_ID ''empty'' example_materialized = Some (Inr (), sr) \<and>
         journal sr = [JournalDelta [[''empty'']]]) \<and>
   (\<exists>s1. rmdir FUSE_ROOT_ID ''sub'' example_mount = Some (Inl (SystemError ENOTEMPTY), s1) \<and>
         journal s1 = []) \<and>
   (\<exists>sn. rename FUSE_ROOT_ID ''a'' FUSE_ROOT_ID ''b'' example_mount = Some (Inr (), sn) \<and>
         journal sn = [JournalDelta [[''a''], [''b'']]]) \<and>
   rename FUSE_ROOT_ID ''sub'' FUSE_ROOT_ID ''a'' example_mount
     = Some (Inl (SystemError ENOTDIR), example_materialized) \<and>
   journal example_materialized = []"
proof -
  from example_create_b obtain res sc where
    c: "create FUSE_ROOT_ID ''b'' 33188 (O_CREAT OR O_WRONLY) example_mount
          = Some (Inr res, sc)" by blast
  from example_create_noattr obtain sc' where
    c': "create FUSE_ROOT_ID ''b'' 33188 65 example_noattr_mount
           = Some (Inl (HandleError EIO), sc')" by blast
  from example_mkdir_d obtain i sm where
    m: "mkdir FUSE_ROOT_ID ''d'' 493 example_mount = Some (Inr i, sm)" by blast
  from example_mkdir_stale obtain sm' where
    m': "mkdir FUSE_ROOT_ID ''d'' 493 example_stale_mount = Some (Inl AssertionFailure, sm')"
    by blast
  from example_unlink_a_mount obtain su where
    u: "unlink FUSE_ROOT_ID ''a'' example_mount = Some (Inr (), su)" ..
  from example_rmdir_empty obtain sr where
    r: "rmdir FUSE_ROOT_ID ''empty'' example_materialized = Some (Inr (), sr)" ..
  from example_rename_a_b obtain sn where
    n: "rename FUSE_ROOT_ID ''a'' FUSE_ROOT_ID ''b'' example_mount = Some (Inr (), sn)" ..
  obtain s1 where
    r2: "rmdir FUSE_ROOT_ID ''sub'' example_mount = Some (Inl (SystemError ENOTEMPTY), s1)"
    using example_rmdir_sub by blast
  note t = journal_delta_after_commit
    [where s = example_mount and ino = FUSE_ROOT_ID and mode' = 493]
  have 1: "journal sc = [JournalDelta [[''b'']]]"
    using journal_delta_after_commit
      [where s = example_mount and ino = FUSE_ROOT_ID and name = "''b''" and mode' = 33188
         and flags = "O_CREAT OR O_WRONLY" and rc = "Inr res" and sc = sc] c
    by (simp add: example_mount_simps)
  have c1: "journal sc' = [] \<or> journal sc' = [JournalDelta [[''b'']]]"
    using journal_delta_after_commit
      [where s = example_noattr_mount and ino = FUSE_ROOT_ID and name = "''b''"
         and mode' = 33188 and flags = 65 and rc = "Inl (HandleError EIO)" and sc = sc'] c'
    by (auto simp: example_noattr_mount_simps)
  have 2: "journal sm = [JournalDelta [[''d'']]]"
    using t[where name = "''d''" and rm = "Inr i" and sm = sm] m
    by (simp add: example_mount_simps)
  have m1: "journal sm' = [] \<or> journal sm' = [JournalDelta [[''d'']]]"
    using journal_delta_after_commit
      [where s = example_stale_mount and ino = FUSE_ROOT_ID and name = "''d''"
         and mode' = 493 and rm = "Inl AssertionFailure" and sm = sm'] m'
    by (auto simp: example_stale_mount_simps)
  have 4: "journal su = [JournalDelta [[''a'']]]"
    using t[where name = "''a''" and ru = "Inr ()" and su = su] u
    by (simp add: example_mount_simps)
  have 5: "journal sr = [JournalDelta [[''empty'']]]"
    using journal_delta_after_commit
      [where s = example_materialized and ino = FUSE_ROOT_ID and name = "''empty''"
         and rr = "Inr ()" and sr = sr] r
    by (simp add: example_materialized_simps)
  have 6: "journal s1 = []"
    using t[where name = "''sub''" and rr = "Inl (SystemError ENOTEMPTY)" and sr = s1] r2
    by (simp add: example_mount_simps)
  have 7: "journal sn = [JournalDelta [[''a''], [''b'']]]"
    using t[where name = "''a''" and newParent = FUSE_ROOT_ID and newName = "''b''"
        and rn = "Inr ()" and sn = sn] n
    by (simp add: example_mount_simps)
  have 8: "journal example_materialized = []"
    using t[where name = "''sub''" and newParent = FUSE_ROOT_ID and newName = "''a''"
        and rn = "Inl (SystemError ENOTDIR)" and sn = example_materialized]
      example_rename_sub_a
    by (simp add: example_mount_simps)
  show ?thesis
    using c 1 c' c1 m 2 m' m1 u 4 r 5 r2 6 n 7 example_rename_sub_a 8 by blast
qed

text \<open>
  C9, as stated, fails when the caller passes \<^verbatim>\<open>O_EXCL\<close>: the flags go to \<^verbatim>\<open>open\<close> as they
  are, the overlay file of the materialized entry \<open>a\<close> exists, and \<^verbatim>\<open>create\<close> fails with the
  \<^verbatim>\<open>EEXIST\<close> of \<^verbatim>\<open>open\<close>. The flags are \<^verbatim>\<open>O_CREAT | O_EXCL | O_WRONLY\<close>, 193.
\<close>

theorem create_EEXIST_from_open_counterexample:
  "find_entry (dir_of example_overlay_mount FUSE_ROOT_ID) ''a'' = Some 11 \<and>
   create FUSE_ROOT_ID ''a'' 33188 193 example_overlay_mount
     = Some (Inl (SystemError EEXIST),
             example_overlay_mount
               \<lparr>syscalls := [SysMkdir [''overlay''] 493,
                             SysOpen [''overlay'', ''a''] 194 384]\<rparr>)"
  using example_create_excl
  by (simp add: example_overlay_mount_simps example_root_simps sys_def)

text \<open>
  C9, as amended. \<^verbatim>\<open>create\<close> has no existence check of its own: it fails with \<^verbatim>\<open>EEXIST\<close>
  only when, after materialization, the \<^verbatim>\<open>open\<close> or the \<^verbatim>\<open>fstat\<close> system call answers
  \<^verbatim>\<open>EEXIST\<close>. Whenever materialization, \<^verbatim>\<open>open\<close> and \<^verbatim>\<open>fstat\<close> succeed, on a directory whose
  pointer for the name (if any) lies at or below the allocation mark of the heap,
  \<^verbatim>\<open>create\<close> returns and has replaced the entry whether or not the name had one:
  afterwards the name has a new \<^verbatim>\<open>Entry\<close>, materialized, without hash and with the mode
  that \<^verbatim>\<open>fstat\<close> gave, the \<^verbatim>\<open>Entry\<close> the name had before is freed, and the other names keep
  their entries. When the file inode then hands out its handle and \<^verbatim>\<open>getattr\<close> on the handle
  answers, \<^verbatim>\<open>create\<close> succeeds, with the new file inode and those attributes.
\<close>

theorem create_replaces_entry:
  "(create ino name mode' flags s = Some (Inl (SystemError EEXIST), s') \<longrightarrow>
      (\<exists>s1. materializeDirAndParents ino s = Some (Inr (), s1) \<and>
         (os s (syscalls s1)
            (SysOpen (contentDir s @ resolvePathToNode s ino @ [name])
               (O_RDWR OR O_CREAT OR (flags AND NOT (O_RDONLY OR O_WRONLY))) 384)
            = Inl EEXIST \<or>
          os s (syscalls s1 @
                  [SysOpen (contentDir s @ resolvePathToNode s ino @ [name])
                     (O_RDWR OR O_CREAT OR (flags AND NOT (O_RDONLY OR O_WRONLY))) 384])
            (SysFstat (contentDir s @ resolvePathToNode s ino @ [name])) = Inl EEXIST))) \<and>
   (\<forall>s1 fd m.
      materializeDirAndParents ino s = Some (Inr (), s1) \<and>
      slot_of s ino name \<le> heap_next s \<and>
      os s (syscalls s1)
        (SysOpen (contentDir s @ resolvePathToNode s ino @ [name])
           (O_RDWR OR O_CREAT OR (flags AND NOT (O_RDONLY OR O_WRONLY))) 384) = Inr fd \<and>
      os s (syscalls s1 @
              [SysOpen (contentDir s @ resolvePathToNode s ino @ [name])
                 (O_RDWR OR O_CREAT OR (flags AND NOT (O_RDONLY OR O_WRONLY))) 384])
        (SysFstat (contentDir s @ resolvePathToNode s ino @ [name])) = Inr m \<longrightarrow>
      (\<exists>r s2.
         create ino name mode' flags s = Some (r, s2) \<and>
         find_entry (dir_of s2 ino) name = Some (Suc (heap_next s)) \<and>
         deref s2 (Suc (heap_next s)) = Some \<lparr>mode = m, hash = None, materialized = True\<rparr> \<and>
         (\<forall>q. find_entry (dir_of s ino) name = Some q \<longrightarrow> deref s2 q = None) \<and>
         (\<forall>n. n \<noteq> name \<longrightarrow> find_entry (dir_of s2 ino) n = find_entry (dir_of s ino) n) \<and>
         (\<forall>h a.
            os s (syscalls s1 @
                    [SysOpen (contentDir s @ resolvePathToNode s ino @ [name])
                       (O_RDWR OR O_CREAT OR (flags AND NOT (O_RDONLY OR O_WRONLY))) 384,
                     SysFstat (contentDir s @ resolvePathToNode s ino @ [name])])
              (HandleFinishCreate (contentDir s @ resolvePathToNode s ino @ [name])) = Inr h \<and>
            os s (syscalls s1 @
                    [SysOpen (contentDir s @ resolvePathToNode s ino @ [name])
                       (O_RDWR OR O_CREAT OR (flags AND NOT (O_RDONLY OR O_WRONLY))) 384,
                     SysFstat (contentDir s @ resolvePathToNode s ino @ [name]),
                     HandleFinishCreate (contentDir s @ resolvePathToNode s ino @ [name])])
              (HandleGetattr (contentDir s @ resolvePathToNode s ino @ [name])) = Inr a \<longrightarrow>
            (\<exists>res. r = Inr res \<and> cr_attr_mode res = a \<and>
                   cr_inode res = FileInodeObj
                     \<lparr>file_parent = ino, file_entry = Suc (heap_next s)\<rparr>))))"
proof (intro conjI allI impI)
  let ?path = "contentDir s @ resolvePathToNode s ino @ [name]"
  let ?fl = "O_RDWR OR O_CREAT OR (flags AND NOT (O_RDONLY OR O_WRONLY))"
  assume run: "create ino name mode' flags s = Some (Inl (SystemError EEXIST), s')"
  then show "\<exists>s1. materializeDirAndParents ino s = Some (Inr (), s1) \<and>
         (os s (syscalls s1) (SysOpen ?path ?fl 384) = Inl EEXIST \<or>
          os s (syscalls s1 @ [SysOpen ?path ?fl 384]) (SysFstat ?path) = Inl EEXIST)"
  proof (cases rule: create_cases)
    case (materialize_failed e)
    with materialize_not_EEXIST[OF materialize_failed(1)] show ?thesis by simp
  next
    case (locked_failed s1 e)
    note rel = materialize_rel[OF locked_failed(1)]
    from locked_failed have
      "fst (create_locked ino name flags (resolvePathToNode s ino)
              (contentDir s1 @ resolvePathToNode s ino @ [name]) s1) = Inl (SystemError EEXIST)"
      by simp
    from create_locked_EEXIST[OF this] locked_failed(1) show ?thesis
      by (simp add: mat_rel_fields(7,8)[OF rel])
  qed simp_all
next
  let ?path = "contentDir s @ resolvePathToNode s ino @ [name]"
  let ?fl = "O_RDWR OR O_CREAT OR (flags AND NOT (O_RDONLY OR O_WRONLY))"
  let ?d = "JournalDelta [resolvePathToNode s ino @ [name]]"
  fix s1 fd m
  assume a: "materializeDirAndParents ino s = Some (Inr (), s1) \<and>
      slot_of s ino name \<le> heap_next s \<and>
      os s (syscalls s1) (SysOpen ?path ?fl 384) = Inr fd \<and>
      os s (syscalls s1 @ [SysOpen ?path ?fl 384]) (SysFstat ?path) = Inr m"
  then have mat: "materializeDirAndParents ino s = Some (Inr (), s1)" by simp
  note rel = materialize_rel[OF mat]
  note mf = mat_rel_fields[OF rel]
  have t1: "getTreeInode s1 ino \<noteq> None"
    using materialize_success_tree[OF mat] mat_rel_tree(1)[OF rel, of ino] by simp
  have "\<exists>r s'. create_locked ino name flags (resolvePathToNode s ino) ?path s1 = (r, s') \<and>
           find_entry (dir_of s' ino) name = Some (Suc (heap_next s1)) \<and>
           deref s' (Suc (heap_next s1)) = Some \<lparr>mode = m, hash = None, materialized = True\<rparr> \<and>
           (\<forall>q. find_entry (dir_of s1 ino) name = Some q \<longrightarrow> deref s' q = None) \<and>
           (\<forall>n. n \<noteq> name \<longrightarrow> find_entry (dir_of s' ino) n = find_entry (dir_of s1 ino) n) \<and>
           syscalls s' = syscalls s1 @
             [SysOpen ?path ?fl 384, SysFstat ?path, HandleFinishCreate ?path] \<and>
           (\<forall>h. os s1 (syscalls s1 @ [SysOpen ?path ?fl 384, SysFstat ?path])
                  (HandleFinishCreate ?path) = Inr h \<longrightarrow>
                (\<exists>node. r = Inr (node, FileInodeObj
                              \<lparr>file_parent = ino, file_entry = Suc (heap_next s1)\<rparr>)) \<and>
                overlayDirs s' (resolvePathToNode s ino) = Some (serializeDir s' (dir_of s' ino))) \<and>
           (\<forall>e. os s1 (syscalls s1 @ [SysOpen ?path ?fl 384, SysFstat ?path])
                  (HandleFinishCreate ?path) = Inl e \<longrightarrow>
                r = Inl (HandleError e))"
    using a by (intro create_locked_replaces[OF t1, where fd = fd])
      (simp_all add: mf(5,7,8) mat_rel_tree(5)[OF rel])
  then obtain rl sl where
    c: "create_locked ino name flags (resolvePathToNode s ino) ?path s1 = (rl, sl)"
      "find_entry (dir_of sl ino) name = Some (Suc (heap_next s))"
      "deref sl (Suc (heap_next s)) = Some \<lparr>mode = m, hash = None, materialized = True\<rparr>"
      "\<forall>q. find_entry (dir_of s ino) name = Some q \<longrightarrow> deref sl q = None"
      "\<forall>n. n \<noteq> name \<longrightarrow> find_entry (dir_of sl ino) n = find_entry (dir_of s ino) n"
      "syscalls sl = syscalls s1 @
             [SysOpen ?path ?fl 384, SysFstat ?path, HandleFinishCreate ?path]"
      "\<forall>h. os s (syscalls s1 @ [SysOpen ?path ?fl 384, SysFstat ?path])
                  (HandleFinishCreate ?path) = Inr h \<longrightarrow>
                (\<exists>node. rl = Inr (node, FileInodeObj
                              \<lparr>file_parent = ino, file_entry = Suc (heap_next s)\<rparr>))"
    by (simp add: mf(5,8) mat_rel_tree(4)[OF rel]) blast
  have osl: "os sl = os s"
    using c(1) create_locked_fields(4)[of ino name flags "resolvePathToNode s ino" ?path s1] mf(8)
    by simp
  let ?g = "sys (HandleGetattr ?path) (addDelta ?d sl)"
  define r where "r = (case rl of
      Inl e \<Rightarrow> Inl e
    | Inr (node, inode) \<Rightarrow>
        (case fst ?g of
           Inl e \<Rightarrow> Inl (HandleError e)
         | Inr attr \<Rightarrow> Inr \<lparr>cr_node = node, cr_inode = inode, cr_attr_mode = attr\<rparr>))"
  define s2 where "s2 = (case rl of Inl e \<Rightarrow> sl | Inr v \<Rightarrow> snd ?g)"
  have run: "create ino name mode' flags s = Some (r, s2)"
    using mat c(1)
    by (simp add: create_def Let_def mf(7) r_def s2_def case_prod_unfold
        split: sum.splits)
  have frame: "dir_of s2 = dir_of sl" "deref s2 = deref sl"
    by (simp_all add: s2_def fun_eq_iff split: sum.splits)
  have res: "\<exists>res. r = Inr res \<and> cr_attr_mode res = a \<and>
                   cr_inode res = FileInodeObj
                     \<lparr>file_parent = ino, file_entry = Suc (heap_next s)\<rparr>"
    if "os s (syscalls s1 @ [SysOpen ?path ?fl 384, SysFstat ?path])
          (HandleFinishCreate ?path) = Inr h \<and>
        os s (syscalls s1 @ [SysOpen ?path ?fl 384, SysFstat ?path, HandleFinishCreate ?path])
          (HandleGetattr ?path) = Inr a" for h a
  proof -
    from that c(7) obtain node where
      rl: "rl = Inr (node, FileInodeObj \<lparr>file_parent = ino, file_entry = Suc (heap_next s)\<rparr>)"
      by blast
    have "fst ?g = Inr a"
      using that c(6) osl by simp
    with rl show ?thesis by (simp add: r_def)
  qed
  show "\<exists>r s2.
         create ino name mode' flags s = Some (r, s2) \<and>
         find_entry (dir_of s2 ino) name = Some (Suc (heap_next s)) \<and>
         deref s2 (Suc (heap_next s)) = Some \<lparr>mode = m, hash = None, materialized = True\<rparr> \<and>
         (\<forall>q. find_entry (dir_of s ino) name = Some q \<longrightarrow> deref s2 q = None) \<and>
         (\<forall>n. n \<noteq> name \<longrightarrow> find_entry (dir_of s2 ino) n = find_entry (dir_of s ino) n) \<and>
         (\<forall>h a.
            os s (syscalls s1 @ [SysOpen ?path ?fl 384, SysFstat ?path])
              (HandleFinishCreate ?path) = Inr h \<and>
            os s (syscalls s1 @ [SysOpen ?path ?fl 384, SysFstat ?path, HandleFinishCreate ?path])
              (HandleGetattr ?path) = Inr a \<longrightarrow>
            (\<exists>res. r = Inr res \<and> cr_attr_mode res = a \<and>
                   cr_inode res = FileInodeObj
                     \<lparr>file_parent = ino, file_entry = Suc (heap_next s)\<rparr>))"
    using run c(2-5) res
    by (intro exI[of _ r] exI[of _ s2]) (simp add: frame)
qed


theorem create_replaces_entry_witness:
  "create FUSE_ROOT_ID ''a'' 33188 193 example_overlay_mount
     = Some (Inl (SystemError EEXIST),
             snd (sys (SysOpen [''overlay'', ''a''] 194 384) example_overlay_mount)) \<and>
   example_excl_os [SysMkdir [''overlay''] 493] (SysOpen [''overlay'', ''a''] 194 384)
     = Inl EEXIST \<and>
   find_entry (dir_of example_mount FUSE_ROOT_ID) ''a'' = Some 11 \<and>
   (\<exists>res s2. create FUSE_ROOT_ID ''a'' 33188 65 example_mount = Some (Inr res, s2) \<and>
        cr_attr_mode res = 33152 \<and>
        cr_inode res = FileInodeObj \<lparr>file_parent = FUSE_ROOT_ID, file_entry = 14\<rparr> \<and>
        find_entry (dir_of s2 FUSE_ROOT_ID) ''a'' = Some 14 \<and>
        deref s2 14 = Some \<lparr>mode = 33152, hash = None, materialized = True\<rparr> \<and>
        deref s2 11 = None \<and>
        find_entry (dir_of s2 FUSE_ROOT_ID) ''sub'' = Some 12)"
proof -
  let ?s' = "snd (sys (SysOpen [''overlay'', ''a''] 194 384) example_overlay_mount)"
  from conjunct1[OF create_replaces_entry[where s = example_overlay_mount
        and ino = FUSE_ROOT_ID and name = "''a''" and mode' = 33188 and flags = 193
        and s' = ?s'], rule_format, OF example_create_excl]
  have 1: "example_excl_os [SysMkdir [''overlay''] 493] (SysOpen [''overlay'', ''a''] 194 384)
             = Inl EEXIST"
    by (auto simp: materialize_idem example_overlay_mount_simps example_flags
        example_excl_os_def)
  let ?P = "contentDir example_mount @ resolvePathToNode example_mount FUSE_ROOT_ID @ [''a'']"
  let ?F = "O_RDWR OR O_CREAT OR (65 AND NOT (O_RDONLY OR O_WRONLY))"
  have pre: "materializeDirAndParents FUSE_ROOT_ID example_mount
               = Some (Inr (), example_materialized) \<and>
      slot_of example_mount FUSE_ROOT_ID ''a'' \<le> heap_next example_mount \<and>
      os example_mount (syscalls example_materialized) (SysOpen ?P ?F 384) = Inr 0 \<and>
      os example_mount (syscalls example_materialized @ [SysOpen ?P ?F 384]) (SysFstat ?P)
        = Inr 33152"
    by (simp add: example_materialize example_mount_simps example_root_simps slot_of_def
        example_os_def)
  have post: "os example_mount (syscalls example_materialized @ [SysOpen ?P ?F 384, SysFstat ?P])
                (HandleFinishCreate ?P) = Inr 0 \<and>
      os example_mount (syscalls example_materialized @
                          [SysOpen ?P ?F 384, SysFstat ?P, HandleFinishCreate ?P])
                (HandleGetattr ?P) = Inr 33152"
    by (simp add: example_mount_simps example_os_def)
  from conjunct2[OF create_replaces_entry[where s = example_mount
        and ino = FUSE_ROOT_ID and name = "''a''" and mode' = 33188 and flags = 65],
      rule_format, OF pre]
  obtain r s2 where
    c: "create FUSE_ROOT_ID ''a'' 33188 65 example_mount = Some (r, s2)"
      "find_entry (dir_of s2 FUSE_ROOT_ID) ''a'' = Some (Suc (heap_next example_mount))"
      "deref s2 (Suc (heap_next example_mount))
         = Some \<lparr>mode = 33152, hash = None, materialized = True\<rparr>"
      "\<forall>q. find_entry (dir_of example_mount FUSE_ROOT_ID) ''a'' = Some q \<longrightarrow> deref s2 q = None"
      "\<forall>n. n \<noteq> ''a'' \<longrightarrow> find_entry (dir_of s2 FUSE_ROOT_ID) n
                          = find_entry (dir_of example_mount FUSE_ROOT_ID) n"
      "\<forall>h a. os example_mount (syscalls example_materialized @ [SysOpen ?P ?F 384, SysFstat ?P])
                (HandleFinishCreate ?P) = Inr h \<and>
              os example_mount (syscalls example_materialized @
                          [SysOpen ?P ?F 384, SysFstat ?P, HandleFinishCreate ?P])
                (HandleGetattr ?P) = Inr a \<longrightarrow>
            (\<exists>res. r = Inr res \<and> cr_attr_mode res = a \<and>
                   cr_inode res = FileInodeObj
                     \<lparr>file_parent = FUSE_ROOT_ID,
                        file_entry = Suc (heap_next example_mount)\<rparr>)"
    by (elim exE conjE) (rule that; assumption)
  from c(6)[rule_format, OF post] obtain res where
    r: "r = Inr res" "cr_attr_mode res = 33152"
      "cr_inode res = FileInodeObj
         \<lparr>file_parent = FUSE_ROOT_ID, file_entry = Suc (heap_next example_mount)\<rparr>"
    by blast
  have 2: "find_entry (dir_of s2 FUSE_ROOT_ID) ''a'' = Some 14"
    "deref s2 14 = Some \<lparr>mode = 33152, hash = None, materialized = True\<rparr>"
    "deref s2 11 = None" "find_entry (dir_of s2 FUSE_ROOT_ID) ''sub'' = Some 12"
    "cr_inode res = FileInodeObj \<lparr>file_parent = FUSE_ROOT_ID, file_entry = 14\<rparr>"
    using c(2-5) r(3) by (simp_all add: example_mount_simps example_root_simps)
  have 3: "find_entry (dir_of example_mount FUSE_ROOT_ID) ''a'' = Some 11"
    by (simp add: example_mount_simps example_root_simps)
  show ?thesis
    using example_create_excl 1 3 c(1) r(1,2) 2
    by (intro conjI exI[of _ res] exI[of _ s2]) simp_all
qed
end
